theory Spec2Isabelle
  imports Main
begin

section \<open>The statement container of ts-simple-ast (StatementedNode.ts)\<close>

text \<open>
  A shallow embedding of the \<^verbatim>\<open>StatementedNode\<close> mixin
  (\<^verbatim>\<open>src/compiler/ast/statement/StatementedNode.ts\<close>). Every method of the mixin
  mutates \<^verbatim>\<open>this\<close> and may throw: a mutating method is modelled as a function from the
  node before the call to the pair of the outcome (\<open>Inl\<close> the error thrown, \<open>Inr\<close> the
  value returned) and the node as the call leaves it, so that the state at a throw is
  part of the result. A method that only reads is a function to its value.
\<close>

subsection \<open>Compiler nodes and wrapped nodes\<close>

datatype SyntaxKind =
    ClassDeclaration
  | EnumDeclaration
  | FunctionDeclaration
  | InterfaceDeclaration
  | ModuleDeclaration
  | TypeAliasDeclaration
  | VariableStatement
  | VariableDeclaration
  | Block
  | ExpressionStatement
  | OtherSyntaxKind nat

text \<open>
  A compiler node as far as the mixin looks at it: its syntax kind, its declared name
  (if it has one), the answer of \<^verbatim>\<open>isAmbient()\<close>, its body (\<^verbatim>\<open>getBody()\<close> of a
  function declaration, the statements of a block; \<open>None\<close> is \<^verbatim>\<open>undefined\<close>), the
  declarations of a variable statement, and its source text.
\<close>

datatype Node =
  Node (getKind: SyntaxKind) (getName: "string option") (isAmbient: bool)
       (getBody: "Node list option") (getDeclarations: "Node list") (getText: string)

text \<open>
  A wrapped node is a compiler node together with the child index of the statement it
  is (or, for a variable declaration, belongs to): identity is positional, two
  statements with the same content are different objects.
\<close>

type_synonym WrappedNode = "nat \<times> Node"

text \<open>
  The node the mixin is applied to. The type guards of \<^verbatim>\<open>getCompilerStatements\<close>
  range over a closed set of shapes; each shape carries the statements the compiler node
  holds. \<open>BodyableNode None\<close> is a bodyable node without a body; \<open>OtherNode\<close> is any
  node none of the guards recognises, with the children of its child syntax list if it
  has one.
\<close>

datatype CompilerNode =
    SourceFile "Node list"
  | CaseClause "Node list"
  | DefaultClause "Node list"
  | NamespaceDeclaration "Node list"
  | BodyableNode "Node list option"
  | BodiedNode "Node list"
  | BlockNode "Node list"
  | OtherNode "Node list option"

record StatementedNode =
  compilerNode :: CompilerNode
  inAmbientContext :: bool

datatype error =
    OutOfBounds
  | NotFound string
  | NotImplementedError
  | TypeError

type_synonym 'a outcome = "(error + 'a) \<times> StatementedNode"

definition andThen :: "'a outcome \<Rightarrow> ('a \<Rightarrow> StatementedNode \<Rightarrow> 'b outcome) \<Rightarrow> 'b outcome" where
  "andThen r f = (case r of (Inl e, this) \<Rightarrow> (Inl e, this) | (Inr a, this) \<Rightarrow> f a this)"

subsection \<open>Type guards\<close>

text \<open>
  Modelled from the spec: the \<^verbatim>\<open>TypeGuards\<close> functions are not in the source file. The
  spec (sections 3 and 9) names the container variants: a namespace body is an
  always-present body (a bodied node), a function declaration is optionally bodied.
\<close>

definition isSourceFile :: "StatementedNode \<Rightarrow> bool" where
  "isSourceFile this = (case compilerNode this of SourceFile _ \<Rightarrow> True | _ \<Rightarrow> False)"

definition isCaseClause :: "StatementedNode \<Rightarrow> bool" where
  "isCaseClause this = (case compilerNode this of CaseClause _ \<Rightarrow> True | _ \<Rightarrow> False)"

definition isDefaultClause :: "StatementedNode \<Rightarrow> bool" where
  "isDefaultClause this = (case compilerNode this of DefaultClause _ \<Rightarrow> True | _ \<Rightarrow> False)"

definition isBodyableNode :: "StatementedNode \<Rightarrow> bool" where
  "isBodyableNode this = (case compilerNode this of BodyableNode _ \<Rightarrow> True | _ \<Rightarrow> False)"

definition isBodiedNode :: "StatementedNode \<Rightarrow> bool" where
  "isBodiedNode this =
     (case compilerNode this of NamespaceDeclaration _ \<Rightarrow> True | BodiedNode _ \<Rightarrow> True | _ \<Rightarrow> False)"

definition isNodeAmbientOrInAmbientContext :: "StatementedNode \<Rightarrow> bool" where
  "isNodeAmbientOrInAmbientContext this = inAmbientContext this"

text \<open>
  Modelled from the spec: \<^verbatim>\<open>isImplementation()\<close> of a function declaration is not in
  the source file; section 3 of the spec calls an implementation a function declaration
  that has a body.
\<close>

definition isImplementation :: "Node \<Rightarrow> bool" where
  "isImplementation f = (getBody f \<noteq> None)"

subsection \<open>Bodies\<close>

text \<open>
  Modelled from the spec: \<^verbatim>\<open>hasBody\<close>, \<^verbatim>\<open>addBody\<close> and \<^verbatim>\<open>removeBody\<close> of a bodyable
  node are not in the source file; \<^verbatim>\<open>addBody\<close> synthesizes an empty body in place
  (section 4.2), \<^verbatim>\<open>removeBody\<close> removes the body instead of emptying it (section 4.7).
\<close>

definition hasBody :: "StatementedNode \<Rightarrow> bool" where
  "hasBody this = (case compilerNode this of BodyableNode None \<Rightarrow> False | _ \<Rightarrow> True)"

definition addBody :: "StatementedNode \<Rightarrow> StatementedNode" where
  "addBody this = this\<lparr>compilerNode := BodyableNode (Some [])\<rparr>"

definition removeBody :: "StatementedNode \<Rightarrow> StatementedNode" where
  "removeBody this = this\<lparr>compilerNode := BodyableNode None\<rparr>"

definition addBodyIfNotExists :: "StatementedNode \<Rightarrow> StatementedNode" where
  "addBodyIfNotExists node = (if isBodyableNode node \<and> \<not> hasBody node then addBody node else node)"

subsection \<open>Reading the statements\<close>

definition getCompilerStatements :: "StatementedNode \<Rightarrow> error + Node list" where
  "getCompilerStatements this =
     (case compilerNode this of
        SourceFile ss \<Rightarrow> Inr ss
      | CaseClause ss \<Rightarrow> Inr ss
      | DefaultClause ss \<Rightarrow> Inr ss
      | NamespaceDeclaration ss \<Rightarrow> Inr ss
      | BodyableNode body \<Rightarrow> (case body of None \<Rightarrow> Inr [] | Some ss \<Rightarrow> Inr ss)
      | BodiedNode ss \<Rightarrow> Inr ss
      | BlockNode ss \<Rightarrow> Inr ss
      | OtherNode _ \<Rightarrow> Inl NotImplementedError)"

text \<open>\<^verbatim>\<open>getNodeFromCompilerNode\<close> wraps each statement: here, with its child index.\<close>

definition getStatements :: "StatementedNode \<Rightarrow> error + WrappedNode list" where
  "getStatements this =
     (case getCompilerStatements this of Inl e \<Rightarrow> Inl e | Inr ss \<Rightarrow> Inr (enumerate 0 ss))"

text \<open>
  Modelled from the spec: \<^verbatim>\<open>getChildSyntaxList\<close> and \<^verbatim>\<open>getChildrenOfKind\<close> are methods
  of \<^verbatim>\<open>Node\<close>, not in the source file. The child syntax list of a container holds its
  direct children, the statements of its body; a bodyable node without a body has none
  (section 4.6: an empty sequence if no body exists).
\<close>

definition getChildSyntaxList :: "StatementedNode \<Rightarrow> Node list option" where
  "getChildSyntaxList this =
     (case compilerNode this of
        SourceFile ss \<Rightarrow> Some ss
      | CaseClause ss \<Rightarrow> Some ss
      | DefaultClause ss \<Rightarrow> Some ss
      | NamespaceDeclaration ss \<Rightarrow> Some ss
      | BodyableNode body \<Rightarrow> body
      | BodiedNode ss \<Rightarrow> Some ss
      | BlockNode ss \<Rightarrow> Some ss
      | OtherNode children \<Rightarrow> children)"

definition getChildrenOfKind :: "SyntaxKind \<Rightarrow> Node list \<Rightarrow> WrappedNode list" where
  "getChildrenOfKind kind children = filter (\<lambda>w. getKind (snd w) = kind) (enumerate 0 children)"

text \<open>The children of the node replaced by the host's splice of its text.\<close>

definition replaceChildren :: "Node list \<Rightarrow> StatementedNode \<Rightarrow> StatementedNode" where
  "replaceChildren ss this =
     this\<lparr>compilerNode :=
       (case compilerNode this of
          SourceFile _ \<Rightarrow> SourceFile ss
        | CaseClause _ \<Rightarrow> CaseClause ss
        | DefaultClause _ \<Rightarrow> DefaultClause ss
        | NamespaceDeclaration _ \<Rightarrow> NamespaceDeclaration ss
        | BodyableNode _ \<Rightarrow> BodyableNode (Some ss)
        | BodiedNode _ \<Rightarrow> BodiedNode ss
        | BlockNode _ \<Rightarrow> BlockNode ss
        | OtherNode _ \<Rightarrow> OtherNode (Some ss))\<rparr>"

subsection \<open>Lookup\<close>

datatype NameOrFindFunction = Name string | FindFunction "WrappedNode \<Rightarrow> bool"

text \<open>
  Modelled from the spec: \<^verbatim>\<open>ArrayUtils.find\<close>, \<^verbatim>\<open>getNodeByNameOrFindFunction\<close> and
  \<^verbatim>\<open>errors.throwIfNullOrUndefined\<close> are not in the source file. Section 4.3: \<open>find\<close> is
  the first match or absent; given a string, match on each item's declared name (an item
  without a name never matches); given a predicate, apply it. The throwing variant fails
  with \<open>NotFound\<close>; the message is kept as the string the caller passes.
\<close>

definition find_first :: "'a list \<Rightarrow> ('a \<Rightarrow> bool) \<Rightarrow> 'a option" where
  "find_first items findFunction = List.find findFunction items"

definition getNodeByNameOrFindFunction :: "WrappedNode list \<Rightarrow> NameOrFindFunction \<Rightarrow> WrappedNode option" where
  "getNodeByNameOrFindFunction items nameOrFindFunction =
     (case nameOrFindFunction of
        Name n \<Rightarrow> find_first items (\<lambda>w. getName (snd w) = Some n)
      | FindFunction f \<Rightarrow> find_first items f)"

definition throwIfNullOrUndefined :: "'a option \<Rightarrow> string \<Rightarrow> error + 'a" where
  "throwIfNullOrUndefined v message = (case v of None \<Rightarrow> Inl (NotFound message) | Some x \<Rightarrow> Inr x)"

definition getStatement :: "(WrappedNode \<Rightarrow> bool) \<Rightarrow> StatementedNode \<Rightarrow> error + WrappedNode option" where
  "getStatement findFunction this =
     (case getStatements this of Inl e \<Rightarrow> Inl e | Inr ss \<Rightarrow> Inr (find_first ss findFunction))"

definition getStatementOrThrow :: "(WrappedNode \<Rightarrow> bool) \<Rightarrow> StatementedNode \<Rightarrow> error + WrappedNode" where
  "getStatementOrThrow findFunction this =
     (case getStatement findFunction this of
        Inl e \<Rightarrow> Inl e
      | Inr v \<Rightarrow> throwIfNullOrUndefined v ''Expected to find a statement matching the provided condition.'')"

definition getStatementByKind :: "SyntaxKind \<Rightarrow> StatementedNode \<Rightarrow> error + WrappedNode option" where
  "getStatementByKind kind this =
     (case getCompilerStatements this of
        Inl e \<Rightarrow> Inl e
      | Inr ss \<Rightarrow> Inr (find_first (enumerate 0 ss) (\<lambda>s. getKind (snd s) = kind)))"

text \<open>
  The message of the source ends with the name \<^verbatim>\<open>getSyntaxKindName\<close> gives the kind;
  the name is left out here.
\<close>

definition getStatementByKindOrThrow :: "SyntaxKind \<Rightarrow> StatementedNode \<Rightarrow> error + WrappedNode" where
  "getStatementByKindOrThrow kind this =
     (case getStatementByKind kind this of
        Inl e \<Rightarrow> Inl e
      | Inr v \<Rightarrow> throwIfNullOrUndefined v ''Expected to find a statement with syntax kind.'')"

subsection \<open>Structures, the writer and the host\<close>

text \<open>
  A declaration structure as far as the mixin reads it: the name and the optional
  \<^verbatim>\<open>hasDeclareKeyword\<close> flag (\<open>None\<close> is a property that is not set). Everything else
  of a structure is only read by the structure printers.
\<close>

record Structure =
  structureName :: string
  hasDeclareKeyword :: "bool option"

text \<open>
  The printers of \<^verbatim>\<open>structurePrinterFactory\<close>, with the \<^verbatim>\<open>isAmbient\<close> option where
  the mixin passes one.
\<close>

datatype StructurePrinter =
    forClassDeclaration bool
  | forEnumDeclaration
  | forFunctionDeclaration bool
  | forInterfaceDeclaration
  | forNamespaceDeclaration bool
  | forTypeAliasDeclaration
  | forVariableStatement

text \<open>
  The \<^verbatim>\<open>CodeBlockWriter\<close> is a library outside the repository. A writer is modelled as
  the calls made on it, in order: which text a call produces is the library's business,
  which calls are made is the mixin's.
\<close>

datatype WriterCall =
    BlankLine
  | NewLine
  | ConditionalNewLine bool
  | PrintTexts StructurePrinter "Structure list"
  | WriteText string

type_synonym CodeBlockWriter = "WriterCall list"

definition blankLine :: "CodeBlockWriter \<Rightarrow> CodeBlockWriter" where
  "blankLine writer = writer @ [BlankLine]"

definition newLine :: "CodeBlockWriter \<Rightarrow> CodeBlockWriter" where
  "newLine writer = writer @ [NewLine]"

definition conditionalNewLine :: "bool \<Rightarrow> CodeBlockWriter \<Rightarrow> CodeBlockWriter" where
  "conditionalNewLine condition writer = writer @ [ConditionalNewLine condition]"

definition printTexts :: "StructurePrinter \<Rightarrow> Structure list \<Rightarrow> CodeBlockWriter \<Rightarrow> CodeBlockWriter" where
  "printTexts printer structures writer = writer @ [PrintTexts printer structures]"

datatype TextOrWriterFunction =
    Text string
  | WriterFunction "CodeBlockWriter \<Rightarrow> CodeBlockWriter"

text \<open>
  Modelled from the spec: \<^verbatim>\<open>printTextFromStringOrWriter\<close> is not in the source file.
  Section 9: a text input is literal text or a generator that writes to the writer.
\<close>

definition printTextFromStringOrWriter :: "CodeBlockWriter \<Rightarrow> TextOrWriterFunction \<Rightarrow> CodeBlockWriter" where
  "printTextFromStringOrWriter writer textOrWriterFunction =
     (case textOrWriterFunction of Text t \<Rightarrow> writer @ [WriteText t] | WriterFunction f \<Rightarrow> f writer)"

text \<open>
  Modelled from the spec: the host compiler and the structure printers are black boxes
  (sections 1 and 6). The host is the function that gives the nodes the parser finds in
  a text, the text being the calls that were made on the writer that wrote it. It is a
  function: the same text gives the same nodes.
\<close>

record Host =
  parseText :: "CodeBlockWriter \<Rightarrow> Node list"

subsection \<open>The standard write\<close>

record InsertIntoBracesOrSourceFileOptionsWriteInfo =
  previousMember :: "WrappedNode option"
  nextMember :: "WrappedNode option"
  isStartOfFile :: bool

text \<open>
  The two optional callbacks of \<^verbatim>\<open>StandardWriteOptions\<close>. A callback may throw (the
  callbacks of \<^verbatim>\<open>insertFunctions\<close> read a property of \<^verbatim>\<open>structures[0]\<close>, which is a
  \<^verbatim>\<open>TypeError\<close> on an empty array), so it returns an error or a boolean.
\<close>

record StandardWriteOptions =
  previousNewLine :: "(WrappedNode \<Rightarrow> error + bool) option"
  nextNewLine :: "(WrappedNode \<Rightarrow> error + bool) option"

definition noStandardWriteOptions :: StandardWriteOptions where
  "noStandardWriteOptions = \<lparr>previousNewLine = None, nextNewLine = None\<rparr>"

text \<open>
  The condition \<^verbatim>\<open>member != null && (newLine == null || !newLine(member))\<close> of
  \<^verbatim>\<open>_standardWrite\<close>, with JavaScript's evaluation order: the callback is only called
  when there is a member and a callback.
\<close>

definition memberNeedsBlankLine ::
  "WrappedNode option \<Rightarrow> (WrappedNode \<Rightarrow> error + bool) option \<Rightarrow> error + bool" where
  "memberNeedsBlankLine member newLineCallback =
     (case member of
        None \<Rightarrow> Inr False
      | Some m \<Rightarrow>
          (case newLineCallback of
             None \<Rightarrow> Inr True
           | Some f \<Rightarrow> (case f m of Inl e \<Rightarrow> Inl e | Inr b \<Rightarrow> Inr (\<not> b))))"

text \<open>\<^verbatim>\<open>_standardWrite\<close> (an Isabelle name cannot start with an underscore).\<close>

definition standardWrite ::
  "CodeBlockWriter \<Rightarrow> InsertIntoBracesOrSourceFileOptionsWriteInfo \<Rightarrow>
   (CodeBlockWriter \<Rightarrow> CodeBlockWriter) \<Rightarrow> StandardWriteOptions \<Rightarrow> error + CodeBlockWriter" where
  "standardWrite writer info writeStructures opts =
     (case memberNeedsBlankLine (previousMember info) (previousNewLine opts) of
        Inl e \<Rightarrow> Inl e
      | Inr blankBefore \<Rightarrow>
          (let writer1 = (if blankBefore then blankLine writer
                          else if \<not> isStartOfFile info then newLine writer
                          else writer);
               writer2 = writeStructures writer1
           in case memberNeedsBlankLine (nextMember info) (nextNewLine opts) of
                Inl e \<Rightarrow> Inl e
              | Inr blankAfter \<Rightarrow> Inr (if blankAfter then blankLine writer2 else newLine writer2)))"

subsection \<open>The insertion engine\<close>

text \<open>
  JavaScript's \<^verbatim>\<open>Array.prototype.slice(start, end)\<close> on integers: a negative bound
  counts from the end, both bounds are clamped to the array.
\<close>

definition slice :: "'a list \<Rightarrow> int \<Rightarrow> int \<Rightarrow> 'a list" where
  "slice xs start finish =
     (let len = int (length xs);
          k = (if start < 0 then max (len + start) 0 else min start len);
          final = (if finish < 0 then max (len + finish) 0 else min finish len)
      in take (nat (final - k)) (drop (nat k) xs))"

text \<open>
  \<^verbatim>\<open>verifyAndGetIndex\<close> is not in the source file. It is modelled as the helper of the
  library behaves: a negative index counts from the end and stands for the length plus
  the index; the call fails when that is still negative, and when the index is above the
  length. The error is the out-of-bounds error of section 4.1 of the spec.
\<close>

definition verifyAndGetIndex :: "int \<Rightarrow> int \<Rightarrow> error + int" where
  "verifyAndGetIndex idx len =
     (let newIndex = (if idx < 0 then len + idx else idx)
      in if newIndex < 0 then Inl OutOfBounds
         else if idx > len then Inl OutOfBounds
         else Inr newIndex)"

record InsertChildrenOptions =
  expectedKind :: SyntaxKind
  index :: int
  structures :: "Structure list"
  write_callback :: "CodeBlockWriter \<Rightarrow> InsertIntoBracesOrSourceFileOptionsWriteInfo \<Rightarrow> error + CodeBlockWriter"

text \<open>
  \<^verbatim>\<open>insertIntoBracesOrSourceFileWithGetChildren\<close>, the insertion engine, is not in the
  source file. Section 4.4 of the spec gives its steps; where the spec is silent or the
  library does otherwise, the model follows the library, and says so.

  The write info (section 4.4, step 2) holds the member before and the member after the
  insertion point, if any, and whether the insertion point is the start of the source
  file. The library does not hand the callback an overload for a member: where the
  statement next to the insertion point is a function declaration, the member is its
  implementation, the function declaration of the same name that has a body, if there is
  one among the statements.
\<close>

definition getImplementation :: "WrappedNode list \<Rightarrow> WrappedNode \<Rightarrow> WrappedNode option" where
  "getImplementation siblings child =
     (if isImplementation (snd child) then Some child
      else find_first
             (filter (\<lambda>n. getKind (snd n) = getKind (snd child) \<and> getName (snd n) = getName (snd child))
                siblings)
             (\<lambda>n. isImplementation (snd n)))"

definition getChild :: "WrappedNode list \<Rightarrow> WrappedNode \<Rightarrow> WrappedNode" where
  "getChild siblings child =
     (if getKind (snd child) = FunctionDeclaration
      then (case getImplementation siblings child of None \<Rightarrow> child | Some implementation \<Rightarrow> implementation)
      else child)"

definition getWriteInfo ::
  "StatementedNode \<Rightarrow> WrappedNode list \<Rightarrow> nat \<Rightarrow> InsertIntoBracesOrSourceFileOptionsWriteInfo" where
  "getWriteInfo parent children i =
     \<lparr>previousMember =
        (if 0 < i \<and> i \<le> length children then Some (getChild children (children ! (i - 1))) else None),
      nextMember = (if i < length children then Some (getChild children (children ! i)) else None),
      isStartOfFile = (isSourceFile parent \<and> i = 0)\<rparr>"

text \<open>
  What the engine returns (section 4.4, step 5): the statements at the index, as many
  as there are structures. It fails when there are fewer, or when one is not of the
  expected kind.
\<close>

definition getRangeFromArray :: "WrappedNode list \<Rightarrow> int \<Rightarrow> nat \<Rightarrow> SyntaxKind \<Rightarrow> error + WrappedNode list" where
  "getRangeFromArray array idx len kind =
     (let children = slice array idx (idx + int len)
      in if length children \<noteq> len then Inl NotImplementedError
         else if \<not> list_all (\<lambda>c. getKind (snd c) = kind) children then Inl NotImplementedError
         else Inr children)"

text \<open>
  The engine. With no structure it returns the empty list at once (the library; the
  spec has no word on it). Else the index is validated against the statement count before
  any text is written; the callback writes the text, with the spacing it decides, to a
  new writer; the host splices the text in at the index and parses it, which leaves the
  siblings as they are (section 6); the statements at the index are returned.
\<close>

definition insertIntoBracesOrSourceFileWithGetChildren ::
  "Host \<Rightarrow> InsertChildrenOptions \<Rightarrow> StatementedNode \<Rightarrow> (WrappedNode list) outcome" where
  "insertIntoBracesOrSourceFileWithGetChildren host opts parent =
     (if structures opts = [] then (Inr [], parent)
      else
        (case getStatements parent of
           Inl e \<Rightarrow> (Inl e, parent)
         | Inr startChildren \<Rightarrow>
             (case verifyAndGetIndex (index opts) (int (length startChildren)) of
                Inl e \<Rightarrow> (Inl e, parent)
              | Inr verified \<Rightarrow>
                  (let i = nat verified in
                   case write_callback opts [] (getWriteInfo parent startChildren i) of
                     Inl e \<Rightarrow> (Inl e, parent)
                   | Inr written \<Rightarrow>
                       (let spliced = replaceChildren
                              (take i (map snd startChildren) @ parseText host written
                               @ drop i (map snd startChildren))
                              parent
                        in case getStatements spliced of
                             Inl e \<Rightarrow> (Inl e, spliced)
                           | Inr endChildren \<Rightarrow>
                               (getRangeFromArray endChildren verified
                                  (length (structures opts)) (expectedKind opts),
                                spliced))))))"

text \<open>\<^verbatim>\<open>_insertChildren\<close>.\<close>

definition insertChildren :: "Host \<Rightarrow> InsertChildrenOptions \<Rightarrow> StatementedNode \<Rightarrow> (WrappedNode list) outcome" where
  "insertChildren host opts this =
     insertIntoBracesOrSourceFileWithGetChildren host opts (addBodyIfNotExists this)"

text \<open>
  Modelled from the spec: \<^verbatim>\<open>insertChildText\<close> of a syntax list is not in the source
  file. As the engine does for structures, it validates the index against the children
  of the list, writes the text to a new writer, and the host splices and re-parses; it
  returns the list with the new nodes in it and the new nodes, wrapped.
\<close>

definition insertChildText ::
  "Host \<Rightarrow> int \<Rightarrow> TextOrWriterFunction \<Rightarrow> Node list \<Rightarrow> error + (WrappedNode list \<times> Node list)" where
  "insertChildText host idx textOrWriterFunction children =
     (case verifyAndGetIndex idx (int (length children)) of
        Inl e \<Rightarrow> Inl e
      | Inr verified \<Rightarrow>
          (let i = nat verified;
               inserted = parseText host (printTextFromStringOrWriter [] textOrWriterFunction)
           in Inr (enumerate i inserted, take i children @ inserted @ drop i children)))"

text \<open>
  \<^verbatim>\<open>insertStatements\<close>: the text goes into the child syntax list of the node, or, for
  a case or default clause whose first child is a block, into the child syntax list of
  that block. \<^verbatim>\<open>getChildSyntaxListOrThrow\<close> throws when there is no such list.
\<close>

definition insertStatements :: "Host \<Rightarrow> int \<Rightarrow> TextOrWriterFunction \<Rightarrow> StatementedNode \<Rightarrow> (WrappedNode list) outcome" where
  "insertStatements host idx textOrWriterFunction this0 =
     (let this = addBodyIfNotExists this0 in
      case getChildSyntaxList this of
        None \<Rightarrow> (Inl (NotFound ''child syntax list''), this)
      | Some childSyntaxList \<Rightarrow>
          (case (if isCaseClause this \<or> isDefaultClause this then childSyntaxList else []) of
             Node Block blockName blockAmbient blockBody blockDeclarations blockText # siblings \<Rightarrow>
               (case blockBody of
                  None \<Rightarrow> (Inl (NotFound ''child syntax list''), this)
                | Some blockChildren \<Rightarrow>
                    (case insertChildText host idx textOrWriterFunction blockChildren of
                       Inl e \<Rightarrow> (Inl e, this)
                     | Inr (nodes, newBlockChildren) \<Rightarrow>
                         (Inr nodes,
                          replaceChildren
                            (Node Block blockName blockAmbient (Some newBlockChildren)
                               blockDeclarations blockText # siblings) this)))
           | _ \<Rightarrow>
               (case insertChildText host idx textOrWriterFunction childSyntaxList of
                  Inl e \<Rightarrow> (Inl e, this)
                | Inr (nodes, newChildren) \<Rightarrow> (Inr nodes, replaceChildren newChildren this))))"

definition addStatements :: "Host \<Rightarrow> TextOrWriterFunction \<Rightarrow> StatementedNode \<Rightarrow> (WrappedNode list) outcome" where
  "addStatements host textOrWriterFunction this =
     (case getCompilerStatements this of
        Inl e \<Rightarrow> (Inl e, this)
      | Inr ss \<Rightarrow> insertStatements host (int (length ss)) textOrWriterFunction this)"


subsection \<open>Removal\<close>

text \<open>
  \<^verbatim>\<open>errors.throwIfRangeOutOfRange\<close> is not in the source file. It is modelled as the
  helper of the library behaves: a range is a pair of ends that both belong to it, as the
  index range of \<^verbatim>\<open>removeStatements\<close> is (the slice goes to its second end plus one); the
  call fails when the start of the actual range is above its end, and when one of its ends
  is outside the range it is checked against. Section 4.1 of the spec words the check
  with the upper end left out; the pair \<^verbatim>\<open>removeStatements\<close> passes is
  \<^verbatim>\<open>[0, statements.length]\<close>. The errors are the out-of-bounds error of section 4.1.
\<close>

definition throwIfRangeOutOfRange :: "int \<times> int \<Rightarrow> int \<times> int \<Rightarrow> error + unit" where
  "throwIfRangeOutOfRange actualRange bounds =
     (if fst actualRange > snd actualRange then Inl OutOfBounds
      else if fst actualRange < fst bounds \<or> fst actualRange > snd bounds then Inl OutOfBounds
      else if snd actualRange < fst bounds \<or> snd actualRange > snd bounds then Inl OutOfBounds
      else Inr ())"

text \<open>
  Modelled from the spec: \<^verbatim>\<open>removeStatementedNodeChildren\<close> is not in the source file.
  Section 4.5: the host deletes the text of the given statements; what is left are the
  children whose child index is not among those of the given nodes.
\<close>

definition removeStatementedNodeChildren :: "WrappedNode list \<Rightarrow> StatementedNode \<Rightarrow> StatementedNode" where
  "removeStatementedNodeChildren nodes this =
     (case getChildSyntaxList this of
        None \<Rightarrow> this
      | Some children \<Rightarrow>
          replaceChildren
            (map snd (filter (\<lambda>w. fst w \<notin> set (map fst nodes)) (enumerate 0 children))) this)"

text \<open>
  \<^verbatim>\<open>remove()\<close> of a declaration is not in the source file. A loop that removes each
  node of a list that was read before the loop removes every node of that list (section
  4.7 of the spec: remove every existing declaration of that kind); for a class, an enum,
  an interface, a namespace or a type alias that is \<^verbatim>\<open>removeStatementedNodeChildren\<close> of
  the list. The library removes a function declaration that has a body together with its
  overloads, the function declarations of the same name that have no body; one that has
  no body is removed alone.
\<close>

definition isOverloadOf :: "Node \<Rightarrow> Node \<Rightarrow> bool" where
  "isOverloadOf n implementation =
     (isImplementation implementation \<and> \<not> isImplementation n
      \<and> getKind n = getKind implementation \<and> getName n = getName implementation)"

definition removeOverloadableStatementedNodeChildren ::
  "WrappedNode list \<Rightarrow> StatementedNode \<Rightarrow> StatementedNode" where
  "removeOverloadableStatementedNodeChildren nodes this =
     (case getChildSyntaxList this of
        None \<Rightarrow> this
      | Some children \<Rightarrow>
          replaceChildren
            (map snd (filter (\<lambda>w. fst w \<notin> set (map fst nodes)
                                   \<and> \<not> list_ex (\<lambda>f. isOverloadOf (snd w) (snd f)) nodes)
                        (enumerate 0 children))) this)"

definition removeStatements :: "int \<times> int \<Rightarrow> StatementedNode \<Rightarrow> unit outcome" where
  "removeStatements indexRange this =
     (case getStatements this of
        Inl e \<Rightarrow> (Inl e, this)
      | Inr statements \<Rightarrow>
          (case throwIfRangeOutOfRange indexRange (0, int (length statements)) of
             Inl e \<Rightarrow> (Inl e, this)
           | Inr _ \<Rightarrow>
               (Inr (),
                removeStatementedNodeChildren
                  (slice statements (fst indexRange) (snd indexRange + 1)) this)))"

definition removeStatement :: "int \<Rightarrow> StatementedNode \<Rightarrow> unit outcome" where
  "removeStatement idx this =
     (case getCompilerStatements this of
        Inl e \<Rightarrow> (Inl e, this)
      | Inr ss \<Rightarrow>
          (case verifyAndGetIndex idx (int (length ss) - 1) of
             Inl e \<Rightarrow> (Inl e, this)
           | Inr i \<Rightarrow> removeStatements (i, i) this))"

subsection \<open>The declaration kinds\<close>

text \<open>\<^verbatim>\<open>array[0]\<close> of the array a call returns: \<^verbatim>\<open>undefined\<close> on an empty array.\<close>

definition firstOf :: "('a list) outcome \<Rightarrow> ('a option) outcome" where
  "firstOf r =
     (case r of
        (Inl e, this) \<Rightarrow> (Inl e, this)
      | (Inr xs, this) \<Rightarrow> (Inr (case xs of [] \<Rightarrow> None | x # _ \<Rightarrow> Some x), this))"


text \<open>
  The callbacks \<^verbatim>\<open>insertFunctions\<close> passes to \<^verbatim>\<open>_standardWrite\<close>. Reading
  \<^verbatim>\<open>hasDeclareKeyword\<close> of \<^verbatim>\<open>structures[0]\<close> or of \<^verbatim>\<open>structures[structures.length - 1]\<close>
  throws a \<^verbatim>\<open>TypeError\<close> when the array is empty.
\<close>

definition functionPreviousNewLine :: "Structure list \<Rightarrow> WrappedNode \<Rightarrow> error + bool" where
  "functionPreviousNewLine structs previous =
     (case structs of
        [] \<Rightarrow> Inl TypeError
      | s # _ \<Rightarrow>
          Inr (hasDeclareKeyword s = Some True
               \<and> getKind (snd previous) = FunctionDeclaration
               \<and> getBody (snd previous) = None))"

definition functionNextNewLine :: "Structure list \<Rightarrow> WrappedNode \<Rightarrow> error + bool" where
  "functionNextNewLine structs next =
     (case structs of
        [] \<Rightarrow> Inl TypeError
      | _ # _ \<Rightarrow>
          Inr (hasDeclareKeyword (last structs) = Some True
               \<and> getKind (snd next) = FunctionDeclaration
               \<and> getBody (snd next) = None))"

definition functionWriteOptions :: "Structure list \<Rightarrow> StandardWriteOptions" where
  "functionWriteOptions structs =
     \<lparr>previousNewLine = Some (functionPreviousNewLine structs),
      nextNewLine = Some (functionNextNewLine structs)\<rparr>"

definition typeAliasWriteOptions :: StandardWriteOptions where
  "typeAliasWriteOptions =
     \<lparr>previousNewLine = Some (\<lambda>previous. Inr (getKind (snd previous) = TypeAliasDeclaration)),
      nextNewLine = Some (\<lambda>next. Inr (getKind (snd next) = TypeAliasDeclaration))\<rparr>"

definition variableStatementWriteOptions :: StandardWriteOptions where
  "variableStatementWriteOptions =
     \<lparr>previousNewLine = Some (\<lambda>previous. Inr (getKind (snd previous) = VariableStatement)),
      nextNewLine = Some (\<lambda>next. Inr (getKind (snd next) = VariableStatement))\<rparr>"

text \<open>Classes.\<close>

definition writeClasses ::
  "StatementedNode \<Rightarrow> Structure list \<Rightarrow> CodeBlockWriter \<Rightarrow>
   InsertIntoBracesOrSourceFileOptionsWriteInfo \<Rightarrow> error + CodeBlockWriter" where
  "writeClasses this structs writer info =
     standardWrite writer info (printTexts (forClassDeclaration (isNodeAmbientOrInAmbientContext this)) structs) noStandardWriteOptions"

definition insertClasses :: "Host \<Rightarrow> int \<Rightarrow> Structure list \<Rightarrow> StatementedNode \<Rightarrow> (WrappedNode list) outcome" where
  "insertClasses host idx structs this =
     insertChildren host
       \<lparr>expectedKind = ClassDeclaration, index = idx, structures = structs,
        write_callback = writeClasses this structs\<rparr> this"

definition insertClass :: "Host \<Rightarrow> int \<Rightarrow> Structure \<Rightarrow> StatementedNode \<Rightarrow> (WrappedNode option) outcome" where
  "insertClass host idx struct this = firstOf (insertClasses host idx [struct] this)"

definition addClasses :: "Host \<Rightarrow> Structure list \<Rightarrow> StatementedNode \<Rightarrow> (WrappedNode list) outcome" where
  "addClasses host structs this =
     (case getCompilerStatements this of
        Inl e \<Rightarrow> (Inl e, this)
      | Inr ss \<Rightarrow> insertClasses host (int (length ss)) structs this)"

definition addClass :: "Host \<Rightarrow> Structure \<Rightarrow> StatementedNode \<Rightarrow> (WrappedNode option) outcome" where
  "addClass host struct this = firstOf (addClasses host [struct] this)"

definition getClasses :: "StatementedNode \<Rightarrow> WrappedNode list" where
  "getClasses this =
     (case getChildSyntaxList this of
        None \<Rightarrow> []
      | Some childSyntaxList \<Rightarrow> (getChildrenOfKind ClassDeclaration childSyntaxList))"

definition getClass :: "NameOrFindFunction \<Rightarrow> StatementedNode \<Rightarrow> WrappedNode option" where
  "getClass nameOrFindFunction this = getNodeByNameOrFindFunction (getClasses this) nameOrFindFunction"


text \<open>Enums.\<close>

definition writeEnums ::
  "StatementedNode \<Rightarrow> Structure list \<Rightarrow> CodeBlockWriter \<Rightarrow>
   InsertIntoBracesOrSourceFileOptionsWriteInfo \<Rightarrow> error + CodeBlockWriter" where
  "writeEnums this structs writer info =
     standardWrite writer info (printTexts (forEnumDeclaration) structs) noStandardWriteOptions"

definition insertEnums :: "Host \<Rightarrow> int \<Rightarrow> Structure list \<Rightarrow> StatementedNode \<Rightarrow> (WrappedNode list) outcome" where
  "insertEnums host idx structs this =
     insertChildren host
       \<lparr>expectedKind = EnumDeclaration, index = idx, structures = structs,
        write_callback = writeEnums this structs\<rparr> this"

definition insertEnum :: "Host \<Rightarrow> int \<Rightarrow> Structure \<Rightarrow> StatementedNode \<Rightarrow> (WrappedNode option) outcome" where
  "insertEnum host idx struct this = firstOf (insertEnums host idx [struct] this)"

definition addEnums :: "Host \<Rightarrow> Structure list \<Rightarrow> StatementedNode \<Rightarrow> (WrappedNode list) outcome" where
  "addEnums host structs this =
     (case getCompilerStatements this of
        Inl e \<Rightarrow> (Inl e, this)
      | Inr ss \<Rightarrow> insertEnums host (int (length ss)) structs this)"

definition addEnum :: "Host \<Rightarrow> Structure \<Rightarrow> StatementedNode \<Rightarrow> (WrappedNode option) outcome" where
  "addEnum host struct this = firstOf (addEnums host [struct] this)"

definition getEnums :: "StatementedNode \<Rightarrow> WrappedNode list" where
  "getEnums this =
     (case getChildSyntaxList this of
        None \<Rightarrow> []
      | Some childSyntaxList \<Rightarrow> (getChildrenOfKind EnumDeclaration childSyntaxList))"

definition getEnum :: "NameOrFindFunction \<Rightarrow> StatementedNode \<Rightarrow> WrappedNode option" where
  "getEnum nameOrFindFunction this = getNodeByNameOrFindFunction (getEnums this) nameOrFindFunction"


text \<open>Functions: \<^verbatim>\<open>getFunctions\<close> keeps the function declarations that are ambient or implementations.\<close>

definition writeFunctions ::
  "StatementedNode \<Rightarrow> Structure list \<Rightarrow> CodeBlockWriter \<Rightarrow>
   InsertIntoBracesOrSourceFileOptionsWriteInfo \<Rightarrow> error + CodeBlockWriter" where
  "writeFunctions this structs writer info =
     standardWrite writer info (printTexts (forFunctionDeclaration (isNodeAmbientOrInAmbientContext this)) structs) (functionWriteOptions structs)"

definition insertFunctions :: "Host \<Rightarrow> int \<Rightarrow> Structure list \<Rightarrow> StatementedNode \<Rightarrow> (WrappedNode list) outcome" where
  "insertFunctions host idx structs this =
     insertChildren host
       \<lparr>expectedKind = FunctionDeclaration, index = idx, structures = structs,
        write_callback = writeFunctions this structs\<rparr> this"

definition insertFunction :: "Host \<Rightarrow> int \<Rightarrow> Structure \<Rightarrow> StatementedNode \<Rightarrow> (WrappedNode option) outcome" where
  "insertFunction host idx struct this = firstOf (insertFunctions host idx [struct] this)"

definition addFunctions :: "Host \<Rightarrow> Structure list \<Rightarrow> StatementedNode \<Rightarrow> (WrappedNode list) outcome" where
  "addFunctions host structs this =
     (case getCompilerStatements this of
        Inl e \<Rightarrow> (Inl e, this)
      | Inr ss \<Rightarrow> insertFunctions host (int (length ss)) structs this)"

definition addFunction :: "Host \<Rightarrow> Structure \<Rightarrow> StatementedNode \<Rightarrow> (WrappedNode option) outcome" where
  "addFunction host struct this = firstOf (addFunctions host [struct] this)"

definition getFunctions :: "StatementedNode \<Rightarrow> WrappedNode list" where
  "getFunctions this =
     (case getChildSyntaxList this of
        None \<Rightarrow> []
      | Some childSyntaxList \<Rightarrow> filter (\<lambda>f. isAmbient (snd f) \<or> isImplementation (snd f))
            (getChildrenOfKind FunctionDeclaration childSyntaxList))"

definition getFunction :: "NameOrFindFunction \<Rightarrow> StatementedNode \<Rightarrow> WrappedNode option" where
  "getFunction nameOrFindFunction this = getNodeByNameOrFindFunction (getFunctions this) nameOrFindFunction"


text \<open>Interfaces.\<close>

definition writeInterfaces ::
  "StatementedNode \<Rightarrow> Structure list \<Rightarrow> CodeBlockWriter \<Rightarrow>
   InsertIntoBracesOrSourceFileOptionsWriteInfo \<Rightarrow> error + CodeBlockWriter" where
  "writeInterfaces this structs writer info =
     standardWrite writer info (printTexts (forInterfaceDeclaration) structs) noStandardWriteOptions"

definition insertInterfaces :: "Host \<Rightarrow> int \<Rightarrow> Structure list \<Rightarrow> StatementedNode \<Rightarrow> (WrappedNode list) outcome" where
  "insertInterfaces host idx structs this =
     insertChildren host
       \<lparr>expectedKind = InterfaceDeclaration, index = idx, structures = structs,
        write_callback = writeInterfaces this structs\<rparr> this"

definition insertInterface :: "Host \<Rightarrow> int \<Rightarrow> Structure \<Rightarrow> StatementedNode \<Rightarrow> (WrappedNode option) outcome" where
  "insertInterface host idx struct this = firstOf (insertInterfaces host idx [struct] this)"

definition addInterfaces :: "Host \<Rightarrow> Structure list \<Rightarrow> StatementedNode \<Rightarrow> (WrappedNode list) outcome" where
  "addInterfaces host structs this =
     (case getCompilerStatements this of
        Inl e \<Rightarrow> (Inl e, this)
      | Inr ss \<Rightarrow> insertInterfaces host (int (length ss)) structs this)"

definition addInterface :: "Host \<Rightarrow> Structure \<Rightarrow> StatementedNode \<Rightarrow> (WrappedNode option) outcome" where
  "addInterface host struct this = firstOf (addInterfaces host [struct] this)"

definition getInterfaces :: "StatementedNode \<Rightarrow> WrappedNode list" where
  "getInterfaces this =
     (case getChildSyntaxList this of
        None \<Rightarrow> []
      | Some childSyntaxList \<Rightarrow> (getChildrenOfKind InterfaceDeclaration childSyntaxList))"

definition getInterface :: "NameOrFindFunction \<Rightarrow> StatementedNode \<Rightarrow> WrappedNode option" where
  "getInterface nameOrFindFunction this = getNodeByNameOrFindFunction (getInterfaces this) nameOrFindFunction"


text \<open>Namespaces.\<close>

definition writeNamespaces ::
  "StatementedNode \<Rightarrow> Structure list \<Rightarrow> CodeBlockWriter \<Rightarrow>
   InsertIntoBracesOrSourceFileOptionsWriteInfo \<Rightarrow> error + CodeBlockWriter" where
  "writeNamespaces this structs writer info =
     standardWrite writer info (printTexts (forNamespaceDeclaration (isNodeAmbientOrInAmbientContext this)) structs) noStandardWriteOptions"

definition insertNamespaces :: "Host \<Rightarrow> int \<Rightarrow> Structure list \<Rightarrow> StatementedNode \<Rightarrow> (WrappedNode list) outcome" where
  "insertNamespaces host idx structs this =
     insertChildren host
       \<lparr>expectedKind = ModuleDeclaration, index = idx, structures = structs,
        write_callback = writeNamespaces this structs\<rparr> this"

definition insertNamespace :: "Host \<Rightarrow> int \<Rightarrow> Structure \<Rightarrow> StatementedNode \<Rightarrow> (WrappedNode option) outcome" where
  "insertNamespace host idx struct this = firstOf (insertNamespaces host idx [struct] this)"

definition addNamespaces :: "Host \<Rightarrow> Structure list \<Rightarrow> StatementedNode \<Rightarrow> (WrappedNode list) outcome" where
  "addNamespaces host structs this =
     (case getCompilerStatements this of
        Inl e \<Rightarrow> (Inl e, this)
      | Inr ss \<Rightarrow> insertNamespaces host (int (length ss)) structs this)"

definition addNamespace :: "Host \<Rightarrow> Structure \<Rightarrow> StatementedNode \<Rightarrow> (WrappedNode option) outcome" where
  "addNamespace host struct this = firstOf (addNamespaces host [struct] this)"

definition getNamespaces :: "StatementedNode \<Rightarrow> WrappedNode list" where
  "getNamespaces this =
     (case getChildSyntaxList this of
        None \<Rightarrow> []
      | Some childSyntaxList \<Rightarrow> (getChildrenOfKind ModuleDeclaration childSyntaxList))"

definition getNamespace :: "NameOrFindFunction \<Rightarrow> StatementedNode \<Rightarrow> WrappedNode option" where
  "getNamespace nameOrFindFunction this = getNodeByNameOrFindFunction (getNamespaces this) nameOrFindFunction"


text \<open>Type aliases.\<close>

definition writeTypeAliases ::
  "StatementedNode \<Rightarrow> Structure list \<Rightarrow> CodeBlockWriter \<Rightarrow>
   InsertIntoBracesOrSourceFileOptionsWriteInfo \<Rightarrow> error + CodeBlockWriter" where
  "writeTypeAliases this structs writer info =
     standardWrite writer info (printTexts (forTypeAliasDeclaration) structs) typeAliasWriteOptions"

definition insertTypeAliases :: "Host \<Rightarrow> int \<Rightarrow> Structure list \<Rightarrow> StatementedNode \<Rightarrow> (WrappedNode list) outcome" where
  "insertTypeAliases host idx structs this =
     insertChildren host
       \<lparr>expectedKind = TypeAliasDeclaration, index = idx, structures = structs,
        write_callback = writeTypeAliases this structs\<rparr> this"

definition insertTypeAlias :: "Host \<Rightarrow> int \<Rightarrow> Structure \<Rightarrow> StatementedNode \<Rightarrow> (WrappedNode option) outcome" where
  "insertTypeAlias host idx struct this = firstOf (insertTypeAliases host idx [struct] this)"

definition addTypeAliases :: "Host \<Rightarrow> Structure list \<Rightarrow> StatementedNode \<Rightarrow> (WrappedNode list) outcome" where
  "addTypeAliases host structs this =
     (case getCompilerStatements this of
        Inl e \<Rightarrow> (Inl e, this)
      | Inr ss \<Rightarrow> insertTypeAliases host (int (length ss)) structs this)"

definition addTypeAlias :: "Host \<Rightarrow> Structure \<Rightarrow> StatementedNode \<Rightarrow> (WrappedNode option) outcome" where
  "addTypeAlias host struct this = firstOf (addTypeAliases host [struct] this)"

definition getTypeAliases :: "StatementedNode \<Rightarrow> WrappedNode list" where
  "getTypeAliases this =
     (case getChildSyntaxList this of
        None \<Rightarrow> []
      | Some childSyntaxList \<Rightarrow> (getChildrenOfKind TypeAliasDeclaration childSyntaxList))"

definition getTypeAlias :: "NameOrFindFunction \<Rightarrow> StatementedNode \<Rightarrow> WrappedNode option" where
  "getTypeAlias nameOrFindFunction this = getNodeByNameOrFindFunction (getTypeAliases this) nameOrFindFunction"


text \<open>Variable statements and variable declarations.\<close>

definition getVariableStatements :: "StatementedNode \<Rightarrow> WrappedNode list" where
  "getVariableStatements this =
     (case getChildSyntaxList this of
        None \<Rightarrow> []
      | Some childSyntaxList \<Rightarrow> (getChildrenOfKind VariableStatement childSyntaxList))"

definition getVariableStatement :: "(WrappedNode \<Rightarrow> bool) \<Rightarrow> StatementedNode \<Rightarrow> WrappedNode option" where
  "getVariableStatement findFunction this = find_first (getVariableStatements this) findFunction"

definition getVariableStatementOrThrow :: "(WrappedNode \<Rightarrow> bool) \<Rightarrow> StatementedNode \<Rightarrow> error + WrappedNode" where
  "getVariableStatementOrThrow findFunction this =
     throwIfNullOrUndefined (getVariableStatement findFunction this)
       ''Expected to find a variable statement that matched the provided condition.''"

definition writeVariableStatements ::
  "StatementedNode \<Rightarrow> Structure list \<Rightarrow> CodeBlockWriter \<Rightarrow>
   InsertIntoBracesOrSourceFileOptionsWriteInfo \<Rightarrow> error + CodeBlockWriter" where
  "writeVariableStatements this structs writer info =
     standardWrite writer info (printTexts (forVariableStatement) structs) variableStatementWriteOptions"

definition insertVariableStatements :: "Host \<Rightarrow> int \<Rightarrow> Structure list \<Rightarrow> StatementedNode \<Rightarrow> (WrappedNode list) outcome" where
  "insertVariableStatements host idx structs this =
     insertChildren host
       \<lparr>expectedKind = VariableStatement, index = idx, structures = structs,
        write_callback = writeVariableStatements this structs\<rparr> this"

definition insertVariableStatement :: "Host \<Rightarrow> int \<Rightarrow> Structure \<Rightarrow> StatementedNode \<Rightarrow> (WrappedNode option) outcome" where
  "insertVariableStatement host idx struct this = firstOf (insertVariableStatements host idx [struct] this)"

definition addVariableStatements :: "Host \<Rightarrow> Structure list \<Rightarrow> StatementedNode \<Rightarrow> (WrappedNode list) outcome" where
  "addVariableStatements host structs this =
     (case getCompilerStatements this of
        Inl e \<Rightarrow> (Inl e, this)
      | Inr ss \<Rightarrow> insertVariableStatements host (int (length ss)) structs this)"

definition addVariableStatement :: "Host \<Rightarrow> Structure \<Rightarrow> StatementedNode \<Rightarrow> (WrappedNode option) outcome" where
  "addVariableStatement host struct this = firstOf (addVariableStatements host [struct] this)"

definition getVariableDeclarations :: "StatementedNode \<Rightarrow> WrappedNode list" where
  "getVariableDeclarations this =
     concat (map (\<lambda>list. map (\<lambda>d. (fst list, d)) (getDeclarations (snd list)))
                 (getVariableStatements this))"

definition getVariableDeclaration :: "NameOrFindFunction \<Rightarrow> StatementedNode \<Rightarrow> WrappedNode option" where
  "getVariableDeclaration nameOrFindFunction this =
     getNodeByNameOrFindFunction (getVariableDeclarations this) nameOrFindFunction"



subsection \<open>The bulk set\<close>

text \<open>
  A property of a structure that may be missing, set to \<^verbatim>\<open>null\<close> or \<^verbatim>\<open>undefined\<close>,
  or set to a value: \<^verbatim>\<open>x != null\<close> holds of the last only, \<^verbatim>\<open>hasOwnProperty\<close> of
  the last two.
\<close>

datatype 'a OptionalProperty = NotSet | SetToNull | SetTo 'a

record StatementedNodeStructure =
  classes :: "Structure list option"
  enums :: "Structure list option"
  functions' :: "Structure list option"
  interfaces :: "Structure list option"
  namespaces :: "Structure list option"
  typeAliases :: "Structure list option"
  bodyText :: "TextOrWriterFunction OptionalProperty"

text \<open>The first block of \<^verbatim>\<open>set\<close>: "remove the body text first if necessary".\<close>

definition set_removeBodyText :: "StatementedNodeStructure \<Rightarrow> StatementedNode \<Rightarrow> unit outcome" where
  "set_removeBodyText structure this =
     (if isBodiedNode this \<or> isBodyableNode this then
        (case bodyText structure of
           SetTo _ \<Rightarrow>
             (case getCompilerStatements this of
                Inl e \<Rightarrow> (Inl e, this)
              | Inr ss \<Rightarrow>
                  (let statementCount = int (length ss)
                   in if statementCount > 0 then removeStatements (0, statementCount - 1) this
                      else (Inr (), this)))
         | SetToNull \<Rightarrow> (if isBodyableNode this then (Inr (), removeBody this) else (Inr (), this))
         | NotSet \<Rightarrow> (Inr (), this))
      else (Inr (), this))"

text \<open>
  Modelled from the spec: \<^verbatim>\<open>callBaseSet\<close> is not in the source file. It hands the
  structure, without its body text, to the \<^verbatim>\<open>set\<close> of the base class; section 4.7
  gives the statements of the container no other change than the ones below, so the
  base call leaves the container as it is.
\<close>

definition callBaseSet :: "StatementedNodeStructure \<Rightarrow> StatementedNode \<Rightarrow> StatementedNode" where
  "callBaseSet structureCopy this = this"

text \<open>
  One block per declaration kind: every declaration the getter returns is removed (a
  function that has a body with its overloads), then the list of the structure is added.
\<close>

definition set_classes :: "Host \<Rightarrow> StatementedNodeStructure \<Rightarrow> StatementedNode \<Rightarrow> unit outcome" where
  "set_classes host structure this =
     (case classes structure of
        None \<Rightarrow> (Inr (), this)
      | Some structs \<Rightarrow>
          andThen (addClasses host structs (removeStatementedNodeChildren (getClasses this) this))
            (\<lambda>_ this'. (Inr (), this')))"

definition set_enums :: "Host \<Rightarrow> StatementedNodeStructure \<Rightarrow> StatementedNode \<Rightarrow> unit outcome" where
  "set_enums host structure this =
     (case enums structure of
        None \<Rightarrow> (Inr (), this)
      | Some structs \<Rightarrow>
          andThen (addEnums host structs (removeStatementedNodeChildren (getEnums this) this))
            (\<lambda>_ this'. (Inr (), this')))"

definition set_functions :: "Host \<Rightarrow> StatementedNodeStructure \<Rightarrow> StatementedNode \<Rightarrow> unit outcome" where
  "set_functions host structure this =
     (case functions' structure of
        None \<Rightarrow> (Inr (), this)
      | Some structs \<Rightarrow>
          andThen (addFunctions host structs
                     (removeOverloadableStatementedNodeChildren (getFunctions this) this))
            (\<lambda>_ this'. (Inr (), this')))"

definition set_interfaces :: "Host \<Rightarrow> StatementedNodeStructure \<Rightarrow> StatementedNode \<Rightarrow> unit outcome" where
  "set_interfaces host structure this =
     (case interfaces structure of
        None \<Rightarrow> (Inr (), this)
      | Some structs \<Rightarrow>
          andThen (addInterfaces host structs (removeStatementedNodeChildren (getInterfaces this) this))
            (\<lambda>_ this'. (Inr (), this')))"

definition set_namespaces :: "Host \<Rightarrow> StatementedNodeStructure \<Rightarrow> StatementedNode \<Rightarrow> unit outcome" where
  "set_namespaces host structure this =
     (case namespaces structure of
        None \<Rightarrow> (Inr (), this)
      | Some structs \<Rightarrow>
          andThen (addNamespaces host structs (removeStatementedNodeChildren (getNamespaces this) this))
            (\<lambda>_ this'. (Inr (), this')))"

definition set_typeAliases :: "Host \<Rightarrow> StatementedNodeStructure \<Rightarrow> StatementedNode \<Rightarrow> unit outcome" where
  "set_typeAliases host structure this =
     (case typeAliases structure of
        None \<Rightarrow> (Inr (), this)
      | Some structs \<Rightarrow>
          andThen (addTypeAliases host structs (removeStatementedNodeChildren (getTypeAliases this) this))
            (\<lambda>_ this'. (Inr (), this')))"

text \<open>
  The last block of \<^verbatim>\<open>set\<close>: "set the body text after adding everything else". The
  writer function reads the statement count when it runs, inside \<^verbatim>\<open>addStatements\<close>;
  no statement is added or removed between the call and the run (adding a missing body
  leaves the count at 0), so the count is read here at the call.
\<close>

definition set_bodyText :: "Host \<Rightarrow> StatementedNodeStructure \<Rightarrow> StatementedNode \<Rightarrow> unit outcome" where
  "set_bodyText host structure this =
     (if isBodiedNode this \<or> isBodyableNode this then
        (case bodyText structure of
           SetTo t \<Rightarrow>
             (case getCompilerStatements this of
                Inl e \<Rightarrow> (Inl e, this)
              | Inr ss \<Rightarrow>
                  andThen
                    (addStatements host
                       (WriterFunction (\<lambda>writer.
                          printTextFromStringOrWriter (conditionalNewLine (length ss > 0) writer) t))
                       this)
                    (\<lambda>_ this'. (Inr (), this')))
         | _ \<Rightarrow> (Inr (), this))
      else (Inr (), this))"

text \<open>\<^verbatim>\<open>set\<close> (the name of a HOL constant, hence the suffix).\<close>

definition set_structure :: "Host \<Rightarrow> StatementedNodeStructure \<Rightarrow> StatementedNode \<Rightarrow> unit outcome" where
  "set_structure host structure this =
     andThen (set_removeBodyText structure this) (\<lambda>_ this1.
     andThen (set_classes host structure (callBaseSet structure this1)) (\<lambda>_ this2.
     andThen (set_enums host structure this2) (\<lambda>_ this3.
     andThen (set_functions host structure this3) (\<lambda>_ this4.
     andThen (set_interfaces host structure this4) (\<lambda>_ this5.
     andThen (set_namespaces host structure this5) (\<lambda>_ this6.
     andThen (set_typeAliases host structure this6) (\<lambda>_ this7.
     set_bodyText host structure this7)))))))"


subsection \<open>Notions the properties are stated with\<close>



text \<open>
  A function declaration without a body that has no implementation among the given
  statements: no function declaration of its name there has a body.
\<close>

definition isSignatureWithoutImplementation :: "Node list \<Rightarrow> Node \<Rightarrow> bool" where
  "isSignatureWithoutImplementation statements n =
     (getKind n = FunctionDeclaration \<and> getBody n = None
      \<and> \<not> list_ex (\<lambda>m. getKind m = FunctionDeclaration \<and> getName m = getName n \<and> getBody m \<noteq> None)
             statements)"

text \<open>
  The separators of the standard write, as the calls on the writer: before the
  declarations inserted at index \<open>i\<close> of the statements \<open>old\<close>, and after them.
  \<open>noBlankLine\<close> is the predicate of the kind on the statement next to the insertion
  point that replaces the blank line by a single new line.
\<close>

definition separatorBefore :: "bool \<Rightarrow> Node list \<Rightarrow> nat \<Rightarrow> (Node \<Rightarrow> bool) \<Rightarrow> CodeBlockWriter" where
  "separatorBefore atSourceFile old i noBlankLine =
     (if 0 < i then (if noBlankLine (old ! (i - 1)) then [NewLine] else [BlankLine])
      else if atSourceFile then [] else [NewLine])"

definition separatorAfter :: "Node list \<Rightarrow> nat \<Rightarrow> (Node \<Rightarrow> bool) \<Rightarrow> CodeBlockWriter" where
  "separatorAfter old i noBlankLine =
     (if i < length old then (if noBlankLine (old ! i) then [NewLine] else [BlankLine])
      else [NewLine])"

definition printerKind :: "StructurePrinter \<Rightarrow> SyntaxKind" where
  "printerKind printer =
     (case printer of
        forClassDeclaration _ \<Rightarrow> ClassDeclaration
      | forEnumDeclaration \<Rightarrow> EnumDeclaration
      | forFunctionDeclaration _ \<Rightarrow> FunctionDeclaration
      | forInterfaceDeclaration \<Rightarrow> InterfaceDeclaration
      | forNamespaceDeclaration _ \<Rightarrow> ModuleDeclaration
      | forTypeAliasDeclaration \<Rightarrow> TypeAliasDeclaration
      | forVariableStatement \<Rightarrow> VariableStatement)"

text \<open>
  A host that reads the text \<^verbatim>\<open>set\<close> writes for a list of a structure as the
  declarations of that list: the separator \<^verbatim>\<open>set\<close> writes before them (nothing, a new
  line or a blank line) and the new line it writes after them add no node and change
  none, and every node is of the kind of the printer.
\<close>

definition readsDeclarationsOf :: "Host \<Rightarrow> StructurePrinter \<Rightarrow> Structure list option \<Rightarrow> bool" where
  "readsDeclarationsOf host printer structs =
     (case structs of
        None \<Rightarrow> True
      | Some l \<Rightarrow>
          list_all (\<lambda>before. parseText host (before @ [PrintTexts printer l] @ [NewLine])
                              = parseText host [PrintTexts printer l])
            [[], [NewLine], [BlankLine]]
          \<and> list_all (\<lambda>n. getKind n = printerKind printer) (parseText host [PrintTexts printer l]))"

definition readsDeclarations :: "Host \<Rightarrow> bool \<Rightarrow> StatementedNodeStructure \<Rightarrow> bool" where
  "readsDeclarations host ambient structure =
     (readsDeclarationsOf host (forClassDeclaration ambient) (classes structure)
      \<and> readsDeclarationsOf host forEnumDeclaration (enums structure)
      \<and> readsDeclarationsOf host (forFunctionDeclaration ambient) (functions' structure)
      \<and> readsDeclarationsOf host forInterfaceDeclaration (interfaces structure)
      \<and> readsDeclarationsOf host (forNamespaceDeclaration ambient) (namespaces structure)
      \<and> readsDeclarationsOf host forTypeAliasDeclaration (typeAliases structure))"

text \<open>
  A statement that a \<^verbatim>\<open>set\<close> with the given structure removes from the statements
  \<open>statements\<close> in the block of one of the kinds whose list the structure holds: a
  statement the getter of that kind returns and, for the functions, an overload of a
  function the getter returns, a function declaration without a body of the name of one
  that has a body.
\<close>

definition replacedBy :: "StatementedNodeStructure \<Rightarrow> Node list \<Rightarrow> Node \<Rightarrow> bool" where
  "replacedBy structure statements n =
     ((classes structure \<noteq> None \<and> getKind n = ClassDeclaration)
      \<or> (enums structure \<noteq> None \<and> getKind n = EnumDeclaration)
      \<or> (functions' structure \<noteq> None \<and> getKind n = FunctionDeclaration
          \<and> (isAmbient n \<or> isImplementation n
              \<or> list_ex (\<lambda>f. getKind f = FunctionDeclaration \<and> isOverloadOf n f) statements))
      \<or> (interfaces structure \<noteq> None \<and> getKind n = InterfaceDeclaration)
      \<or> (namespaces structure \<noteq> None \<and> getKind n = ModuleDeclaration)
      \<or> (typeAliases structure \<noteq> None \<and> getKind n = TypeAliasDeclaration))"

text \<open>
  The nodes of one list of a structure, as the host parses the printed text; nothing is
  printed for an empty list.
\<close>

definition declarationsOfList :: "Host \<Rightarrow> StructurePrinter \<Rightarrow> Structure list option \<Rightarrow> Node list" where
  "declarationsOfList host printer structs =
     (case structs of
        None \<Rightarrow> []
      | Some l \<Rightarrow> (if l = [] then [] else parseText host [PrintTexts printer l]))"

text \<open>The nodes of all lists of a structure, in the order \<^verbatim>\<open>set\<close> goes through the kinds.\<close>

definition declarationsOf :: "Host \<Rightarrow> bool \<Rightarrow> StatementedNodeStructure \<Rightarrow> Node list" where
  "declarationsOf host ambient structure =
     declarationsOfList host (forClassDeclaration ambient) (classes structure)
     @ declarationsOfList host forEnumDeclaration (enums structure)
     @ declarationsOfList host (forFunctionDeclaration ambient) (functions' structure)
     @ declarationsOfList host forInterfaceDeclaration (interfaces structure)
     @ declarationsOfList host (forNamespaceDeclaration ambient) (namespaces structure)
     @ declarationsOfList host forTypeAliasDeclaration (typeAliases structure)"

text \<open>
  Whether the first block of \<^verbatim>\<open>set\<close> empties the node: a body text on a bodied or
  bodyable node removes every statement, a body text property set to \<^verbatim>\<open>null\<close> on a
  bodyable node removes the body.
\<close>

definition clearsStatements :: "StatementedNodeStructure \<Rightarrow> StatementedNode \<Rightarrow> bool" where
  "clearsStatements structure this =
     (case bodyText structure of
        SetTo _ \<Rightarrow> isBodiedNode this \<or> isBodyableNode this
      | SetToNull \<Rightarrow> isBodyableNode this
      | NotSet \<Rightarrow> False)"

text \<open>
  The nodes of the body text of a structure when it is appended after \<open>before\<close>, the
  statements the node holds by then; none when the node is not bodied or bodyable.
\<close>

definition bodyTextNodes :: "Host \<Rightarrow> StatementedNodeStructure \<Rightarrow> StatementedNode \<Rightarrow> Node list \<Rightarrow> Node list" where
  "bodyTextNodes host structure this before =
     (case bodyText structure of
        SetTo t \<Rightarrow>
          (if isBodiedNode this \<or> isBodyableNode this
           then parseText host (printTextFromStringOrWriter [ConditionalNewLine (length before > 0)] t)
           else [])
      | _ \<Rightarrow> [])"

subsection \<open>Hosts for the examples\<close>

text \<open>
  What the example hosts parse from the declarations of one structure: one declaration
  of the printer's kind with the structure's name; a function with the declare keyword
  has no body, every other declaration has an empty one.
\<close>

definition parseStructure :: "StructurePrinter \<Rightarrow> Structure \<Rightarrow> Node" where
  "parseStructure printer s =
     Node (printerKind printer) (Some (structureName s))
       (hasDeclareKeyword s = Some True)
       (if hasDeclareKeyword s = Some True then None else Some [])
       [] (structureName s)"

text \<open>
  Each structure prints to one declaration, a literal text is one expression statement,
  and layout is not read.
\<close>

definition exampleHost :: Host where
  "exampleHost =
     \<lparr>parseText = (\<lambda>written. concat (map (\<lambda>c.
        case c of
          PrintTexts printer structs \<Rightarrow> map (parseStructure printer) structs
        | WriteText t \<Rightarrow> [Node ExpressionStatement None False None [] t]
        | _ \<Rightarrow> []) written))\<rparr>"

text \<open>
  A host that shows the layout: the text of each node it parses is the name of its
  structure between the layout that was written before the declarations and the layout
  that was written after them.
\<close>

definition isLayout :: "WriterCall \<Rightarrow> bool" where
  "isLayout c = (case c of BlankLine \<Rightarrow> True | NewLine \<Rightarrow> True | _ \<Rightarrow> False)"

definition showLayout :: "CodeBlockWriter \<Rightarrow> string" where
  "showLayout written =
     concat (map (\<lambda>c. case c of BlankLine \<Rightarrow> ''[blank line]'' | NewLine \<Rightarrow> ''[new line]'' | _ \<Rightarrow> []) written)"

definition layoutHost :: Host where
  "layoutHost =
     \<lparr>parseText = (\<lambda>written.
        map (\<lambda>n. Node (getKind n) (getName n) (isAmbient n) (getBody n) (getDeclarations n)
                    (showLayout (takeWhile isLayout written) @ getText n
                     @ showLayout (rev (takeWhile isLayout (rev written)))))
          (parseText exampleHost written))\<rparr>"

text \<open>
  A host whose function structures each have one overload: a function structure without
  the declare keyword prints to the signature of the overload and the implementation.
\<close>

definition overloadHost :: Host where
  "overloadHost =
     \<lparr>parseText = (\<lambda>written. concat (map (\<lambda>c.
        case c of
          PrintTexts printer structs \<Rightarrow>
            concat (map (\<lambda>s.
              if printerKind printer = FunctionDeclaration \<and> hasDeclareKeyword s \<noteq> Some True
              then [Node FunctionDeclaration (Some (structureName s)) False None [] (structureName s),
                    Node FunctionDeclaration (Some (structureName s)) False (Some []) [] (structureName s)]
              else [parseStructure printer s]) structs)
        | WriteText t \<Rightarrow> [Node ExpressionStatement None False None [] t]
        | _ \<Rightarrow> []) written))\<rparr>"


section \<open>Properties\<close>

subsection \<open>What an insertion writes and where the text goes\<close>

lemma getCompilerStatements_addBodyIfNotExists:
  "getCompilerStatements (addBodyIfNotExists this) = getCompilerStatements this"
  by (auto simp: addBodyIfNotExists_def addBody_def getCompilerStatements_def isBodyableNode_def
      hasBody_def split: CompilerNode.splits option.splits)

lemma replaceChildren_addBodyIfNotExists:
  "replaceChildren ss (addBodyIfNotExists this) = replaceChildren ss this"
  by (auto simp: addBodyIfNotExists_def addBody_def replaceChildren_def isBodyableNode_def
      split: CompilerNode.splits)

lemma isSourceFile_addBodyIfNotExists:
  "isSourceFile (addBodyIfNotExists this) = isSourceFile this"
  by (auto simp: addBodyIfNotExists_def addBody_def isSourceFile_def isBodyableNode_def
      split: CompilerNode.splits)

lemma getCompilerStatements_replaceChildren:
  "getCompilerStatements this = Inr old \<Longrightarrow> getCompilerStatements (replaceChildren ss this) = Inr ss"
  by (auto simp: getCompilerStatements_def replaceChildren_def split: CompilerNode.splits)

lemma verifyAndGetIndex_in_range:
  "0 \<le> idx \<Longrightarrow> idx \<le> len \<Longrightarrow> verifyAndGetIndex idx len = Inr idx"
  by (simp add: verifyAndGetIndex_def)

lemma insertChildren_written:
  assumes old: "getCompilerStatements this = Inr old"
    and ne: "structures opts \<noteq> []"
    and idx: "0 \<le> index opts" "index opts \<le> int (length old)"
    and w: "write_callback opts []
              (getWriteInfo (addBodyIfNotExists this) (enumerate 0 old) (nat (index opts)))
            = Inr written"
  shows "insertChildren host opts this =
     (getRangeFromArray
        (enumerate 0 (take (nat (index opts)) old @ parseText host written @ drop (nat (index opts)) old))
        (index opts) (length (structures opts)) (expectedKind opts),
      replaceChildren
        (take (nat (index opts)) old @ parseText host written @ drop (nat (index opts)) old) this)"
proof -
  let ?parent = "addBodyIfNotExists this"
  let ?new = "take (nat (index opts)) old @ parseText host written @ drop (nat (index opts)) old"
  have st: "getStatements ?parent = Inr (enumerate 0 old)"
    by (simp add: getStatements_def getCompilerStatements_addBodyIfNotExists old)
  have v: "verifyAndGetIndex (index opts) (int (length (enumerate 0 old))) = Inr (index opts)"
    using idx by (simp add: verifyAndGetIndex_in_range)
  have m: "map snd (enumerate 0 old) = old"
    by simp
  have st': "getStatements (replaceChildren ?new this) = Inr (enumerate 0 ?new)"
    by (simp add: getStatements_def getCompilerStatements_replaceChildren[OF old])
  show ?thesis
    unfolding insertChildren_def insertIntoBracesOrSourceFileWithGetChildren_def
    using ne
    by (simp add: st v w Let_def st' replaceChildren_addBodyIfNotExists
        del: length_enumerate)
qed

lemma find_Some_member: "List.find P xs = Some x \<Longrightarrow> x \<in> set xs \<and> P x"
  by (auto simp: find_Some_iff)

lemma getChild_kind: "getKind (snd (getChild siblings child)) = getKind (snd child)"
  by (auto simp: getChild_def getImplementation_def find_first_def
      split: option.splits dest!: find_Some_member)

lemma getChild_not_function:
  "getKind (snd child) \<noteq> FunctionDeclaration \<Longrightarrow> getChild siblings child = child"
  by (simp add: getChild_def)

lemma getChild_signature:
  assumes "j < length old"
  shows "(getKind (snd (getChild (enumerate 0 old) (j, old ! j))) = FunctionDeclaration
          \<and> getBody (snd (getChild (enumerate 0 old) (j, old ! j))) = None)
         = isSignatureWithoutImplementation old (old ! j)"
proof (cases "getKind (old ! j) = FunctionDeclaration")
  case False
  then show ?thesis
    by (simp add: getChild_kind isSignatureWithoutImplementation_def)
next
  case k: True
  show ?thesis
  proof (cases "getBody (old ! j) = None")
    case False
    then show ?thesis
      using k
      by (auto simp: getChild_def getImplementation_def isImplementation_def
          isSignatureWithoutImplementation_def)
  next
    case b: True
    let ?same = "filter (\<lambda>n. getKind (snd n) = getKind (old ! j) \<and> getName (snd n) = getName (old ! j))
                   (enumerate 0 old)"
    show ?thesis
    proof (cases "List.find (\<lambda>n. isImplementation (snd n)) ?same")
      case None
      then have "\<forall>n \<in> set ?same. \<not> isImplementation (snd n)"
        by (auto simp: find_None_iff)
      then have no: "\<And>w. w \<in> set (enumerate 0 old) \<Longrightarrow> getKind (snd w) = getKind (old ! j)
                   \<Longrightarrow> getName (snd w) = getName (old ! j) \<Longrightarrow> getBody (snd w) = None"
        by (auto simp: isImplementation_def)
      have "\<forall>m \<in> set old. \<not> (getKind m = FunctionDeclaration \<and> getName m = getName (old ! j)
                   \<and> getBody m \<noteq> None)"
      proof (intro ballI notI)
        fix m
        assume m: "m \<in> set old"
          and c: "getKind m = FunctionDeclaration \<and> getName m = getName (old ! j) \<and> getBody m \<noteq> None"
        from m obtain i where "i < length old" "old ! i = m"
          by (auto simp: in_set_conv_nth)
        then have "(i, m) \<in> set (enumerate 0 old)"
          by (simp add: in_set_enumerate_eq)
        from no[OF this] c k show False
          by simp
      qed
      then show ?thesis
        using None k b
        by (auto simp: getChild_def getImplementation_def isImplementation_def find_first_def
            isSignatureWithoutImplementation_def list_ex_iff)
    next
      case (Some impl)
      from find_Some_member[OF this] have i: "impl \<in> set ?same" "isImplementation (snd impl)"
        by simp_all
      from i(1) have "impl \<in> set (enumerate 0 old)"
        "getKind (snd impl) = getKind (old ! j)" "getName (snd impl) = getName (old ! j)"
        by simp_all
      with i(2) have "snd impl \<in> set old" "getKind (snd impl) = FunctionDeclaration"
        "getName (snd impl) = getName (old ! j)" "getBody (snd impl) \<noteq> None"
        using k nth_mem[of "fst impl" old]
        by (auto simp: isImplementation_def in_set_enumerate_eq)
      then show ?thesis
        using Some k b
        by (auto simp: getChild_def getImplementation_def isImplementation_def find_first_def
            isSignatureWithoutImplementation_def list_ex_iff)
    qed
  qed
qed

lemma standardWrite_getWriteInfo:
  assumes prev: "\<And>j. j < length old \<Longrightarrow>
        memberNeedsBlankLine (Some (getChild (enumerate 0 old) (j, old ! j))) (previousNewLine wopts)
        = Inr (\<not> P (old ! j))"
    and nxt: "\<And>j. j < length old \<Longrightarrow>
        memberNeedsBlankLine (Some (getChild (enumerate 0 old) (j, old ! j))) (nextNewLine wopts)
        = Inr (\<not> Q (old ! j))"
    and i: "i \<le> length old"
  shows "standardWrite [] (getWriteInfo parent (enumerate 0 old) i) (printTexts p structs) wopts
     = Inr (separatorBefore (isSourceFile parent) old i P @ [PrintTexts p structs]
            @ separatorAfter old i Q)"
proof -
  have none: "\<And>f. memberNeedsBlankLine None f = Inr False"
    by (simp add: memberNeedsBlankLine_def)
  have p: "memberNeedsBlankLine (previousMember (getWriteInfo parent (enumerate 0 old) i))
             (previousNewLine wopts) = Inr (0 < i \<and> \<not> P (old ! (i - 1)))"
    using i prev[of "i - 1"] by (cases "0 < i") (simp_all add: getWriteInfo_def none nth_enumerate_eq)
  have n: "memberNeedsBlankLine (nextMember (getWriteInfo parent (enumerate 0 old) i))
             (nextNewLine wopts) = Inr (i < length old \<and> \<not> Q (old ! i))"
    using nxt[of i] by (cases "i < length old") (simp_all add: getWriteInfo_def none nth_enumerate_eq)
  have s: "isStartOfFile (getWriteInfo parent (enumerate 0 old) i) = (isSourceFile parent \<and> i = 0)"
    by (simp add: getWriteInfo_def)
  show ?thesis
    unfolding standardWrite_def p n s
    by (auto simp: Let_def separatorBefore_def separatorAfter_def blankLine_def newLine_def
        printTexts_def)
qed

lemma insertChildren_standardWrite:
  assumes old: "getCompilerStatements this = Inr old"
    and ne: "structs \<noteq> []"
    and idx: "0 \<le> idx" "idx \<le> int (length old)"
    and prev: "\<And>j. j < length old \<Longrightarrow>
        memberNeedsBlankLine (Some (getChild (enumerate 0 old) (j, old ! j))) (previousNewLine wopts)
        = Inr (\<not> P (old ! j))"
    and nxt: "\<And>j. j < length old \<Longrightarrow>
        memberNeedsBlankLine (Some (getChild (enumerate 0 old) (j, old ! j))) (nextNewLine wopts)
        = Inr (\<not> Q (old ! j))"
  shows "insertChildren host
      \<lparr>expectedKind = k, index = idx, structures = structs,
       write_callback = (\<lambda>w info. standardWrite w info (printTexts p structs) wopts)\<rparr> this
    = (getRangeFromArray
        (enumerate 0 (take (nat idx) old
           @ parseText host (separatorBefore (isSourceFile this) old (nat idx) P
                             @ [PrintTexts p structs] @ separatorAfter old (nat idx) Q)
           @ drop (nat idx) old))
        idx (length structs) k,
      replaceChildren
        (take (nat idx) old
           @ parseText host (separatorBefore (isSourceFile this) old (nat idx) P
                             @ [PrintTexts p structs] @ separatorAfter old (nat idx) Q)
           @ drop (nat idx) old) this)"
proof -
  have i: "nat idx \<le> length old"
    using idx by simp
  show ?thesis
    using insertChildren_written[where host = host and this = this and old = old
        and opts = "\<lparr>expectedKind = k, index = idx, structures = structs,
           write_callback = (\<lambda>w info. standardWrite w info (printTexts p structs) wopts)\<rparr>"
        and written = "separatorBefore (isSourceFile this) old (nat idx) P
                             @ [PrintTexts p structs] @ separatorAfter old (nat idx) Q"]
      old ne idx standardWrite_getWriteInfo[OF prev nxt i, where parent = "addBodyIfNotExists this"
        and p = p and structs = structs]
    by (simp add: isSourceFile_addBodyIfNotExists)
qed

lemma needsBlankLine_no_options:
  "memberNeedsBlankLine (Some m) (previousNewLine noStandardWriteOptions) = Inr (\<not> False)"
  "memberNeedsBlankLine (Some m) (nextNewLine noStandardWriteOptions) = Inr (\<not> False)"
  by (simp_all add: memberNeedsBlankLine_def noStandardWriteOptions_def)

lemma needsBlankLine_typeAlias:
  "memberNeedsBlankLine (Some (getChild siblings c)) (previousNewLine typeAliasWriteOptions)
     = Inr (\<not> getKind (snd c) = TypeAliasDeclaration)"
  "memberNeedsBlankLine (Some (getChild siblings c)) (nextNewLine typeAliasWriteOptions)
     = Inr (\<not> getKind (snd c) = TypeAliasDeclaration)"
  by (simp_all add: memberNeedsBlankLine_def typeAliasWriteOptions_def getChild_kind)

lemma needsBlankLine_variableStatement:
  "memberNeedsBlankLine (Some (getChild siblings c)) (previousNewLine variableStatementWriteOptions)
     = Inr (\<not> getKind (snd c) = VariableStatement)"
  "memberNeedsBlankLine (Some (getChild siblings c)) (nextNewLine variableStatementWriteOptions)
     = Inr (\<not> getKind (snd c) = VariableStatement)"
  by (simp_all add: memberNeedsBlankLine_def variableStatementWriteOptions_def getChild_kind)

lemma needsBlankLine_function:
  assumes "structs \<noteq> []" "j < length old"
  shows "memberNeedsBlankLine (Some (getChild (enumerate 0 old) (j, old ! j)))
           (previousNewLine (functionWriteOptions structs))
         = Inr (\<not> (hasDeclareKeyword (hd structs) = Some True
                    \<and> isSignatureWithoutImplementation old (old ! j)))"
    and "memberNeedsBlankLine (Some (getChild (enumerate 0 old) (j, old ! j)))
           (nextNewLine (functionWriteOptions structs))
         = Inr (\<not> (hasDeclareKeyword (last structs) = Some True
                    \<and> isSignatureWithoutImplementation old (old ! j)))"
  using assms getChild_signature[OF assms(2)]
  by (cases structs; auto simp: memberNeedsBlankLine_def functionWriteOptions_def
      functionPreviousNewLine_def functionNextNewLine_def)+


lemma writeClasses_eq:
  "writeClasses this structs =
     (\<lambda>w info. standardWrite w info (printTexts (forClassDeclaration (inAmbientContext this)) structs) (noStandardWriteOptions))"
  by (intro ext) (simp add: writeClasses_def isNodeAmbientOrInAmbientContext_def)

lemma insertClasses_eq:
  assumes old: "getCompilerStatements this = Inr old"
    and ne: "structs \<noteq> []"
    and idx: "0 \<le> idx" "idx \<le> int (length old)"
  shows "insertClasses host idx structs this =
    (getRangeFromArray
       (enumerate 0
         (take (nat idx) old
          @ parseText host
              (separatorBefore (isSourceFile this) old (nat idx) (\<lambda>_. False)
               @ [PrintTexts (forClassDeclaration (inAmbientContext this)) structs]
               @ separatorAfter old (nat idx) (\<lambda>_. False))
          @ drop (nat idx) old))
       idx (length structs) ClassDeclaration,
     replaceChildren
       (take (nat idx) old
          @ parseText host
              (separatorBefore (isSourceFile this) old (nat idx) (\<lambda>_. False)
               @ [PrintTexts (forClassDeclaration (inAmbientContext this)) structs]
               @ separatorAfter old (nat idx) (\<lambda>_. False))
          @ drop (nat idx) old) this)"
  unfolding insertClasses_def writeClasses_eq
  by (rule insertChildren_standardWrite[OF old ne idx])
     (simp_all only: needsBlankLine_no_options)

lemma writeEnums_eq:
  "writeEnums this structs =
     (\<lambda>w info. standardWrite w info (printTexts (forEnumDeclaration) structs) (noStandardWriteOptions))"
  by (intro ext) (simp add: writeEnums_def)

lemma insertEnums_eq:
  assumes old: "getCompilerStatements this = Inr old"
    and ne: "structs \<noteq> []"
    and idx: "0 \<le> idx" "idx \<le> int (length old)"
  shows "insertEnums host idx structs this =
    (getRangeFromArray
       (enumerate 0
         (take (nat idx) old
          @ parseText host
              (separatorBefore (isSourceFile this) old (nat idx) (\<lambda>_. False)
               @ [PrintTexts (forEnumDeclaration) structs]
               @ separatorAfter old (nat idx) (\<lambda>_. False))
          @ drop (nat idx) old))
       idx (length structs) EnumDeclaration,
     replaceChildren
       (take (nat idx) old
          @ parseText host
              (separatorBefore (isSourceFile this) old (nat idx) (\<lambda>_. False)
               @ [PrintTexts (forEnumDeclaration) structs]
               @ separatorAfter old (nat idx) (\<lambda>_. False))
          @ drop (nat idx) old) this)"
  unfolding insertEnums_def writeEnums_eq
  by (rule insertChildren_standardWrite[OF old ne idx])
     (simp_all only: needsBlankLine_no_options)

lemma writeFunctions_eq:
  "writeFunctions this structs =
     (\<lambda>w info. standardWrite w info (printTexts (forFunctionDeclaration (inAmbientContext this)) structs) (functionWriteOptions structs))"
  by (intro ext) (simp add: writeFunctions_def isNodeAmbientOrInAmbientContext_def)

lemma insertFunctions_eq:
  assumes old: "getCompilerStatements this = Inr old"
    and ne: "structs \<noteq> []"
    and idx: "0 \<le> idx" "idx \<le> int (length old)"
  shows "insertFunctions host idx structs this =
    (getRangeFromArray
       (enumerate 0
         (take (nat idx) old
          @ parseText host
              (separatorBefore (isSourceFile this) old (nat idx) (\<lambda>n. hasDeclareKeyword (hd structs) = Some True \<and> isSignatureWithoutImplementation old n)
               @ [PrintTexts (forFunctionDeclaration (inAmbientContext this)) structs]
               @ separatorAfter old (nat idx) (\<lambda>n. hasDeclareKeyword (last structs) = Some True \<and> isSignatureWithoutImplementation old n))
          @ drop (nat idx) old))
       idx (length structs) FunctionDeclaration,
     replaceChildren
       (take (nat idx) old
          @ parseText host
              (separatorBefore (isSourceFile this) old (nat idx) (\<lambda>n. hasDeclareKeyword (hd structs) = Some True \<and> isSignatureWithoutImplementation old n)
               @ [PrintTexts (forFunctionDeclaration (inAmbientContext this)) structs]
               @ separatorAfter old (nat idx) (\<lambda>n. hasDeclareKeyword (last structs) = Some True \<and> isSignatureWithoutImplementation old n))
          @ drop (nat idx) old) this)"
  unfolding insertFunctions_def writeFunctions_eq
  by (rule insertChildren_standardWrite[OF old ne idx])
     (simp_all add: needsBlankLine_function[OF ne])

lemma writeInterfaces_eq:
  "writeInterfaces this structs =
     (\<lambda>w info. standardWrite w info (printTexts (forInterfaceDeclaration) structs) (noStandardWriteOptions))"
  by (intro ext) (simp add: writeInterfaces_def)

lemma insertInterfaces_eq:
  assumes old: "getCompilerStatements this = Inr old"
    and ne: "structs \<noteq> []"
    and idx: "0 \<le> idx" "idx \<le> int (length old)"
  shows "insertInterfaces host idx structs this =
    (getRangeFromArray
       (enumerate 0
         (take (nat idx) old
          @ parseText host
              (separatorBefore (isSourceFile this) old (nat idx) (\<lambda>_. False)
               @ [PrintTexts (forInterfaceDeclaration) structs]
               @ separatorAfter old (nat idx) (\<lambda>_. False))
          @ drop (nat idx) old))
       idx (length structs) InterfaceDeclaration,
     replaceChildren
       (take (nat idx) old
          @ parseText host
              (separatorBefore (isSourceFile this) old (nat idx) (\<lambda>_. False)
               @ [PrintTexts (forInterfaceDeclaration) structs]
               @ separatorAfter old (nat idx) (\<lambda>_. False))
          @ drop (nat idx) old) this)"
  unfolding insertInterfaces_def writeInterfaces_eq
  by (rule insertChildren_standardWrite[OF old ne idx])
     (simp_all only: needsBlankLine_no_options)

lemma writeNamespaces_eq:
  "writeNamespaces this structs =
     (\<lambda>w info. standardWrite w info (printTexts (forNamespaceDeclaration (inAmbientContext this)) structs) (noStandardWriteOptions))"
  by (intro ext) (simp add: writeNamespaces_def isNodeAmbientOrInAmbientContext_def)

lemma insertNamespaces_eq:
  assumes old: "getCompilerStatements this = Inr old"
    and ne: "structs \<noteq> []"
    and idx: "0 \<le> idx" "idx \<le> int (length old)"
  shows "insertNamespaces host idx structs this =
    (getRangeFromArray
       (enumerate 0
         (take (nat idx) old
          @ parseText host
              (separatorBefore (isSourceFile this) old (nat idx) (\<lambda>_. False)
               @ [PrintTexts (forNamespaceDeclaration (inAmbientContext this)) structs]
               @ separatorAfter old (nat idx) (\<lambda>_. False))
          @ drop (nat idx) old))
       idx (length structs) ModuleDeclaration,
     replaceChildren
       (take (nat idx) old
          @ parseText host
              (separatorBefore (isSourceFile this) old (nat idx) (\<lambda>_. False)
               @ [PrintTexts (forNamespaceDeclaration (inAmbientContext this)) structs]
               @ separatorAfter old (nat idx) (\<lambda>_. False))
          @ drop (nat idx) old) this)"
  unfolding insertNamespaces_def writeNamespaces_eq
  by (rule insertChildren_standardWrite[OF old ne idx])
     (simp_all only: needsBlankLine_no_options)

lemma writeTypeAliases_eq:
  "writeTypeAliases this structs =
     (\<lambda>w info. standardWrite w info (printTexts (forTypeAliasDeclaration) structs) (typeAliasWriteOptions))"
  by (intro ext) (simp add: writeTypeAliases_def)

lemma insertTypeAliases_eq:
  assumes old: "getCompilerStatements this = Inr old"
    and ne: "structs \<noteq> []"
    and idx: "0 \<le> idx" "idx \<le> int (length old)"
  shows "insertTypeAliases host idx structs this =
    (getRangeFromArray
       (enumerate 0
         (take (nat idx) old
          @ parseText host
              (separatorBefore (isSourceFile this) old (nat idx) (\<lambda>n. getKind n = TypeAliasDeclaration)
               @ [PrintTexts (forTypeAliasDeclaration) structs]
               @ separatorAfter old (nat idx) (\<lambda>n. getKind n = TypeAliasDeclaration))
          @ drop (nat idx) old))
       idx (length structs) TypeAliasDeclaration,
     replaceChildren
       (take (nat idx) old
          @ parseText host
              (separatorBefore (isSourceFile this) old (nat idx) (\<lambda>n. getKind n = TypeAliasDeclaration)
               @ [PrintTexts (forTypeAliasDeclaration) structs]
               @ separatorAfter old (nat idx) (\<lambda>n. getKind n = TypeAliasDeclaration))
          @ drop (nat idx) old) this)"
  unfolding insertTypeAliases_def writeTypeAliases_eq
  by (rule insertChildren_standardWrite[OF old ne idx])
     (simp_all add: needsBlankLine_typeAlias)

lemma writeVariableStatements_eq:
  "writeVariableStatements this structs =
     (\<lambda>w info. standardWrite w info (printTexts (forVariableStatement) structs) (variableStatementWriteOptions))"
  by (intro ext) (simp add: writeVariableStatements_def)

lemma insertVariableStatements_eq:
  assumes old: "getCompilerStatements this = Inr old"
    and ne: "structs \<noteq> []"
    and idx: "0 \<le> idx" "idx \<le> int (length old)"
  shows "insertVariableStatements host idx structs this =
    (getRangeFromArray
       (enumerate 0
         (take (nat idx) old
          @ parseText host
              (separatorBefore (isSourceFile this) old (nat idx) (\<lambda>n. getKind n = VariableStatement)
               @ [PrintTexts (forVariableStatement) structs]
               @ separatorAfter old (nat idx) (\<lambda>n. getKind n = VariableStatement))
          @ drop (nat idx) old))
       idx (length structs) VariableStatement,
     replaceChildren
       (take (nat idx) old
          @ parseText host
              (separatorBefore (isSourceFile this) old (nat idx) (\<lambda>n. getKind n = VariableStatement)
               @ [PrintTexts (forVariableStatement) structs]
               @ separatorAfter old (nat idx) (\<lambda>n. getKind n = VariableStatement))
          @ drop (nat idx) old) this)"
  unfolding insertVariableStatements_def writeVariableStatements_eq
  by (rule insertChildren_standardWrite[OF old ne idx])
     (simp_all add: needsBlankLine_variableStatement)

subsection \<open>Spacing of an insertion\<close>

lemma separators_default:
  assumes "0 \<le> idx" "idx \<le> int (length old)"
  shows "separatorBefore atSourceFile old (nat idx) (\<lambda>_. False)
         = (if 0 < idx then [BlankLine] else if atSourceFile then [] else [NewLine])"
    and "separatorAfter old (nat idx) (\<lambda>_. False)
         = (if idx < int (length old) then [BlankLine] else [NewLine])"
  using assms by (auto simp: separatorBefore_def separatorAfter_def)

text \<open>
  Claim C9. Classes, enums, interfaces and namespaces are written with no option of
  their own. An insertion of a list that is not empty at an index in \<open>[0, length old]\<close>
  leaves the statements before the index, the nodes of the text it wrote and the
  statements from the index on. The text is, in this order: a blank line if there is a
  statement before the index, else a new line unless the node is the source file
  (nothing at the start of the file); the printed structures; a blank line if there is
  a statement at the index, else a new line.
\<close>

theorem insert_default_spacing:
  "(ins, printer) \<in>
      {(insertClasses, forClassDeclaration (inAmbientContext this)),
       (insertEnums, forEnumDeclaration),
       (insertInterfaces, forInterfaceDeclaration),
       (insertNamespaces, forNamespaceDeclaration (inAmbientContext this))}
   \<and> getCompilerStatements this = Inr old \<and> 0 \<le> idx \<and> idx \<le> int (length old)
   \<and> structs \<noteq> []
   \<longrightarrow>
     getCompilerStatements (snd (ins host idx structs this)) =
       Inr (take (nat idx) old
            @ parseText host
                ((if 0 < idx then [BlankLine] else if isSourceFile this then [] else [NewLine])
                 @ [PrintTexts printer structs]
                 @ (if idx < int (length old) then [BlankLine] else [NewLine]))
            @ drop (nat idx) old)"
proof
  assume a: "(ins, printer) \<in>
      {(insertClasses, forClassDeclaration (inAmbientContext this)),
       (insertEnums, forEnumDeclaration),
       (insertInterfaces, forInterfaceDeclaration),
       (insertNamespaces, forNamespaceDeclaration (inAmbientContext this))}
   \<and> getCompilerStatements this = Inr old \<and> 0 \<le> idx \<and> idx \<le> int (length old)
   \<and> structs \<noteq> []"
  then have old: "getCompilerStatements this = Inr old" and idx: "0 \<le> idx" "idx \<le> int (length old)"
    and ne: "structs \<noteq> []"
    by simp_all
  note sep = separators_default[OF idx]
  from a consider
      "ins = insertClasses" "printer = forClassDeclaration (inAmbientContext this)"
    | "ins = insertEnums" "printer = forEnumDeclaration"
    | "ins = insertInterfaces" "printer = forInterfaceDeclaration"
    | "ins = insertNamespaces" "printer = forNamespaceDeclaration (inAmbientContext this)"
    by auto
  then show "getCompilerStatements (snd (ins host idx structs this)) =
       Inr (take (nat idx) old
            @ parseText host
                ((if 0 < idx then [BlankLine] else if isSourceFile this then [] else [NewLine])
                 @ [PrintTexts printer structs]
                 @ (if idx < int (length old) then [BlankLine] else [NewLine]))
            @ drop (nat idx) old)"
  proof cases
    case 1
    show ?thesis
      unfolding 1 insertClasses_eq[OF old ne idx] snd_conv
        getCompilerStatements_replaceChildren[OF old] sep
      by (rule refl)
  next
    case 2
    show ?thesis
      unfolding 2 insertEnums_eq[OF old ne idx] snd_conv
        getCompilerStatements_replaceChildren[OF old] sep
      by (rule refl)
  next
    case 3
    show ?thesis
      unfolding 3 insertInterfaces_eq[OF old ne idx] snd_conv
        getCompilerStatements_replaceChildren[OF old] sep
      by (rule refl)
  next
    case 4
    show ?thesis
      unfolding 4 insertNamespaces_eq[OF old ne idx] snd_conv
        getCompilerStatements_replaceChildren[OF old] sep
      by (rule refl)
  qed
qed

text \<open>
  With the host that shows the layout. Two classes into an empty source file, at index
  0: nothing before the classes, a new line after them. An interface between \<open>x;\<close> and
  \<open>y;\<close>: a blank line before it and a blank line after it. A class into an empty
  namespace: a new line before it and a new line after it.
\<close>

theorem insert_default_spacing_witness:
  "getCompilerStatements (snd (insertClasses layoutHost 0 [\<lparr>structureName = ''A'', hasDeclareKeyword = None\<rparr>, \<lparr>structureName = ''B'', hasDeclareKeyword = None\<rparr>] \<lparr>compilerNode = SourceFile [], inAmbientContext = False\<rparr>))
     = Inr [Node ClassDeclaration (Some ''A'') False (Some []) [] ''A[new line]'',
            Node ClassDeclaration (Some ''B'') False (Some []) [] ''B[new line]'']
   \<and> getCompilerStatements (snd (insertInterfaces layoutHost 1 [\<lparr>structureName = ''I'', hasDeclareKeyword = None\<rparr>] \<lparr>compilerNode = SourceFile [Node ExpressionStatement None False None [] ''x;'', Node ExpressionStatement None False None [] ''y;''], inAmbientContext = False\<rparr>))
     = Inr [Node ExpressionStatement None False None [] ''x;'',
            Node InterfaceDeclaration (Some ''I'') False (Some []) [] ''[blank line]I[blank line]'',
            Node ExpressionStatement None False None [] ''y;'']
   \<and> getCompilerStatements (snd (insertClasses layoutHost 0 [\<lparr>structureName = ''A'', hasDeclareKeyword = None\<rparr>] \<lparr>compilerNode = NamespaceDeclaration [], inAmbientContext = False\<rparr>))
     = Inr [Node ClassDeclaration (Some ''A'') False (Some []) [] ''[new line]A[new line]'']"
  using insert_default_spacing
    [where ins = insertClasses and printer = "forClassDeclaration False" and host = layoutHost
       and this = "\<lparr>compilerNode = SourceFile [], inAmbientContext = False\<rparr>" and old = "[]" and idx = 0
       and structs = "[\<lparr>structureName = ''A'', hasDeclareKeyword = None\<rparr>, \<lparr>structureName = ''B'', hasDeclareKeyword = None\<rparr>]"]
    insert_default_spacing
    [where ins = insertInterfaces and printer = forInterfaceDeclaration and host = layoutHost
       and this = "\<lparr>compilerNode = SourceFile [Node ExpressionStatement None False None [] ''x;'', Node ExpressionStatement None False None [] ''y;''], inAmbientContext = False\<rparr>" and old = "[Node ExpressionStatement None False None [] ''x;'', Node ExpressionStatement None False None [] ''y;'']" and idx = 1
       and structs = "[\<lparr>structureName = ''I'', hasDeclareKeyword = None\<rparr>]"]
    insert_default_spacing
    [where ins = insertClasses and printer = "forClassDeclaration False" and host = layoutHost
       and this = "\<lparr>compilerNode = NamespaceDeclaration [], inAmbientContext = False\<rparr>" and old = "[]" and idx = 0
       and structs = "[\<lparr>structureName = ''A'', hasDeclareKeyword = None\<rparr>]"]
  by (simp add: getCompilerStatements_def isSourceFile_def layoutHost_def exampleHost_def
      parseStructure_def printerKind_def showLayout_def isLayout_def)

lemma separators_function:
  assumes "0 \<le> idx" "idx \<le> int (length old)"
  shows "separatorBefore atSourceFile old (nat idx) P
         = (if 0 < idx then (if P (old ! (nat idx - 1)) then [NewLine] else [BlankLine])
            else if atSourceFile then [] else [NewLine])"
    and "separatorAfter old (nat idx) Q
         = (if idx < int (length old) then (if Q (old ! nat idx) then [NewLine] else [BlankLine])
            else [NewLine])"
  using assms by (auto simp: separatorBefore_def separatorAfter_def)

lemma snd_firstOf: "snd (firstOf r) = snd r"
  by (cases r; cases "fst r") (simp_all add: firstOf_def)

text \<open>
  Claim C3, as amended. An insertion of function declarations (a list that is not
  empty) at an index in \<open>[0, length old]\<close> leaves the statements before the index, the
  nodes of the text it wrote and the statements from the index on. In the text, the
  separator before the printed structures, where there is a statement before the index,
  is a single new line when the first structure has \<^verbatim>\<open>hasDeclareKeyword === true\<close> and
  that statement is a function declaration without a body that has no implementation
  among the statements, and a blank line in every other case; the separator after them,
  where there is a statement at the index, is a single new line when the last structure
  has the flag and that statement is a function declaration without a body that has no
  implementation among the statements, and a blank line in every other case. The
  signature of an overload counts as its implementation, which has a body.
\<close>

theorem insertFunctions_separators:
  "getCompilerStatements this = Inr old \<and> 0 \<le> idx \<and> idx \<le> int (length old)
   \<and> structs \<noteq> []
   \<longrightarrow>
     getCompilerStatements (snd (insertFunctions host idx structs this)) =
       Inr (take (nat idx) old
            @ parseText host
                ((if 0 < idx
                  then (if hasDeclareKeyword (hd structs) = Some True
                           \<and> isSignatureWithoutImplementation old (old ! (nat idx - 1))
                        then [NewLine] else [BlankLine])
                  else if isSourceFile this then [] else [NewLine])
                 @ [PrintTexts (forFunctionDeclaration (inAmbientContext this)) structs]
                 @ (if idx < int (length old)
                    then (if hasDeclareKeyword (last structs) = Some True
                             \<and> isSignatureWithoutImplementation old (old ! nat idx)
                          then [NewLine] else [BlankLine])
                    else [NewLine]))
            @ drop (nat idx) old)"
proof
  assume a: "getCompilerStatements this = Inr old \<and> 0 \<le> idx \<and> idx \<le> int (length old)
   \<and> structs \<noteq> []"
  then have old: "getCompilerStatements this = Inr old" and idx: "0 \<le> idx" "idx \<le> int (length old)"
    and ne: "structs \<noteq> []"
    by simp_all
  show "getCompilerStatements (snd (insertFunctions host idx structs this)) =
       Inr (take (nat idx) old
            @ parseText host
                ((if 0 < idx
                  then (if hasDeclareKeyword (hd structs) = Some True
                           \<and> isSignatureWithoutImplementation old (old ! (nat idx - 1))
                        then [NewLine] else [BlankLine])
                  else if isSourceFile this then [] else [NewLine])
                 @ [PrintTexts (forFunctionDeclaration (inAmbientContext this)) structs]
                 @ (if idx < int (length old)
                    then (if hasDeclareKeyword (last structs) = Some True
                             \<and> isSignatureWithoutImplementation old (old ! nat idx)
                          then [NewLine] else [BlankLine])
                    else [NewLine]))
            @ drop (nat idx) old)"
    unfolding insertFunctions_eq[OF old ne idx] snd_conv
      getCompilerStatements_replaceChildren[OF old] separators_function[OF idx]
    by (rule refl)
qed

text \<open>
  Claim C3 as stated fails next to the signature of an overload. In the source file
  \<^verbatim>\<open>function f(a: string): void; function f(a: any) {}\<close> the first statement is a
  function declaration with no body. The ambient function \<open>g\<close>, with
  \<^verbatim>\<open>hasDeclareKeyword === true\<close>, is inserted at index 0, where that statement is the
  next member, and at index 1, where it is the previous member: the separator between
  \<open>g\<close> and that statement is a blank line both times, not a single new line.
\<close>

theorem insertFunctions_separators_counterexample:
  "hasDeclareKeyword \<lparr>structureName = ''g'', hasDeclareKeyword = Some True\<rparr> = Some True
   \<and> getKind (Node FunctionDeclaration (Some ''f'') False None [] ''function f(a: string): void;'') = FunctionDeclaration
   \<and> getBody (Node FunctionDeclaration (Some ''f'') False None [] ''function f(a: string): void;'') = None
   \<and> getCompilerStatements (snd (insertFunctions layoutHost 0 [\<lparr>structureName = ''g'', hasDeclareKeyword = Some True\<rparr>] \<lparr>compilerNode = SourceFile [Node FunctionDeclaration (Some ''f'') False None [] ''function f(a: string): void;'', Node FunctionDeclaration (Some ''f'') False (Some []) [] ''function f(a: any) {}''], inAmbientContext = False\<rparr>))
     = Inr [Node FunctionDeclaration (Some ''g'') True None [] ''g[blank line]'',
            Node FunctionDeclaration (Some ''f'') False None [] ''function f(a: string): void;'',
            Node FunctionDeclaration (Some ''f'') False (Some []) [] ''function f(a: any) {}'']
   \<and> getCompilerStatements (snd (insertFunctions layoutHost 1 [\<lparr>structureName = ''g'', hasDeclareKeyword = Some True\<rparr>] \<lparr>compilerNode = SourceFile [Node FunctionDeclaration (Some ''f'') False None [] ''function f(a: string): void;'', Node FunctionDeclaration (Some ''f'') False (Some []) [] ''function f(a: any) {}''], inAmbientContext = False\<rparr>))
     = Inr [Node FunctionDeclaration (Some ''f'') False None [] ''function f(a: string): void;'',
            Node FunctionDeclaration (Some ''g'') True None [] ''[blank line]g[blank line]'',
            Node FunctionDeclaration (Some ''f'') False (Some []) [] ''function f(a: any) {}'']"
  by code_simp

text \<open>
  The scenario of the claim, with the host that shows the layout: the ambient function
  \<open>g\<close> without a body, added after \<^verbatim>\<open>declare function f(): void;\<close> in a source file: a
  single new line between them.
\<close>

theorem insertFunctions_separators_witness:
  "getCompilerStatements (snd (addFunction layoutHost \<lparr>structureName = ''g'', hasDeclareKeyword = Some True\<rparr> \<lparr>compilerNode = SourceFile [Node FunctionDeclaration (Some ''f'') True None [] ''declare function f(): void;''], inAmbientContext = False\<rparr>))
     = Inr [Node FunctionDeclaration (Some ''f'') True None [] ''declare function f(): void;'',
            Node FunctionDeclaration (Some ''g'') True None [] ''[new line]g[new line]'']"
  using insertFunctions_separators
    [where host = layoutHost and this = "\<lparr>compilerNode = SourceFile [Node FunctionDeclaration (Some ''f'') True None [] ''declare function f(): void;''], inAmbientContext = False\<rparr>" and old = "[Node FunctionDeclaration (Some ''f'') True None [] ''declare function f(): void;'']" and idx = 1
       and structs = "[\<lparr>structureName = ''g'', hasDeclareKeyword = Some True\<rparr>]"]
  by (simp add: addFunction_def addFunctions_def snd_firstOf
      getCompilerStatements_def isSourceFile_def isSignatureWithoutImplementation_def
      layoutHost_def exampleHost_def parseStructure_def printerKind_def showLayout_def
      isLayout_def)

subsection \<open>Adding is inserting at the end\<close>

text \<open>
  Claim C5. Where the node has a statement count (its statements resolve to \<open>ss\<close>),
  every \<^verbatim>\<open>addKs\<close> and \<^verbatim>\<open>addK\<close> is the \<^verbatim>\<open>insertKs\<close> and \<^verbatim>\<open>insertK\<close> of the kind at
  that count, and \<^verbatim>\<open>addStatements\<close> is \<^verbatim>\<open>insertStatements\<close> at that count: the same
  outcome (returned declarations or error) and the same node after the call.
\<close>

theorem add_is_insert_at_count:
  "getCompilerStatements this = Inr ss \<longrightarrow>
     addClasses host structs this = insertClasses host (int (length ss)) structs this
   \<and> addEnums host structs this = insertEnums host (int (length ss)) structs this
   \<and> addFunctions host structs this = insertFunctions host (int (length ss)) structs this
   \<and> addInterfaces host structs this = insertInterfaces host (int (length ss)) structs this
   \<and> addNamespaces host structs this = insertNamespaces host (int (length ss)) structs this
   \<and> addTypeAliases host structs this = insertTypeAliases host (int (length ss)) structs this
   \<and> addVariableStatements host structs this
       = insertVariableStatements host (int (length ss)) structs this
   \<and> addClass host struct this = insertClass host (int (length ss)) struct this
   \<and> addEnum host struct this = insertEnum host (int (length ss)) struct this
   \<and> addFunction host struct this = insertFunction host (int (length ss)) struct this
   \<and> addInterface host struct this = insertInterface host (int (length ss)) struct this
   \<and> addNamespace host struct this = insertNamespace host (int (length ss)) struct this
   \<and> addTypeAlias host struct this = insertTypeAlias host (int (length ss)) struct this
   \<and> addVariableStatement host struct this
       = insertVariableStatement host (int (length ss)) struct this
   \<and> addStatements host textOrWriterFunction this
       = insertStatements host (int (length ss)) textOrWriterFunction this"
  by (simp add: addClasses_def addEnums_def addFunctions_def addInterfaces_def addNamespaces_def
      addTypeAliases_def addVariableStatements_def addStatements_def
      addClass_def addEnum_def addFunction_def addInterface_def addNamespace_def
      addTypeAlias_def addVariableStatement_def
      insertClass_def insertEnum_def insertFunction_def insertInterface_def insertNamespace_def
      insertTypeAlias_def insertVariableStatement_def)

theorem add_is_insert_at_count_witness:
  "addClasses exampleHost [\<lparr>structureName = ''A'', hasDeclareKeyword = None\<rparr>] \<lparr>compilerNode = SourceFile [Node FunctionDeclaration (Some ''f'') True None [] ''declare function f(): void;''], inAmbientContext = False\<rparr>
     = insertClasses exampleHost 1 [\<lparr>structureName = ''A'', hasDeclareKeyword = None\<rparr>] \<lparr>compilerNode = SourceFile [Node FunctionDeclaration (Some ''f'') True None [] ''declare function f(): void;''], inAmbientContext = False\<rparr>
   \<and> addStatements exampleHost (Text ''x;'') \<lparr>compilerNode = SourceFile [Node FunctionDeclaration (Some ''f'') True None [] ''declare function f(): void;''], inAmbientContext = False\<rparr>
     = insertStatements exampleHost 1 (Text ''x;'') \<lparr>compilerNode = SourceFile [Node FunctionDeclaration (Some ''f'') True None [] ''declare function f(): void;''], inAmbientContext = False\<rparr>"
  using add_is_insert_at_count
    [where this = "\<lparr>compilerNode = SourceFile [Node FunctionDeclaration (Some ''f'') True None [] ''declare function f(): void;''], inAmbientContext = False\<rparr>"
       and ss = "[Node FunctionDeclaration (Some ''f'') True None [] ''declare function f(): void;'']"
       and host = exampleHost and structs = "[\<lparr>structureName = ''A'', hasDeclareKeyword = None\<rparr>]" and textOrWriterFunction = "Text ''x;''"]
  by (simp add: getCompilerStatements_def)

subsection \<open>The functions a node shows\<close>

text \<open>
  Claim C6. \<^verbatim>\<open>getFunctions\<close> returns, in their order, exactly the direct children
  that are function declarations and are ambient or have a body: a function declaration
  that is not ambient and has no body is left out, an ambient one without a body and
  one that is not ambient and has a body are returned.
\<close>

theorem getFunctions_ambient_or_implementation:
  "getFunctions this =
     filter (\<lambda>f. getKind (snd f) = FunctionDeclaration
                  \<and> (isAmbient (snd f) \<or> getBody (snd f) \<noteq> None))
       (case getChildSyntaxList this of None \<Rightarrow> [] | Some children \<Rightarrow> enumerate 0 children)"
  by (cases "getChildSyntaxList this")
     (auto simp: getFunctions_def getChildrenOfKind_def isImplementation_def intro: filter_cong)

theorem getFunctions_ambient_or_implementation_witness:
  "getFunctions
     \<lparr>compilerNode = SourceFile
        [Node FunctionDeclaration (Some ''o'') False None [] ''function o(): void;'',
         Node FunctionDeclaration (Some ''a'') True None [] ''declare function a(): void;'',
         Node FunctionDeclaration (Some ''i'') False (Some []) [] ''function i() {}''],
      inAmbientContext = False\<rparr>
   = [(1, Node FunctionDeclaration (Some ''a'') True None [] ''declare function a(): void;''),
      (2, Node FunctionDeclaration (Some ''i'') False (Some []) [] ''function i() {}'')]"
  using getFunctions_ambient_or_implementation
    [of "\<lparr>compilerNode = SourceFile
        [Node FunctionDeclaration (Some ''o'') False None [] ''function o(): void;'',
         Node FunctionDeclaration (Some ''a'') True None [] ''declare function a(): void;'',
         Node FunctionDeclaration (Some ''i'') False (Some []) [] ''function i() {}''],
      inAmbientContext = False\<rparr>"]
  by (simp add: getChildSyntaxList_def)

subsection \<open>Reading a node without a body\<close>

lemma addBodyIfNotExists_hasBody: "hasBody (addBodyIfNotExists this)"
  by (auto simp: addBodyIfNotExists_def hasBody_def addBody_def isBodyableNode_def
      split: CompilerNode.splits option.splits)

lemma hasBody_replaceChildren: "hasBody (replaceChildren ss this)"
  by (simp add: hasBody_def replaceChildren_def split: CompilerNode.splits option.splits)

lemma insertStatements_hasBody: "hasBody (snd (insertStatements host idx t this))"
  by (auto simp: insertStatements_def Let_def addBodyIfNotExists_hasBody hasBody_replaceChildren
      split: option.splits list.splits Node.splits SyntaxKind.splits sum.splits prod.splits)

lemma engine_hasBody:
  "hasBody parent \<Longrightarrow> hasBody (snd (insertIntoBracesOrSourceFileWithGetChildren host opts parent))"
  by (auto simp: insertIntoBracesOrSourceFileWithGetChildren_def Let_def hasBody_replaceChildren
      split: sum.splits)

lemma insertChildren_hasBody: "hasBody (snd (insertChildren host opts this))"
  by (simp add: insertChildren_def engine_hasBody addBodyIfNotExists_hasBody)

lemma isBodyableNode_addBodyIfNotExists:
  "isBodyableNode (addBodyIfNotExists this) = isBodyableNode this"
  by (simp add: addBodyIfNotExists_def addBody_def isBodyableNode_def)

lemma isBodyableNode_replaceChildren:
  "isBodyableNode (replaceChildren ss this) = isBodyableNode this"
  by (simp add: isBodyableNode_def replaceChildren_def split: CompilerNode.splits)

lemma insertStatements_isBodyableNode:
  "isBodyableNode (snd (insertStatements host idx t this)) = isBodyableNode this"
  by (auto simp: insertStatements_def Let_def isBodyableNode_addBodyIfNotExists
      isBodyableNode_replaceChildren
      split: option.splits list.splits Node.splits SyntaxKind.splits sum.splits prod.splits)

lemma insertChildren_isBodyableNode:
  "isBodyableNode (snd (insertChildren host opts this)) = isBodyableNode this"
  by (auto simp: insertChildren_def insertIntoBracesOrSourceFileWithGetChildren_def Let_def
      isBodyableNode_addBodyIfNotExists isBodyableNode_replaceChildren split: sum.splits)

text \<open>
  Claim C8. On a bodyable node without a body every read returns the empty list or
  nothing: the statements, the declarations of each kind, and every lookup. A read is a
  function of the node to the value read, it has no node to return: the node is as it
  was, without a body. A body is made by \<^verbatim>\<open>addBodyIfNotExists\<close>, the first step of
  \<^verbatim>\<open>insertStatements\<close> and of \<^verbatim>\<open>_insertChildren\<close>: whatever these two go on to do, the
  node is still a bodyable node after them, and has a body.
\<close>

theorem reads_never_create_body:
  "getCompilerStatements \<lparr>compilerNode = BodyableNode None, inAmbientContext = a\<rparr> = Inr []
   \<and> getStatements \<lparr>compilerNode = BodyableNode None, inAmbientContext = a\<rparr> = Inr []
   \<and> getStatement findFunction \<lparr>compilerNode = BodyableNode None, inAmbientContext = a\<rparr> = Inr None
   \<and> getStatementByKind kind \<lparr>compilerNode = BodyableNode None, inAmbientContext = a\<rparr> = Inr None
   \<and> getClasses \<lparr>compilerNode = BodyableNode None, inAmbientContext = a\<rparr> = []
   \<and> getEnums \<lparr>compilerNode = BodyableNode None, inAmbientContext = a\<rparr> = []
   \<and> getFunctions \<lparr>compilerNode = BodyableNode None, inAmbientContext = a\<rparr> = []
   \<and> getInterfaces \<lparr>compilerNode = BodyableNode None, inAmbientContext = a\<rparr> = []
   \<and> getNamespaces \<lparr>compilerNode = BodyableNode None, inAmbientContext = a\<rparr> = []
   \<and> getTypeAliases \<lparr>compilerNode = BodyableNode None, inAmbientContext = a\<rparr> = []
   \<and> getVariableStatements \<lparr>compilerNode = BodyableNode None, inAmbientContext = a\<rparr> = []
   \<and> getVariableDeclarations \<lparr>compilerNode = BodyableNode None, inAmbientContext = a\<rparr> = []
   \<and> getClass x \<lparr>compilerNode = BodyableNode None, inAmbientContext = a\<rparr> = None
   \<and> getEnum x \<lparr>compilerNode = BodyableNode None, inAmbientContext = a\<rparr> = None
   \<and> getFunction x \<lparr>compilerNode = BodyableNode None, inAmbientContext = a\<rparr> = None
   \<and> getInterface x \<lparr>compilerNode = BodyableNode None, inAmbientContext = a\<rparr> = None
   \<and> getNamespace x \<lparr>compilerNode = BodyableNode None, inAmbientContext = a\<rparr> = None
   \<and> getTypeAlias x \<lparr>compilerNode = BodyableNode None, inAmbientContext = a\<rparr> = None
   \<and> getVariableStatement findFunction \<lparr>compilerNode = BodyableNode None, inAmbientContext = a\<rparr> = None
   \<and> getVariableDeclaration x \<lparr>compilerNode = BodyableNode None, inAmbientContext = a\<rparr> = None
   \<and> addBodyIfNotExists \<lparr>compilerNode = BodyableNode None, inAmbientContext = a\<rparr>
       = \<lparr>compilerNode = BodyableNode (Some []), inAmbientContext = a\<rparr>
   \<and> isBodyableNode (snd (insertStatements host idx textOrWriterFunction \<lparr>compilerNode = BodyableNode None, inAmbientContext = a\<rparr>))
   \<and> hasBody (snd (insertStatements host idx textOrWriterFunction \<lparr>compilerNode = BodyableNode None, inAmbientContext = a\<rparr>))
   \<and> isBodyableNode (snd (insertChildren host opts \<lparr>compilerNode = BodyableNode None, inAmbientContext = a\<rparr>))
   \<and> hasBody (snd (insertChildren host opts \<lparr>compilerNode = BodyableNode None, inAmbientContext = a\<rparr>))"
  by (cases x)
     (simp_all add: getCompilerStatements_def getStatements_def getStatement_def
      getStatementByKind_def find_first_def getChildSyntaxList_def
      getClasses_def getEnums_def getFunctions_def getInterfaces_def getNamespaces_def
      getTypeAliases_def getVariableStatements_def getVariableDeclarations_def
      getClass_def getEnum_def getFunction_def getInterface_def getNamespace_def
      getTypeAlias_def getVariableStatement_def getVariableDeclaration_def
      getNodeByNameOrFindFunction_def addBodyIfNotExists_def isBodyableNode_def hasBody_def
      addBody_def insertStatements_hasBody[unfolded hasBody_def]
      insertChildren_hasBody[unfolded hasBody_def]
      insertStatements_isBodyableNode[unfolded isBodyableNode_def]
      insertChildren_isBodyableNode[unfolded isBodyableNode_def])

theorem reads_never_create_body_witness:
  "getStatements \<lparr>compilerNode = BodyableNode None, inAmbientContext = False\<rparr> = Inr []
   \<and> getFunctions \<lparr>compilerNode = BodyableNode None, inAmbientContext = False\<rparr> = []
   \<and> getClass (Name ''A'') \<lparr>compilerNode = BodyableNode None, inAmbientContext = False\<rparr> = None
   \<and> isBodyableNode (snd (insertStatements exampleHost 0 (Text ''x;'') \<lparr>compilerNode = BodyableNode None, inAmbientContext = False\<rparr>))
   \<and> hasBody (snd (insertStatements exampleHost 0 (Text ''x;'') \<lparr>compilerNode = BodyableNode None, inAmbientContext = False\<rparr>))"
  using reads_never_create_body
    [where a = False and x = "Name ''A''" and host = exampleHost and idx = 0
       and textOrWriterFunction = "Text ''x;''"]
  by simp

subsection \<open>Removing a range\<close>

lemma removeStatements_range_check:
  assumes "getCompilerStatements this = Inr ss"
    and "start > finish \<or> start < 0 \<or> start > int (length ss)
         \<or> finish < 0 \<or> finish > int (length ss)"
  shows "removeStatements (start, finish) this = (Inl OutOfBounds, this)"
  using assms
  by (auto simp: removeStatements_def getStatements_def throwIfRangeOutOfRange_def
      split: sum.splits)

lemma removeStatements_start_after_end:
  "\<exists>e. removeStatements (2, 0) this = (Inl e, this)"
  by (auto simp: removeStatements_def getStatements_def throwIfRangeOutOfRange_def
      split: sum.splits)

text \<open>
  Claim C4. \<^verbatim>\<open>removeStatements\<close> checks the range against \<^verbatim>\<open>[0, statements.length]\<close>,
  a pair whose ends both belong to it, where \<^verbatim>\<open>removeStatement\<close> checks its index
  against \<^verbatim>\<open>statements.length - 1\<close>. On a source file of the three statements \<open>a;\<close>,
  \<open>b;\<close> and \<open>c;\<close> the bound 3 is outside \<open>[0, 3)\<close>. \<^verbatim>\<open>removeStatements([3, 3])\<close>
  returns and leaves the three statements; \<^verbatim>\<open>removeStatements([1, 3])\<close> returns and
  removes \<open>b;\<close> and \<open>c;\<close>; \<^verbatim>\<open>removeStatement(3)\<close> throws the out-of-bounds error. A
  range that starts after its end, or with a bound below 0 or above 3, throws that error
  and leaves the node as it was.
\<close>

theorem removeStatements_bound_equal_to_length:
  "removeStatements (3, 3)
      \<lparr>compilerNode = SourceFile
        [Node ExpressionStatement None False None [] ''a;'',
         Node ExpressionStatement None False None [] ''b;'',
         Node ExpressionStatement None False None [] ''c;''],
       inAmbientContext = False\<rparr>
   = (Inr (),
      \<lparr>compilerNode = SourceFile
        [Node ExpressionStatement None False None [] ''a;'',
         Node ExpressionStatement None False None [] ''b;'',
         Node ExpressionStatement None False None [] ''c;''],
       inAmbientContext = False\<rparr>)
   \<and> removeStatements (1, 3)
      \<lparr>compilerNode = SourceFile
        [Node ExpressionStatement None False None [] ''a;'',
         Node ExpressionStatement None False None [] ''b;'',
         Node ExpressionStatement None False None [] ''c;''],
       inAmbientContext = False\<rparr>
   = (Inr (),
      \<lparr>compilerNode = SourceFile [Node ExpressionStatement None False None [] ''a;''],
       inAmbientContext = False\<rparr>)
   \<and> removeStatement 3
      \<lparr>compilerNode = SourceFile
        [Node ExpressionStatement None False None [] ''a;'',
         Node ExpressionStatement None False None [] ''b;'',
         Node ExpressionStatement None False None [] ''c;''],
       inAmbientContext = False\<rparr>
   = (Inl OutOfBounds,
      \<lparr>compilerNode = SourceFile
        [Node ExpressionStatement None False None [] ''a;'',
         Node ExpressionStatement None False None [] ''b;'',
         Node ExpressionStatement None False None [] ''c;''],
       inAmbientContext = False\<rparr>)
   \<and> removeStatements (2, 0)
      \<lparr>compilerNode = SourceFile
        [Node ExpressionStatement None False None [] ''a;'',
         Node ExpressionStatement None False None [] ''b;'',
         Node ExpressionStatement None False None [] ''c;''],
       inAmbientContext = False\<rparr>
   = (Inl OutOfBounds,
      \<lparr>compilerNode = SourceFile
        [Node ExpressionStatement None False None [] ''a;'',
         Node ExpressionStatement None False None [] ''b;'',
         Node ExpressionStatement None False None [] ''c;''],
       inAmbientContext = False\<rparr>)
   \<and> removeStatements (0, 4)
      \<lparr>compilerNode = SourceFile
        [Node ExpressionStatement None False None [] ''a;'',
         Node ExpressionStatement None False None [] ''b;'',
         Node ExpressionStatement None False None [] ''c;''],
       inAmbientContext = False\<rparr>
   = (Inl OutOfBounds,
      \<lparr>compilerNode = SourceFile
        [Node ExpressionStatement None False None [] ''a;'',
         Node ExpressionStatement None False None [] ''b;'',
         Node ExpressionStatement None False None [] ''c;''],
       inAmbientContext = False\<rparr>)"
  by code_simp

subsection \<open>Lookup by name or find function\<close>















subsection \<open>Where an insertion puts the declarations\<close>

lemma drop_enumerate: "drop m (enumerate n xs) = enumerate (n + m) (drop m xs)"
proof (induction xs arbitrary: n m)
  case Nil
  then show ?case by simp
next
  case (Cons x xs)
  then show ?case by (cases m) simp_all
qed

lemma take_enumerate: "take m (enumerate n xs) = enumerate n (take m xs)"
proof (induction xs arbitrary: n m)
  case Nil
  then show ?case by simp
next
  case (Cons x xs)
  then show ?case by (cases m) simp_all
qed

lemma getRangeFromArray_spliced:
  assumes ok: "getRangeFromArray (enumerate 0 (take i old @ new @ drop i old)) (int i) n kind
               = Inr inserted"
    and i: "i \<le> length old"
  shows "inserted = take n (enumerate i (new @ drop i old))"
    and "length inserted = n"
    and "\<forall>w \<in> set inserted. getKind (snd w) = kind"
proof -
  let ?xs = "take i old @ new @ drop i old"
  let ?ys = "new @ drop i old"
  have len: "length ?xs = i + length ?ys"
    using i by simp
  have d: "drop i (enumerate 0 ?xs) = enumerate i ?ys"
    using i by (simp add: drop_enumerate)
  have m: "nat (min (int i + int n) (int (length ?xs)) - int i) = min n (length ?ys)"
    unfolding len by (auto simp: min_def nat_add_distrib)
  have t: "take (min n (length ?ys)) (enumerate i ?ys) = take n (enumerate i ?ys)"
    by (simp add: min_def)
  have s: "slice (enumerate 0 ?xs) (int i) (int i + int n) = take n (enumerate i ?ys)"
    unfolding slice_def Let_def
    using d m t len by (simp add: min_def del: length_append)
  from ok have l: "length (slice (enumerate 0 ?xs) (int i) (int i + int n)) = n"
    and k: "list_all (\<lambda>c. getKind (snd c) = kind) (slice (enumerate 0 ?xs) (int i) (int i + int n))"
    and r: "inserted = slice (enumerate 0 ?xs) (int i) (int i + int n)"
    by (auto simp: getRangeFromArray_def Let_def split: if_splits)
  from s r show "inserted = take n (enumerate i ?ys)"
    by simp
  from l r show "length inserted = n"
    by simp
  from k r show "\<forall>w \<in> set inserted. getKind (snd w) = kind"
    by (simp add: list_all_iff)
qed

lemma splice_positions:
  assumes after: "getCompilerStatements this' = Inr (take i old @ new @ drop i old)"
    and ins: "inserted = take n (enumerate i (new @ drop i old))"
    and len: "length inserted = n"
    and kind: "\<forall>w \<in> set inserted. getKind (snd w) = kind"
    and i: "i \<le> length old"
  shows "\<exists>after. getCompilerStatements this' = Inr after
          \<and> after = take i old @ new @ drop i old
          \<and> (\<forall>k < length new. after ! (i + k) = new ! k)
          \<and> (\<forall>j < i. after ! j = old ! j)
          \<and> (\<forall>j. i \<le> j \<and> j < length old \<longrightarrow> after ! (j + length new) = old ! j)
          \<and> length after = length old + length new
          \<and> map fst inserted = [i ..< i + n]
          \<and> (\<forall>k < n. inserted ! k = (i + k, after ! (i + k)))
          \<and> (\<forall>w \<in> set inserted. getKind (snd w) = kind)
          \<and> (length new = n \<longrightarrow> map snd inserted = new)"
proof -
  let ?after = "take i old @ new @ drop i old"
  have lt: "length (take i old) = i" using i by simp
  have n: "n \<le> length (new @ drop i old)"
    using len unfolding ins by (simp add: min_def split: if_splits)
  have a: "\<forall>k < length new. ?after ! (i + k) = new ! k"
    using lt by (simp add: nth_append)
  have b: "\<forall>j < i. ?after ! j = old ! j"
    using lt by (simp add: nth_append)
  have c: "\<forall>j. i \<le> j \<and> j < length old \<longrightarrow> ?after ! (j + length new) = old ! j"
    using i lt by (auto simp: nth_append)
  have l: "length ?after = length old + length new"
    using i by simp
  have tl: "length (take n (new @ drop i old)) = n"
    using n by simp
  have f: "map fst inserted = [i ..< i + n]"
    unfolding ins take_enumerate by (simp only: map_fst_enumerate tl)
  have e: "\<forall>k < n. inserted ! k = (i + k, ?after ! (i + k))"
    using n lt unfolding ins take_enumerate by (simp add: nth_enumerate_eq nth_append)
  have s: "length new = n \<longrightarrow> map snd inserted = new"
    unfolding ins take_enumerate by simp
  from after a b c l f e s kind show ?thesis
    by simp
qed

lemma insert_positions_generic:
  assumes eq: "r =
      (getRangeFromArray (enumerate 0 (take (nat idx) old @ new @ drop (nat idx) old))
         idx (length structs) kind,
       replaceChildren (take (nat idx) old @ new @ drop (nat idx) old) this)"
    and old: "getCompilerStatements this = Inr old"
    and idx: "0 \<le> idx" "idx \<le> int (length old)"
    and ok: "r = (Inr inserted, this')"
  shows "(\<exists>after. getCompilerStatements this' = Inr after
          \<and> after = take (nat idx) old @ new @ drop (nat idx) old
          \<and> (\<forall>k < length new. after ! (nat idx + k) = new ! k)
          \<and> (\<forall>j < nat idx. after ! j = old ! j)
          \<and> (\<forall>j. nat idx \<le> j \<and> j < length old \<longrightarrow> after ! (j + length new) = old ! j)
          \<and> length after = length old + length new
          \<and> map fst inserted = [nat idx ..< nat idx + length structs]
          \<and> (\<forall>k < length structs. inserted ! k = (nat idx + k, after ! (nat idx + k)))
          \<and> (\<forall>w \<in> set inserted. getKind (snd w) = kind)
          \<and> (length new = length structs \<longrightarrow> map snd inserted = new))"
proof -
  have i: "nat idx \<le> length old" "int (nat idx) = idx"
    using idx by simp_all
  from eq ok have r: "getRangeFromArray (enumerate 0 (take (nat idx) old @ new @ drop (nat idx) old))
         (int (nat idx)) (length structs) kind = Inr inserted"
    and t: "this' = replaceChildren (take (nat idx) old @ new @ drop (nat idx) old) this"
    using idx by simp_all
  have a: "getCompilerStatements this' = Inr (take (nat idx) old @ new @ drop (nat idx) old)"
    unfolding t by (rule getCompilerStatements_replaceChildren[OF old])
  show ?thesis
    by (rule splice_positions[OF a getRangeFromArray_spliced[OF r i(1)] i(1)])
qed

text \<open>
  Claim C1, as amended. Let \<open>insertKs\<close> be the insert of one of the seven kinds, the
  statements of the node resolve to \<open>old\<close>, the index be in \<open>[0, length old]\<close> and the
  list of structures not be empty. Let \<open>new\<close> be the nodes the host parses from the
  text the call writes: the separator before, the printed structures, the separator
  after. If the call succeeds, the statements of the node after it are the statements
  that were before the index, where and what they were, then \<open>new\<close> in the order of the
  text, then the statements that were at the index or after it: a statement that was at
  \<open>j \<ge> idx\<close> is at \<open>j + length new\<close>. The call returns the statements at the child
  indices \<open>idx, ..., idx + n - 1\<close>, \<open>n\<close> the number of structures, and they are of the
  kind; they are \<open>new\<close> when the host parses \<open>n\<close> nodes from the text. The shift is by
  the number of nodes parsed, which is not the number of structures when a structure
  prints more than one declaration.
\<close>

theorem insert_positions:
  "(ins, printer, kind, noBlankLineBefore, noBlankLineAfter) \<in>
      {(insertClasses, forClassDeclaration (inAmbientContext this), ClassDeclaration,
          (\<lambda>_. False), (\<lambda>_. False)),
       (insertEnums, forEnumDeclaration, EnumDeclaration, (\<lambda>_. False), (\<lambda>_. False)),
       (insertFunctions, forFunctionDeclaration (inAmbientContext this), FunctionDeclaration,
          (\<lambda>n. hasDeclareKeyword (hd structs) = Some True \<and> isSignatureWithoutImplementation old n),
          (\<lambda>n. hasDeclareKeyword (last structs) = Some True \<and> isSignatureWithoutImplementation old n)),
       (insertInterfaces, forInterfaceDeclaration, InterfaceDeclaration, (\<lambda>_. False), (\<lambda>_. False)),
       (insertNamespaces, forNamespaceDeclaration (inAmbientContext this), ModuleDeclaration,
          (\<lambda>_. False), (\<lambda>_. False)),
       (insertTypeAliases, forTypeAliasDeclaration, TypeAliasDeclaration,
          (\<lambda>n. getKind n = TypeAliasDeclaration), (\<lambda>n. getKind n = TypeAliasDeclaration)),
       (insertVariableStatements, forVariableStatement, VariableStatement,
          (\<lambda>n. getKind n = VariableStatement), (\<lambda>n. getKind n = VariableStatement))}
   \<and> getCompilerStatements this = Inr old \<and> 0 \<le> idx \<and> idx \<le> int (length old)
   \<and> structs \<noteq> []
   \<and> new = parseText host
             (separatorBefore (isSourceFile this) old (nat idx) noBlankLineBefore
              @ [PrintTexts printer structs]
              @ separatorAfter old (nat idx) noBlankLineAfter)
   \<and> ins host idx structs this = (Inr inserted, this')
   \<longrightarrow>
     (\<exists>after. getCompilerStatements this' = Inr after
          \<and> after = take (nat idx) old @ new @ drop (nat idx) old
          \<and> (\<forall>k < length new. after ! (nat idx + k) = new ! k)
          \<and> (\<forall>j < nat idx. after ! j = old ! j)
          \<and> (\<forall>j. nat idx \<le> j \<and> j < length old \<longrightarrow> after ! (j + length new) = old ! j)
          \<and> length after = length old + length new
          \<and> map fst inserted = [nat idx ..< nat idx + length structs]
          \<and> (\<forall>k < length structs. inserted ! k = (nat idx + k, after ! (nat idx + k)))
          \<and> (\<forall>w \<in> set inserted. getKind (snd w) = kind)
          \<and> (length new = length structs \<longrightarrow> map snd inserted = new))"
proof
  assume a: "(ins, printer, kind, noBlankLineBefore, noBlankLineAfter) \<in>
      {(insertClasses, forClassDeclaration (inAmbientContext this), ClassDeclaration,
          (\<lambda>_. False), (\<lambda>_. False)),
       (insertEnums, forEnumDeclaration, EnumDeclaration, (\<lambda>_. False), (\<lambda>_. False)),
       (insertFunctions, forFunctionDeclaration (inAmbientContext this), FunctionDeclaration,
          (\<lambda>n. hasDeclareKeyword (hd structs) = Some True \<and> isSignatureWithoutImplementation old n),
          (\<lambda>n. hasDeclareKeyword (last structs) = Some True \<and> isSignatureWithoutImplementation old n)),
       (insertInterfaces, forInterfaceDeclaration, InterfaceDeclaration, (\<lambda>_. False), (\<lambda>_. False)),
       (insertNamespaces, forNamespaceDeclaration (inAmbientContext this), ModuleDeclaration,
          (\<lambda>_. False), (\<lambda>_. False)),
       (insertTypeAliases, forTypeAliasDeclaration, TypeAliasDeclaration,
          (\<lambda>n. getKind n = TypeAliasDeclaration), (\<lambda>n. getKind n = TypeAliasDeclaration)),
       (insertVariableStatements, forVariableStatement, VariableStatement,
          (\<lambda>n. getKind n = VariableStatement), (\<lambda>n. getKind n = VariableStatement))}
   \<and> getCompilerStatements this = Inr old \<and> 0 \<le> idx \<and> idx \<le> int (length old)
   \<and> structs \<noteq> []
   \<and> new = parseText host
             (separatorBefore (isSourceFile this) old (nat idx) noBlankLineBefore
              @ [PrintTexts printer structs]
              @ separatorAfter old (nat idx) noBlankLineAfter)
   \<and> ins host idx structs this = (Inr inserted, this')"
  then have old: "getCompilerStatements this = Inr old" and idx: "0 \<le> idx" "idx \<le> int (length old)"
    and ne: "structs \<noteq> []"
    and new: "new = parseText host
             (separatorBefore (isSourceFile this) old (nat idx) noBlankLineBefore
              @ [PrintTexts printer structs]
              @ separatorAfter old (nat idx) noBlankLineAfter)"
    and ok: "ins host idx structs this = (Inr inserted, this')"
    by simp_all
  from a consider
      "ins = insertClasses" "printer = forClassDeclaration (inAmbientContext this)" "kind = ClassDeclaration"
      "noBlankLineBefore = (\<lambda>_. False)"
      "noBlankLineAfter = (\<lambda>_. False)" 
    | "ins = insertEnums" "printer = forEnumDeclaration" "kind = EnumDeclaration"
      "noBlankLineBefore = (\<lambda>_. False)"
      "noBlankLineAfter = (\<lambda>_. False)" 
    | "ins = insertFunctions" "printer = forFunctionDeclaration (inAmbientContext this)" "kind = FunctionDeclaration"
      "noBlankLineBefore = (\<lambda>n. hasDeclareKeyword (hd structs) = Some True \<and> isSignatureWithoutImplementation old n)"
      "noBlankLineAfter = (\<lambda>n. hasDeclareKeyword (last structs) = Some True \<and> isSignatureWithoutImplementation old n)" 
    | "ins = insertInterfaces" "printer = forInterfaceDeclaration" "kind = InterfaceDeclaration"
      "noBlankLineBefore = (\<lambda>_. False)"
      "noBlankLineAfter = (\<lambda>_. False)" 
    | "ins = insertNamespaces" "printer = forNamespaceDeclaration (inAmbientContext this)" "kind = ModuleDeclaration"
      "noBlankLineBefore = (\<lambda>_. False)"
      "noBlankLineAfter = (\<lambda>_. False)" 
    | "ins = insertTypeAliases" "printer = forTypeAliasDeclaration" "kind = TypeAliasDeclaration"
      "noBlankLineBefore = (\<lambda>n. getKind n = TypeAliasDeclaration)"
      "noBlankLineAfter = (\<lambda>n. getKind n = TypeAliasDeclaration)" 
    | "ins = insertVariableStatements" "printer = forVariableStatement" "kind = VariableStatement"
      "noBlankLineBefore = (\<lambda>n. getKind n = VariableStatement)"
      "noBlankLineAfter = (\<lambda>n. getKind n = VariableStatement)"
    by auto
  then show "(\<exists>after. getCompilerStatements this' = Inr after
          \<and> after = take (nat idx) old @ new @ drop (nat idx) old
          \<and> (\<forall>k < length new. after ! (nat idx + k) = new ! k)
          \<and> (\<forall>j < nat idx. after ! j = old ! j)
          \<and> (\<forall>j. nat idx \<le> j \<and> j < length old \<longrightarrow> after ! (j + length new) = old ! j)
          \<and> length after = length old + length new
          \<and> map fst inserted = [nat idx ..< nat idx + length structs]
          \<and> (\<forall>k < length structs. inserted ! k = (nat idx + k, after ! (nat idx + k)))
          \<and> (\<forall>w \<in> set inserted. getKind (snd w) = kind)
          \<and> (length new = length structs \<longrightarrow> map snd inserted = new))"
  proof cases
    case 1
    show ?thesis
      unfolding new 1
      by (rule insert_positions_generic[OF insertClasses_eq[OF old ne idx, where host = host] old idx
            ok[unfolded 1(1)]])
  next
    case 2
    show ?thesis
      unfolding new 2
      by (rule insert_positions_generic[OF insertEnums_eq[OF old ne idx, where host = host] old idx
            ok[unfolded 2(1)]])
  next
    case 3
    show ?thesis
      unfolding new 3
      by (rule insert_positions_generic[OF insertFunctions_eq[OF old ne idx, where host = host] old idx
            ok[unfolded 3(1)]])
  next
    case 4
    show ?thesis
      unfolding new 4
      by (rule insert_positions_generic[OF insertInterfaces_eq[OF old ne idx, where host = host] old idx
            ok[unfolded 4(1)]])
  next
    case 5
    show ?thesis
      unfolding new 5
      by (rule insert_positions_generic[OF insertNamespaces_eq[OF old ne idx, where host = host] old idx
            ok[unfolded 5(1)]])
  next
    case 6
    show ?thesis
      unfolding new 6
      by (rule insert_positions_generic[OF insertTypeAliases_eq[OF old ne idx, where host = host] old idx
            ok[unfolded 6(1)]])
  next
    case 7
    show ?thesis
      unfolding new 7
      by (rule insert_positions_generic[OF insertVariableStatements_eq[OF old ne idx, where host = host] old idx
            ok[unfolded 7(1)]])
  qed
qed

text \<open>
  Claim C1 as stated fails for a function with an overload. The host prints the
  structure \<open>f\<close> to the signature of the overload and the implementation; the insertion
  into a source file that holds \<open>x;\<close>, at index 0, succeeds and returns one declaration;
  \<open>x;\<close>, which was at index 0, is at index 2 and not at index 1 = 0 + the number of
  structures.
\<close>

theorem insert_positions_counterexample:
  "insertFunctions overloadHost 0 [\<lparr>structureName = ''f'', hasDeclareKeyword = None\<rparr>] \<lparr>compilerNode = SourceFile [Node ExpressionStatement None False None [] ''x;''], inAmbientContext = False\<rparr>
   = (Inr [(0, Node FunctionDeclaration (Some ''f'') False None [] ''f'')],
      \<lparr>compilerNode = SourceFile [Node FunctionDeclaration (Some ''f'') False None [] ''f'', Node FunctionDeclaration (Some ''f'') False (Some []) [] ''f'', Node ExpressionStatement None False None [] ''x;''], inAmbientContext = False\<rparr>)
   \<and> getCompilerStatements \<lparr>compilerNode = SourceFile [Node FunctionDeclaration (Some ''f'') False None [] ''f'', Node FunctionDeclaration (Some ''f'') False (Some []) [] ''f'', Node ExpressionStatement None False None [] ''x;''], inAmbientContext = False\<rparr>
     = Inr [Node FunctionDeclaration (Some ''f'') False None [] ''f'', Node FunctionDeclaration (Some ''f'') False (Some []) [] ''f'', Node ExpressionStatement None False None [] ''x;'']
   \<and> [Node FunctionDeclaration (Some ''f'') False None [] ''f'', Node FunctionDeclaration (Some ''f'') False (Some []) [] ''f'', Node ExpressionStatement None False None [] ''x;''] ! (0 + length [\<lparr>structureName = ''f'', hasDeclareKeyword = None\<rparr>])
     \<noteq> [Node ExpressionStatement None False None [] ''x;''] ! 0"
  by code_simp

text \<open>
  Two classes into a source file between \<open>x;\<close> and \<open>y;\<close>; and the function with an
  overload of the example above, where two nodes are parsed from one structure.
\<close>

lemma insertClasses_example:
  "insertClasses exampleHost 1 [\<lparr>structureName = ''A'', hasDeclareKeyword = None\<rparr>, \<lparr>structureName = ''B'', hasDeclareKeyword = None\<rparr>]
     \<lparr>compilerNode = SourceFile [Node ExpressionStatement None False None [] ''x;'', Node ExpressionStatement None False None [] ''y;''], inAmbientContext = False\<rparr>
   = (Inr [(1, Node ClassDeclaration (Some ''A'') False (Some []) [] ''A''), (2, Node ClassDeclaration (Some ''B'') False (Some []) [] ''B'')],
      \<lparr>compilerNode = SourceFile [Node ExpressionStatement None False None [] ''x;'', Node ClassDeclaration (Some ''A'') False (Some []) [] ''A'', Node ClassDeclaration (Some ''B'') False (Some []) [] ''B'', Node ExpressionStatement None False None [] ''y;''], inAmbientContext = False\<rparr>)"
  by code_simp

lemma insertFunctions_example:
  "insertFunctions overloadHost 0 [\<lparr>structureName = ''f'', hasDeclareKeyword = None\<rparr>] \<lparr>compilerNode = SourceFile [Node ExpressionStatement None False None [] ''x;''], inAmbientContext = False\<rparr>
   = (Inr [(0, Node FunctionDeclaration (Some ''f'') False None [] ''f'')],
      \<lparr>compilerNode = SourceFile [Node FunctionDeclaration (Some ''f'') False None [] ''f'', Node FunctionDeclaration (Some ''f'') False (Some []) [] ''f'', Node ExpressionStatement None False None [] ''x;''], inAmbientContext = False\<rparr>)"
  by code_simp

theorem insert_positions_witness:
  "(insertClasses exampleHost 1 [\<lparr>structureName = ''A'', hasDeclareKeyword = None\<rparr>, \<lparr>structureName = ''B'', hasDeclareKeyword = None\<rparr>]
     \<lparr>compilerNode = SourceFile [Node ExpressionStatement None False None [] ''x;'', Node ExpressionStatement None False None [] ''y;''], inAmbientContext = False\<rparr>
   = (Inr [(1, Node ClassDeclaration (Some ''A'') False (Some []) [] ''A''), (2, Node ClassDeclaration (Some ''B'') False (Some []) [] ''B'')],
      \<lparr>compilerNode = SourceFile [Node ExpressionStatement None False None [] ''x;'', Node ClassDeclaration (Some ''A'') False (Some []) [] ''A'', Node ClassDeclaration (Some ''B'') False (Some []) [] ''B'', Node ExpressionStatement None False None [] ''y;''], inAmbientContext = False\<rparr>)
   \<and> getCompilerStatements
       \<lparr>compilerNode = SourceFile [Node ExpressionStatement None False None [] ''x;'', Node ClassDeclaration (Some ''A'') False (Some []) [] ''A'', Node ClassDeclaration (Some ''B'') False (Some []) [] ''B'', Node ExpressionStatement None False None [] ''y;''], inAmbientContext = False\<rparr>
     = Inr (take 1 [Node ExpressionStatement None False None [] ''x;'', Node ExpressionStatement None False None [] ''y;''] @ [Node ClassDeclaration (Some ''A'') False (Some []) [] ''A'', Node ClassDeclaration (Some ''B'') False (Some []) [] ''B''] @ drop 1 [Node ExpressionStatement None False None [] ''x;'', Node ExpressionStatement None False None [] ''y;'']))
   \<and> (insertFunctions overloadHost 0 [\<lparr>structureName = ''f'', hasDeclareKeyword = None\<rparr>] \<lparr>compilerNode = SourceFile [Node ExpressionStatement None False None [] ''x;''], inAmbientContext = False\<rparr>
      = (Inr [(0, Node FunctionDeclaration (Some ''f'') False None [] ''f'')],
         \<lparr>compilerNode = SourceFile [Node FunctionDeclaration (Some ''f'') False None [] ''f'', Node FunctionDeclaration (Some ''f'') False (Some []) [] ''f'', Node ExpressionStatement None False None [] ''x;''], inAmbientContext = False\<rparr>)
      \<and> getCompilerStatements \<lparr>compilerNode = SourceFile [Node FunctionDeclaration (Some ''f'') False None [] ''f'', Node FunctionDeclaration (Some ''f'') False (Some []) [] ''f'', Node ExpressionStatement None False None [] ''x;''], inAmbientContext = False\<rparr>
        = Inr ([Node FunctionDeclaration (Some ''f'') False None [] ''f'', Node FunctionDeclaration (Some ''f'') False (Some []) [] ''f''] @ [Node ExpressionStatement None False None [] ''x;'']))"
  using insert_positions
    [where ins = insertClasses and printer = "forClassDeclaration False" and kind = ClassDeclaration
       and noBlankLineBefore = "\<lambda>_. False" and noBlankLineAfter = "\<lambda>_. False"
       and this = "\<lparr>compilerNode = SourceFile [Node ExpressionStatement None False None [] ''x;'', Node ExpressionStatement None False None [] ''y;''], inAmbientContext = False\<rparr>"
       and old = "[Node ExpressionStatement None False None [] ''x;'', Node ExpressionStatement None False None [] ''y;'']" and idx = 1 and structs = "[\<lparr>structureName = ''A'', hasDeclareKeyword = None\<rparr>, \<lparr>structureName = ''B'', hasDeclareKeyword = None\<rparr>]" and host = exampleHost
       and new = "[Node ClassDeclaration (Some ''A'') False (Some []) [] ''A'', Node ClassDeclaration (Some ''B'') False (Some []) [] ''B'']"
       and inserted = "[(1, Node ClassDeclaration (Some ''A'') False (Some []) [] ''A''), (2, Node ClassDeclaration (Some ''B'') False (Some []) [] ''B'')]"
       and this' = "\<lparr>compilerNode = SourceFile [Node ExpressionStatement None False None [] ''x;'', Node ClassDeclaration (Some ''A'') False (Some []) [] ''A'', Node ClassDeclaration (Some ''B'') False (Some []) [] ''B'', Node ExpressionStatement None False None [] ''y;''], inAmbientContext = False\<rparr>"]
    insert_positions
    [where ins = insertFunctions and printer = "forFunctionDeclaration False" and kind = FunctionDeclaration
       and noBlankLineBefore = "\<lambda>n. hasDeclareKeyword (hd [\<lparr>structureName = ''f'', hasDeclareKeyword = None\<rparr>]) = Some True \<and> isSignatureWithoutImplementation [Node ExpressionStatement None False None [] ''x;''] n"
       and noBlankLineAfter = "\<lambda>n. hasDeclareKeyword (last [\<lparr>structureName = ''f'', hasDeclareKeyword = None\<rparr>]) = Some True \<and> isSignatureWithoutImplementation [Node ExpressionStatement None False None [] ''x;''] n"
       and this = "\<lparr>compilerNode = SourceFile [Node ExpressionStatement None False None [] ''x;''], inAmbientContext = False\<rparr>"
       and old = "[Node ExpressionStatement None False None [] ''x;'']" and idx = 0 and structs = "[\<lparr>structureName = ''f'', hasDeclareKeyword = None\<rparr>]" and host = overloadHost
       and new = "[Node FunctionDeclaration (Some ''f'') False None [] ''f'', Node FunctionDeclaration (Some ''f'') False (Some []) [] ''f'']"
       and inserted = "[(0, Node FunctionDeclaration (Some ''f'') False None [] ''f'')]"
       and this' = "\<lparr>compilerNode = SourceFile [Node FunctionDeclaration (Some ''f'') False None [] ''f'', Node FunctionDeclaration (Some ''f'') False (Some []) [] ''f'', Node ExpressionStatement None False None [] ''x;''], inAmbientContext = False\<rparr>"]
    insertClasses_example insertFunctions_example
  by (simp add: getCompilerStatements_def)

subsection \<open>Removing statements and declarations\<close>

lemma enumerate_fst_inj:
  assumes "w \<in> set (enumerate n xs)" "v \<in> set (enumerate n xs)" "fst w = fst v"
  shows "w = v"
  using assms by (auto simp: in_set_enumerate_eq prod_eq_iff)

lemma selected_index:
  assumes w: "w \<in> set (enumerate n xs)"
  shows "(fst w \<notin> set (map fst (filter (\<lambda>w. P (snd w)) (enumerate n xs)))) = (\<not> P (snd w))"
proof
  assume a: "fst w \<notin> set (map fst (filter (\<lambda>w. P (snd w)) (enumerate n xs)))"
  show "\<not> P (snd w)"
  proof
    assume "P (snd w)"
    with w have "w \<in> set (filter (\<lambda>w. P (snd w)) (enumerate n xs))" by simp
    then have "fst w \<in> set (map fst (filter (\<lambda>w. P (snd w)) (enumerate n xs)))"
      by force
    with a show False by contradiction
  qed
next
  assume np: "\<not> P (snd w)"
  show "fst w \<notin> set (map fst (filter (\<lambda>w. P (snd w)) (enumerate n xs)))"
  proof
    assume "fst w \<in> set (map fst (filter (\<lambda>w. P (snd w)) (enumerate n xs)))"
    then obtain v where v: "v \<in> set (enumerate n xs)" "P (snd v)" "fst v = fst w"
      by auto
    from enumerate_fst_inj[OF w v(1)] v(3) have "w = v" by simp
    with v(2) np show False by simp
  qed
qed

lemma map_snd_filter_enumerate:
  "map snd (filter (\<lambda>w. Q (snd w)) (enumerate n xs)) = filter Q xs"
proof -
  have "map snd (filter (Q \<circ> snd) (enumerate n xs)) = filter Q (map snd (enumerate n xs))"
    by (simp only: filter_map)
  then show ?thesis by (simp add: comp_def)
qed

lemma remove_selected:
  "map snd (filter (\<lambda>w. fst w \<notin> set (map fst (filter (\<lambda>w. P (snd w)) (enumerate n xs))))
              (enumerate n xs))
   = filter (\<lambda>x. \<not> P x) xs"
proof -
  have "filter (\<lambda>w. fst w \<notin> set (map fst (filter (\<lambda>w. P (snd w)) (enumerate n xs))))
              (enumerate n xs)
        = filter (\<lambda>w. \<not> P (snd w)) (enumerate n xs)"
    by (rule filter_cong[OF refl]) (rule selected_index)
  then show ?thesis
    using map_snd_filter_enumerate[of "\<lambda>x. \<not> P x" n xs] by simp
qed

lemma remove_selected_overloads:
  "map snd (filter (\<lambda>w. fst w \<notin> set (map fst (filter (\<lambda>w. P (snd w)) (enumerate n xs)))
                         \<and> \<not> list_ex (\<lambda>f. R (snd w) (snd f))
                                (filter (\<lambda>w. P (snd w)) (enumerate n xs)))
              (enumerate n xs))
   = filter (\<lambda>x. \<not> P x \<and> \<not> list_ex (\<lambda>f. P f \<and> R x f) xs) xs"
proof -
  have ex: "\<And>x. list_ex (\<lambda>f. R x (snd f)) (filter (\<lambda>w. P (snd w)) (enumerate n xs))
               = list_ex (\<lambda>f. P f \<and> R x f) xs"
  proof -
    fix x
    have "list_ex (\<lambda>f. R x (snd f)) (filter (\<lambda>w. P (snd w)) (enumerate n xs))
          = list_ex (R x) (map snd (filter (\<lambda>w. P (snd w)) (enumerate n xs)))"
      by (simp add: list_ex_iff)
    also have "\<dots> = list_ex (R x) (filter P xs)"
      using map_snd_filter_enumerate[of P n xs] by simp
    also have "\<dots> = list_ex (\<lambda>f. P f \<and> R x f) xs"
      by (auto simp: list_ex_iff)
    finally show "list_ex (\<lambda>f. R x (snd f)) (filter (\<lambda>w. P (snd w)) (enumerate n xs))
               = list_ex (\<lambda>f. P f \<and> R x f) xs" .
  qed
  have "filter (\<lambda>w. fst w \<notin> set (map fst (filter (\<lambda>w. P (snd w)) (enumerate n xs)))
                         \<and> \<not> list_ex (\<lambda>f. R (snd w) (snd f))
                                (filter (\<lambda>w. P (snd w)) (enumerate n xs)))
              (enumerate n xs)
        = filter (\<lambda>w. (\<lambda>x. \<not> P x \<and> \<not> list_ex (\<lambda>f. P f \<and> R x f) xs) (snd w)) (enumerate n xs)"
    by (rule filter_cong[OF refl]) (simp only: selected_index ex)
  then show ?thesis
    using map_snd_filter_enumerate
      [of "\<lambda>x. \<not> P x \<and> \<not> list_ex (\<lambda>f. P f \<and> R x f) xs" n xs]
    by simp
qed

lemma remove_all_selected:
  "map snd (filter (\<lambda>w. fst w \<notin> set (map fst (enumerate n xs))) (enumerate n xs)) = []"
  using remove_selected[of "\<lambda>_. True" n xs] by simp

lemma replaceChildren_shape [simp]:
  "isBodiedNode (replaceChildren ss this) = isBodiedNode this"
  "isBodyableNode (replaceChildren ss this) = isBodyableNode this"
  "isCaseClause (replaceChildren ss this) = isCaseClause this"
  "isDefaultClause (replaceChildren ss this) = isDefaultClause this"
  "inAmbientContext (replaceChildren ss this) = inAmbientContext this"
  by (simp_all add: isBodiedNode_def isBodyableNode_def isCaseClause_def isDefaultClause_def
      replaceChildren_def split: CompilerNode.splits)

lemma children_of_statements:
  assumes "getCompilerStatements this = Inr ss"
  shows "getChildSyntaxList this = Some ss \<or> (getChildSyntaxList this = None \<and> ss = [])"
  using assms
  by (auto simp: getCompilerStatements_def getChildSyntaxList_def
      split: CompilerNode.splits option.splits)

lemma removeChildren_selected:
  assumes ss: "getCompilerStatements this = Inr ss"
  shows "getCompilerStatements
           (removeStatementedNodeChildren
              (case getChildSyntaxList this of
                 None \<Rightarrow> []
               | Some cs \<Rightarrow> filter (\<lambda>w. P (snd w)) (enumerate 0 cs)) this)
         = Inr (filter (\<lambda>n. \<not> P n) ss)
       \<and> isBodiedNode (removeStatementedNodeChildren
              (case getChildSyntaxList this of
                 None \<Rightarrow> []
               | Some cs \<Rightarrow> filter (\<lambda>w. P (snd w)) (enumerate 0 cs)) this) = isBodiedNode this
       \<and> isBodyableNode (removeStatementedNodeChildren
              (case getChildSyntaxList this of
                 None \<Rightarrow> []
               | Some cs \<Rightarrow> filter (\<lambda>w. P (snd w)) (enumerate 0 cs)) this) = isBodyableNode this
       \<and> inAmbientContext (removeStatementedNodeChildren
              (case getChildSyntaxList this of
                 None \<Rightarrow> []
               | Some cs \<Rightarrow> filter (\<lambda>w. P (snd w)) (enumerate 0 cs)) this) = inAmbientContext this"
proof -
  from children_of_statements[OF ss] show ?thesis
  proof
    assume c: "getChildSyntaxList this = Some ss"
    show ?thesis
      by (simp add: c removeStatementedNodeChildren_def remove_selected
          getCompilerStatements_replaceChildren[OF ss] del: set_map set_filter)
  next
    assume c: "getChildSyntaxList this = None \<and> ss = []"
    then show ?thesis
      by (simp add: removeStatementedNodeChildren_def ss)
  qed
qed

lemma removeOverloadable_functions:
  assumes ss: "getCompilerStatements this = Inr ss"
  shows "getCompilerStatements
           (removeOverloadableStatementedNodeChildren (getFunctions this) this)
         = Inr (filter (\<lambda>n. \<not> (getKind n = FunctionDeclaration
                    \<and> (isAmbient n \<or> isImplementation n
                        \<or> list_ex (\<lambda>f. getKind f = FunctionDeclaration \<and> isOverloadOf n f) ss))) ss)
       \<and> isBodiedNode (removeOverloadableStatementedNodeChildren (getFunctions this) this)
           = isBodiedNode this
       \<and> isBodyableNode (removeOverloadableStatementedNodeChildren (getFunctions this) this)
           = isBodyableNode this
       \<and> inAmbientContext (removeOverloadableStatementedNodeChildren (getFunctions this) this)
           = inAmbientContext this"
proof -
  let ?P = "\<lambda>n. getKind n = FunctionDeclaration \<and> (isAmbient n \<or> isImplementation n)"
  from children_of_statements[OF ss] show ?thesis
  proof
    assume c: "getChildSyntaxList this = Some ss"
    have g: "getFunctions this = filter (\<lambda>w. ?P (snd w)) (enumerate 0 ss)"
      by (simp add: getFunctions_def c getChildrenOfKind_def)
    have k: "filter (\<lambda>x. \<not> ?P x \<and> \<not> list_ex (\<lambda>f. ?P f \<and> isOverloadOf x f) ss) ss
             = filter (\<lambda>n. \<not> (getKind n = FunctionDeclaration
                    \<and> (isAmbient n \<or> isImplementation n
                        \<or> list_ex (\<lambda>f. getKind f = FunctionDeclaration \<and> isOverloadOf n f) ss))) ss"
      by (rule filter_cong[OF refl]) (auto simp: list_ex_iff isOverloadOf_def)
    have r: "removeOverloadableStatementedNodeChildren (getFunctions this) this
             = replaceChildren
                 (filter (\<lambda>n. \<not> (getKind n = FunctionDeclaration
                    \<and> (isAmbient n \<or> isImplementation n
                        \<or> list_ex (\<lambda>f. getKind f = FunctionDeclaration \<and> isOverloadOf n f) ss))) ss)
                 this"
      unfolding removeOverloadableStatementedNodeChildren_def g
      using remove_selected_overloads[of ?P 0 ss isOverloadOf] k
      by (simp add: c del: set_map set_filter)
    show ?thesis
      unfolding r by (simp add: getCompilerStatements_replaceChildren[OF ss])
  next
    assume c: "getChildSyntaxList this = None \<and> ss = []"
    then show ?thesis
      by (simp add: removeOverloadableStatementedNodeChildren_def ss)
  qed
qed

lemma slice_whole: "slice xs 0 (int (length xs)) = xs"
  by (simp add: slice_def Let_def)

lemma removeStatements_all:
  assumes ss: "getCompilerStatements this = Inr ss" and ne: "ss \<noteq> []"
    and b: "isBodiedNode this \<or> isBodyableNode this"
  shows "removeStatements (0, int (length ss) - 1) this = (Inr (), replaceChildren [] this)"
proof -
  from children_of_statements[OF ss] ne have c: "getChildSyntaxList this = Some ss" by auto
  have v: "throwIfRangeOutOfRange (0, int (length ss) - 1) (0, int (length ss)) = Inr ()"
    using ne by (simp add: throwIfRangeOutOfRange_def)
  have r: "removeStatementedNodeChildren (enumerate 0 ss) this = replaceChildren [] this"
    unfolding removeStatementedNodeChildren_def c
    by (simp only: option.case remove_all_selected)
  have s: "slice (enumerate 0 ss) (fst (0, int (length ss) - 1)) (snd (0, int (length ss) - 1) + 1)
           = enumerate 0 ss"
    using slice_whole[of "enumerate 0 ss"] by simp
  show ?thesis
    unfolding removeStatements_def getStatements_def ss
    by (simp only: sum.case length_enumerate v s r)
qed

subsection \<open>The blocks of the bulk set\<close>

lemma addBodyIfNotExists_shape [simp]:
  "isCaseClause (addBodyIfNotExists this) = isCaseClause this"
  "isDefaultClause (addBodyIfNotExists this) = isDefaultClause this"
  "isBodiedNode (addBodyIfNotExists this) = isBodiedNode this"
  "isBodyableNode (addBodyIfNotExists this) = isBodyableNode this"
  "inAmbientContext (addBodyIfNotExists this) = inAmbientContext this"
  by (auto simp: addBodyIfNotExists_def addBody_def isBodyableNode_def isCaseClause_def
      isDefaultClause_def isBodiedNode_def split: CompilerNode.splits)

lemma insertChildren_no_structure:
  "structures opts = [] \<Longrightarrow> insertChildren host opts t = (Inr [], addBodyIfNotExists t)"
  by (simp add: insertChildren_def insertIntoBracesOrSourceFileWithGetChildren_def)

lemma set_step:
  assumes t: "getCompilerStatements t = Inr old"
    and emp: "l = [] \<Longrightarrow> res = (Inr [], addBodyIfNotExists t)"
    and eq: "l \<noteq> [] \<Longrightarrow> snd res =
        replaceChildren
          (take (nat (int (length old))) old
           @ parseText host (separatorBefore src old (nat (int (length old))) P
                             @ [PrintTexts p l]
                             @ separatorAfter old (nat (int (length old))) Q)
           @ drop (nat (int (length old))) old) t"
    and rd: "readsDeclarationsOf host p (Some l)"
    and ok: "andThen res (\<lambda>_ this'. (Inr (), this')) = (Inr (), this')"
  shows "getCompilerStatements this' = Inr (old @ declarationsOfList host p (Some l))
    \<and> list_all (\<lambda>n. getKind n = printerKind p) (declarationsOfList host p (Some l))
    \<and> isBodiedNode this' = isBodiedNode t
    \<and> isBodyableNode this' = isBodyableNode t
    \<and> inAmbientContext this' = inAmbientContext t"
proof -
  from ok have s: "this' = snd res"
    by (auto simp: andThen_def split: prod.splits sum.splits)
  show ?thesis
  proof (cases "l = []")
    case True
    with emp s have "this' = addBodyIfNotExists t"
      by simp
    with True show ?thesis
      by (simp add: declarationsOfList_def getCompilerStatements_addBodyIfNotExists t)
  next
    case False
    have sb: "separatorBefore src old (length old) P \<in> set [[], [NewLine], [BlankLine]]"
      by (simp add: separatorBefore_def)
    have sa: "separatorAfter old (length old) Q = [NewLine]"
      by (simp add: separatorAfter_def)
    from rd have all: "\<forall>b \<in> set [[], [NewLine], [BlankLine]].
        parseText host (b @ [PrintTexts p l] @ [NewLine]) = parseText host [PrintTexts p l]"
      and kind: "list_all (\<lambda>n. getKind n = printerKind p) (parseText host [PrintTexts p l])"
      by (simp_all add: readsDeclarationsOf_def)
    from all sb have w: "parseText host (separatorBefore src old (length old) P
                             @ [PrintTexts p l] @ [NewLine]) = parseText host [PrintTexts p l]"
      by blast
    from eq[OF False] s w have r: "this' = replaceChildren (old @ parseText host [PrintTexts p l]) t"
      by (simp add: sa)
    show ?thesis
      using False kind
      by (simp add: r declarationsOfList_def getCompilerStatements_replaceChildren[OF t])
  qed
qed

lemma set_classes_step:
  assumes ok: "set_classes host S this = (Inr (), this')"
    and ss: "getCompilerStatements this = Inr ss"
    and rd: "readsDeclarationsOf host (forClassDeclaration (inAmbientContext this)) (classes S)"
  shows "getCompilerStatements this'
           = Inr (filter (\<lambda>n. \<not> (classes S \<noteq> None \<and> getKind n = ClassDeclaration)) ss
                  @ declarationsOfList host (forClassDeclaration (inAmbientContext this)) (classes S))
    \<and> list_all (\<lambda>n. getKind n = ClassDeclaration) (declarationsOfList host (forClassDeclaration (inAmbientContext this)) (classes S))
    \<and> isBodiedNode this' = isBodiedNode this
    \<and> isBodyableNode this' = isBodyableNode this
    \<and> inAmbientContext this' = inAmbientContext this"
proof (cases "classes S")
  case None
  with ok ss show ?thesis
    by (simp add: set_classes_def declarationsOfList_def)
next
  case (Some l)
  let ?t = "removeStatementedNodeChildren (getClasses this) this"
  let ?old = "filter (\<lambda>n. \<not> (getKind n = ClassDeclaration)) ss"
  have get: "getClasses this =
        (case getChildSyntaxList this of
           None \<Rightarrow> []
         | Some cs \<Rightarrow> filter (\<lambda>w. (\<lambda>n. getKind n = ClassDeclaration) (snd w)) (enumerate 0 cs))"
    by (simp add: getClasses_def getChildrenOfKind_def split: option.splits)
  from removeChildren_selected[OF ss, of "\<lambda>n. getKind n = ClassDeclaration"] have
    t: "getCompilerStatements ?t = Inr ?old"
    and tb: "isBodiedNode ?t = isBodiedNode this"
    and ty: "isBodyableNode ?t = isBodyableNode this"
    and ta: "inAmbientContext ?t = inAmbientContext this"
    by (simp_all add: get)
  have emp: "l = [] \<Longrightarrow> addClasses host l ?t = (Inr [], addBodyIfNotExists ?t)"
    by (simp add: addClasses_def t insertClasses_def insertChildren_no_structure)
  have eq: "l \<noteq> [] \<Longrightarrow> snd (addClasses host l ?t) =
        replaceChildren
          (take (nat (int (length ?old))) ?old
           @ parseText host (separatorBefore (isSourceFile ?t) ?old (nat (int (length ?old)))
                               (\<lambda>_. False)
                             @ [PrintTexts (forClassDeclaration (inAmbientContext this)) l]
                             @ separatorAfter ?old (nat (int (length ?old)))
                                 (\<lambda>_. False))
           @ drop (nat (int (length ?old))) ?old) ?t"
  proof -
    assume ne: "l \<noteq> []"
    have "addClasses host l ?t = insertClasses host (int (length ?old)) l ?t"
      by (simp add: addClasses_def t)
    then show ?thesis
      using insertClasses_eq[OF t ne, of "int (length ?old)" host] by (simp add: ta)
  qed
  from ok have ok': "andThen (addClasses host l ?t) (\<lambda>_ this'. (Inr (), this')) = (Inr (), this')"
    by (simp add: set_classes_def Some)
  from rd have rd': "readsDeclarationsOf host (forClassDeclaration (inAmbientContext this)) (Some l)"
    by (simp add: Some)
  from set_step[OF t emp eq rd' ok'] show ?thesis
    by (simp add: Some tb ty ta printerKind_def)
qed

lemma set_enums_step:
  assumes ok: "set_enums host S this = (Inr (), this')"
    and ss: "getCompilerStatements this = Inr ss"
    and rd: "readsDeclarationsOf host (forEnumDeclaration) (enums S)"
  shows "getCompilerStatements this'
           = Inr (filter (\<lambda>n. \<not> (enums S \<noteq> None \<and> getKind n = EnumDeclaration)) ss
                  @ declarationsOfList host (forEnumDeclaration) (enums S))
    \<and> list_all (\<lambda>n. getKind n = EnumDeclaration) (declarationsOfList host (forEnumDeclaration) (enums S))
    \<and> isBodiedNode this' = isBodiedNode this
    \<and> isBodyableNode this' = isBodyableNode this
    \<and> inAmbientContext this' = inAmbientContext this"
proof (cases "enums S")
  case None
  with ok ss show ?thesis
    by (simp add: set_enums_def declarationsOfList_def)
next
  case (Some l)
  let ?t = "removeStatementedNodeChildren (getEnums this) this"
  let ?old = "filter (\<lambda>n. \<not> (getKind n = EnumDeclaration)) ss"
  have get: "getEnums this =
        (case getChildSyntaxList this of
           None \<Rightarrow> []
         | Some cs \<Rightarrow> filter (\<lambda>w. (\<lambda>n. getKind n = EnumDeclaration) (snd w)) (enumerate 0 cs))"
    by (simp add: getEnums_def getChildrenOfKind_def split: option.splits)
  from removeChildren_selected[OF ss, of "\<lambda>n. getKind n = EnumDeclaration"] have
    t: "getCompilerStatements ?t = Inr ?old"
    and tb: "isBodiedNode ?t = isBodiedNode this"
    and ty: "isBodyableNode ?t = isBodyableNode this"
    and ta: "inAmbientContext ?t = inAmbientContext this"
    by (simp_all add: get)
  have emp: "l = [] \<Longrightarrow> addEnums host l ?t = (Inr [], addBodyIfNotExists ?t)"
    by (simp add: addEnums_def t insertEnums_def insertChildren_no_structure)
  have eq: "l \<noteq> [] \<Longrightarrow> snd (addEnums host l ?t) =
        replaceChildren
          (take (nat (int (length ?old))) ?old
           @ parseText host (separatorBefore (isSourceFile ?t) ?old (nat (int (length ?old)))
                               (\<lambda>_. False)
                             @ [PrintTexts (forEnumDeclaration) l]
                             @ separatorAfter ?old (nat (int (length ?old)))
                                 (\<lambda>_. False))
           @ drop (nat (int (length ?old))) ?old) ?t"
  proof -
    assume ne: "l \<noteq> []"
    have "addEnums host l ?t = insertEnums host (int (length ?old)) l ?t"
      by (simp add: addEnums_def t)
    then show ?thesis
      using insertEnums_eq[OF t ne, of "int (length ?old)" host] by (simp add: ta)
  qed
  from ok have ok': "andThen (addEnums host l ?t) (\<lambda>_ this'. (Inr (), this')) = (Inr (), this')"
    by (simp add: set_enums_def Some)
  from rd have rd': "readsDeclarationsOf host (forEnumDeclaration) (Some l)"
    by (simp add: Some)
  from set_step[OF t emp eq rd' ok'] show ?thesis
    by (simp add: Some tb ty ta printerKind_def)
qed

lemma set_functions_step:
  assumes ok: "set_functions host S this = (Inr (), this')"
    and ss: "getCompilerStatements this = Inr ss"
    and rd: "readsDeclarationsOf host (forFunctionDeclaration (inAmbientContext this)) (functions' S)"
  shows "getCompilerStatements this'
           = Inr (filter (\<lambda>n. \<not> (functions' S \<noteq> None \<and> getKind n = FunctionDeclaration
                    \<and> (isAmbient n \<or> isImplementation n
                        \<or> list_ex (\<lambda>f. getKind f = FunctionDeclaration \<and> isOverloadOf n f) ss))) ss
                  @ declarationsOfList host (forFunctionDeclaration (inAmbientContext this)) (functions' S))
    \<and> list_all (\<lambda>n. getKind n = FunctionDeclaration) (declarationsOfList host (forFunctionDeclaration (inAmbientContext this)) (functions' S))
    \<and> isBodiedNode this' = isBodiedNode this
    \<and> isBodyableNode this' = isBodyableNode this
    \<and> inAmbientContext this' = inAmbientContext this"
proof (cases "functions' S")
  case None
  with ok ss show ?thesis
    by (simp add: set_functions_def declarationsOfList_def)
next
  case (Some l)
  let ?t = "removeOverloadableStatementedNodeChildren (getFunctions this) this"
  let ?old = "filter (\<lambda>n. \<not> (getKind n = FunctionDeclaration
                    \<and> (isAmbient n \<or> isImplementation n
                        \<or> list_ex (\<lambda>f. getKind f = FunctionDeclaration \<and> isOverloadOf n f) ss))) ss"
  from removeOverloadable_functions[OF ss] have
    t: "getCompilerStatements ?t = Inr ?old"
    and tb: "isBodiedNode ?t = isBodiedNode this"
    and ty: "isBodyableNode ?t = isBodyableNode this"
    and ta: "inAmbientContext ?t = inAmbientContext this"
    by simp_all
  have emp: "l = [] \<Longrightarrow> addFunctions host l ?t = (Inr [], addBodyIfNotExists ?t)"
    by (simp add: addFunctions_def t insertFunctions_def insertChildren_no_structure)
  have eq: "l \<noteq> [] \<Longrightarrow> snd (addFunctions host l ?t) =
        replaceChildren
          (take (nat (int (length ?old))) ?old
           @ parseText host (separatorBefore (isSourceFile ?t) ?old (nat (int (length ?old)))
                               (\<lambda>n. hasDeclareKeyword (hd l) = Some True \<and> isSignatureWithoutImplementation ?old n)
                             @ [PrintTexts (forFunctionDeclaration (inAmbientContext this)) l]
                             @ separatorAfter ?old (nat (int (length ?old)))
                                 (\<lambda>n. hasDeclareKeyword (last l) = Some True \<and> isSignatureWithoutImplementation ?old n))
           @ drop (nat (int (length ?old))) ?old) ?t"
  proof -
    assume ne: "l \<noteq> []"
    have "addFunctions host l ?t = insertFunctions host (int (length ?old)) l ?t"
      by (simp add: addFunctions_def t)
    then show ?thesis
      using insertFunctions_eq[OF t ne, of "int (length ?old)" host] by (simp add: ta)
  qed
  from ok have ok': "andThen (addFunctions host l ?t) (\<lambda>_ this'. (Inr (), this')) = (Inr (), this')"
    by (simp add: set_functions_def Some)
  from rd have rd': "readsDeclarationsOf host (forFunctionDeclaration (inAmbientContext this)) (Some l)"
    by (simp add: Some)
  from set_step[OF t emp eq rd' ok'] show ?thesis
    by (simp add: Some tb ty ta printerKind_def)
qed

lemma set_interfaces_step:
  assumes ok: "set_interfaces host S this = (Inr (), this')"
    and ss: "getCompilerStatements this = Inr ss"
    and rd: "readsDeclarationsOf host (forInterfaceDeclaration) (interfaces S)"
  shows "getCompilerStatements this'
           = Inr (filter (\<lambda>n. \<not> (interfaces S \<noteq> None \<and> getKind n = InterfaceDeclaration)) ss
                  @ declarationsOfList host (forInterfaceDeclaration) (interfaces S))
    \<and> list_all (\<lambda>n. getKind n = InterfaceDeclaration) (declarationsOfList host (forInterfaceDeclaration) (interfaces S))
    \<and> isBodiedNode this' = isBodiedNode this
    \<and> isBodyableNode this' = isBodyableNode this
    \<and> inAmbientContext this' = inAmbientContext this"
proof (cases "interfaces S")
  case None
  with ok ss show ?thesis
    by (simp add: set_interfaces_def declarationsOfList_def)
next
  case (Some l)
  let ?t = "removeStatementedNodeChildren (getInterfaces this) this"
  let ?old = "filter (\<lambda>n. \<not> (getKind n = InterfaceDeclaration)) ss"
  have get: "getInterfaces this =
        (case getChildSyntaxList this of
           None \<Rightarrow> []
         | Some cs \<Rightarrow> filter (\<lambda>w. (\<lambda>n. getKind n = InterfaceDeclaration) (snd w)) (enumerate 0 cs))"
    by (simp add: getInterfaces_def getChildrenOfKind_def split: option.splits)
  from removeChildren_selected[OF ss, of "\<lambda>n. getKind n = InterfaceDeclaration"] have
    t: "getCompilerStatements ?t = Inr ?old"
    and tb: "isBodiedNode ?t = isBodiedNode this"
    and ty: "isBodyableNode ?t = isBodyableNode this"
    and ta: "inAmbientContext ?t = inAmbientContext this"
    by (simp_all add: get)
  have emp: "l = [] \<Longrightarrow> addInterfaces host l ?t = (Inr [], addBodyIfNotExists ?t)"
    by (simp add: addInterfaces_def t insertInterfaces_def insertChildren_no_structure)
  have eq: "l \<noteq> [] \<Longrightarrow> snd (addInterfaces host l ?t) =
        replaceChildren
          (take (nat (int (length ?old))) ?old
           @ parseText host (separatorBefore (isSourceFile ?t) ?old (nat (int (length ?old)))
                               (\<lambda>_. False)
                             @ [PrintTexts (forInterfaceDeclaration) l]
                             @ separatorAfter ?old (nat (int (length ?old)))
                                 (\<lambda>_. False))
           @ drop (nat (int (length ?old))) ?old) ?t"
  proof -
    assume ne: "l \<noteq> []"
    have "addInterfaces host l ?t = insertInterfaces host (int (length ?old)) l ?t"
      by (simp add: addInterfaces_def t)
    then show ?thesis
      using insertInterfaces_eq[OF t ne, of "int (length ?old)" host] by (simp add: ta)
  qed
  from ok have ok': "andThen (addInterfaces host l ?t) (\<lambda>_ this'. (Inr (), this')) = (Inr (), this')"
    by (simp add: set_interfaces_def Some)
  from rd have rd': "readsDeclarationsOf host (forInterfaceDeclaration) (Some l)"
    by (simp add: Some)
  from set_step[OF t emp eq rd' ok'] show ?thesis
    by (simp add: Some tb ty ta printerKind_def)
qed

lemma set_namespaces_step:
  assumes ok: "set_namespaces host S this = (Inr (), this')"
    and ss: "getCompilerStatements this = Inr ss"
    and rd: "readsDeclarationsOf host (forNamespaceDeclaration (inAmbientContext this)) (namespaces S)"
  shows "getCompilerStatements this'
           = Inr (filter (\<lambda>n. \<not> (namespaces S \<noteq> None \<and> getKind n = ModuleDeclaration)) ss
                  @ declarationsOfList host (forNamespaceDeclaration (inAmbientContext this)) (namespaces S))
    \<and> list_all (\<lambda>n. getKind n = ModuleDeclaration) (declarationsOfList host (forNamespaceDeclaration (inAmbientContext this)) (namespaces S))
    \<and> isBodiedNode this' = isBodiedNode this
    \<and> isBodyableNode this' = isBodyableNode this
    \<and> inAmbientContext this' = inAmbientContext this"
proof (cases "namespaces S")
  case None
  with ok ss show ?thesis
    by (simp add: set_namespaces_def declarationsOfList_def)
next
  case (Some l)
  let ?t = "removeStatementedNodeChildren (getNamespaces this) this"
  let ?old = "filter (\<lambda>n. \<not> (getKind n = ModuleDeclaration)) ss"
  have get: "getNamespaces this =
        (case getChildSyntaxList this of
           None \<Rightarrow> []
         | Some cs \<Rightarrow> filter (\<lambda>w. (\<lambda>n. getKind n = ModuleDeclaration) (snd w)) (enumerate 0 cs))"
    by (simp add: getNamespaces_def getChildrenOfKind_def split: option.splits)
  from removeChildren_selected[OF ss, of "\<lambda>n. getKind n = ModuleDeclaration"] have
    t: "getCompilerStatements ?t = Inr ?old"
    and tb: "isBodiedNode ?t = isBodiedNode this"
    and ty: "isBodyableNode ?t = isBodyableNode this"
    and ta: "inAmbientContext ?t = inAmbientContext this"
    by (simp_all add: get)
  have emp: "l = [] \<Longrightarrow> addNamespaces host l ?t = (Inr [], addBodyIfNotExists ?t)"
    by (simp add: addNamespaces_def t insertNamespaces_def insertChildren_no_structure)
  have eq: "l \<noteq> [] \<Longrightarrow> snd (addNamespaces host l ?t) =
        replaceChildren
          (take (nat (int (length ?old))) ?old
           @ parseText host (separatorBefore (isSourceFile ?t) ?old (nat (int (length ?old)))
                               (\<lambda>_. False)
                             @ [PrintTexts (forNamespaceDeclaration (inAmbientContext this)) l]
                             @ separatorAfter ?old (nat (int (length ?old)))
                                 (\<lambda>_. False))
           @ drop (nat (int (length ?old))) ?old) ?t"
  proof -
    assume ne: "l \<noteq> []"
    have "addNamespaces host l ?t = insertNamespaces host (int (length ?old)) l ?t"
      by (simp add: addNamespaces_def t)
    then show ?thesis
      using insertNamespaces_eq[OF t ne, of "int (length ?old)" host] by (simp add: ta)
  qed
  from ok have ok': "andThen (addNamespaces host l ?t) (\<lambda>_ this'. (Inr (), this')) = (Inr (), this')"
    by (simp add: set_namespaces_def Some)
  from rd have rd': "readsDeclarationsOf host (forNamespaceDeclaration (inAmbientContext this)) (Some l)"
    by (simp add: Some)
  from set_step[OF t emp eq rd' ok'] show ?thesis
    by (simp add: Some tb ty ta printerKind_def)
qed

lemma set_typeAliases_step:
  assumes ok: "set_typeAliases host S this = (Inr (), this')"
    and ss: "getCompilerStatements this = Inr ss"
    and rd: "readsDeclarationsOf host (forTypeAliasDeclaration) (typeAliases S)"
  shows "getCompilerStatements this'
           = Inr (filter (\<lambda>n. \<not> (typeAliases S \<noteq> None \<and> getKind n = TypeAliasDeclaration)) ss
                  @ declarationsOfList host (forTypeAliasDeclaration) (typeAliases S))
    \<and> list_all (\<lambda>n. getKind n = TypeAliasDeclaration) (declarationsOfList host (forTypeAliasDeclaration) (typeAliases S))
    \<and> isBodiedNode this' = isBodiedNode this
    \<and> isBodyableNode this' = isBodyableNode this
    \<and> inAmbientContext this' = inAmbientContext this"
proof (cases "typeAliases S")
  case None
  with ok ss show ?thesis
    by (simp add: set_typeAliases_def declarationsOfList_def)
next
  case (Some l)
  let ?t = "removeStatementedNodeChildren (getTypeAliases this) this"
  let ?old = "filter (\<lambda>n. \<not> (getKind n = TypeAliasDeclaration)) ss"
  have get: "getTypeAliases this =
        (case getChildSyntaxList this of
           None \<Rightarrow> []
         | Some cs \<Rightarrow> filter (\<lambda>w. (\<lambda>n. getKind n = TypeAliasDeclaration) (snd w)) (enumerate 0 cs))"
    by (simp add: getTypeAliases_def getChildrenOfKind_def split: option.splits)
  from removeChildren_selected[OF ss, of "\<lambda>n. getKind n = TypeAliasDeclaration"] have
    t: "getCompilerStatements ?t = Inr ?old"
    and tb: "isBodiedNode ?t = isBodiedNode this"
    and ty: "isBodyableNode ?t = isBodyableNode this"
    and ta: "inAmbientContext ?t = inAmbientContext this"
    by (simp_all add: get)
  have emp: "l = [] \<Longrightarrow> addTypeAliases host l ?t = (Inr [], addBodyIfNotExists ?t)"
    by (simp add: addTypeAliases_def t insertTypeAliases_def insertChildren_no_structure)
  have eq: "l \<noteq> [] \<Longrightarrow> snd (addTypeAliases host l ?t) =
        replaceChildren
          (take (nat (int (length ?old))) ?old
           @ parseText host (separatorBefore (isSourceFile ?t) ?old (nat (int (length ?old)))
                               (\<lambda>n. getKind n = TypeAliasDeclaration)
                             @ [PrintTexts (forTypeAliasDeclaration) l]
                             @ separatorAfter ?old (nat (int (length ?old)))
                                 (\<lambda>n. getKind n = TypeAliasDeclaration))
           @ drop (nat (int (length ?old))) ?old) ?t"
  proof -
    assume ne: "l \<noteq> []"
    have "addTypeAliases host l ?t = insertTypeAliases host (int (length ?old)) l ?t"
      by (simp add: addTypeAliases_def t)
    then show ?thesis
      using insertTypeAliases_eq[OF t ne, of "int (length ?old)" host] by (simp add: ta)
  qed
  from ok have ok': "andThen (addTypeAliases host l ?t) (\<lambda>_ this'. (Inr (), this')) = (Inr (), this')"
    by (simp add: set_typeAliases_def Some)
  from rd have rd': "readsDeclarationsOf host (forTypeAliasDeclaration) (Some l)"
    by (simp add: Some)
  from set_step[OF t emp eq rd' ok'] show ?thesis
    by (simp add: Some tb ty ta printerKind_def)
qed

lemma removeBody_shape:
  "isBodyableNode this \<Longrightarrow> getCompilerStatements (removeBody this) = Inr []"
  "isBodiedNode (removeBody this) = False"
  "isBodyableNode (removeBody this) = True"
  "inAmbientContext (removeBody this) = inAmbientContext this"
  by (simp_all add: removeBody_def getCompilerStatements_def isBodiedNode_def isBodyableNode_def)

lemma bodyable_not_bodied: "isBodyableNode this \<Longrightarrow> \<not> isBodiedNode this"
  by (auto simp: isBodiedNode_def isBodyableNode_def split: CompilerNode.splits)

lemma set_removeBodyText_step:
  assumes ss: "getCompilerStatements this = Inr ss"
  shows "\<exists>this1. set_removeBodyText S this = (Inr (), this1)
     \<and> getCompilerStatements this1 = Inr (if clearsStatements S this then [] else ss)
     \<and> isBodiedNode this1 = isBodiedNode this
     \<and> isBodyableNode this1 = isBodyableNode this
     \<and> inAmbientContext this1 = inAmbientContext this"
proof (cases "isBodiedNode this \<or> isBodyableNode this")
  case False
  then show ?thesis
    by (simp add: set_removeBodyText_def clearsStatements_def ss split: OptionalProperty.splits)
next
  case b: True
  show ?thesis
  proof (cases "bodyText S")
    case NotSet
    with b show ?thesis by (simp add: set_removeBodyText_def clearsStatements_def ss)
  next
    case SetToNull
    show ?thesis
    proof (cases "isBodyableNode this")
      case True
      then show ?thesis
        using bodyable_not_bodied[OF True]
        by (simp add: set_removeBodyText_def clearsStatements_def SetToNull removeBody_shape)
    next
      case False
      with b show ?thesis
        by (simp add: set_removeBodyText_def clearsStatements_def SetToNull ss)
    qed
  next
    case (SetTo t)
    show ?thesis
    proof (cases "ss = []")
      case True
      with b show ?thesis
        by (simp add: set_removeBodyText_def clearsStatements_def SetTo ss)
    next
      case False
      from removeStatements_all[OF ss False b] b False show ?thesis
        by (simp add: set_removeBodyText_def clearsStatements_def SetTo ss Let_def
            getCompilerStatements_replaceChildren[OF ss])
    qed
  qed
qed

lemma getChildSyntaxList_addBodyIfNotExists:
  assumes "getCompilerStatements this = Inr ss"
  shows "getChildSyntaxList (addBodyIfNotExists this) = Some ss"
  using assms
  by (auto simp: getCompilerStatements_def getChildSyntaxList_def addBodyIfNotExists_def
      addBody_def isBodyableNode_def hasBody_def split: CompilerNode.splits option.splits)

lemma bodied_not_clause:
  "isBodiedNode this \<or> isBodyableNode this \<Longrightarrow> \<not> isCaseClause this \<and> \<not> isDefaultClause this"
  by (auto simp: isBodiedNode_def isBodyableNode_def isCaseClause_def isDefaultClause_def
      split: CompilerNode.splits)

lemma addStatements_bodied:
  assumes ss: "getCompilerStatements this = Inr ss"
    and b: "isBodiedNode this \<or> isBodyableNode this"
  shows "addStatements host t this
         = (Inr (enumerate (length ss) (parseText host (printTextFromStringOrWriter [] t))),
            replaceChildren (ss @ parseText host (printTextFromStringOrWriter [] t)) this)"
proof -
  have v: "verifyAndGetIndex (int (length ss)) (int (length ss)) = Inr (int (length ss))"
    by (simp add: verifyAndGetIndex_def)
  have i: "insertChildText host (int (length ss)) t ss
           = Inr (enumerate (length ss) (parseText host (printTextFromStringOrWriter [] t)),
                  ss @ parseText host (printTextFromStringOrWriter [] t))"
    by (simp add: insertChildText_def v Let_def)
  show ?thesis
    using bodied_not_clause[OF b]
    by (simp add: addStatements_def ss insertStatements_def Let_def
        getChildSyntaxList_addBodyIfNotExists[OF ss] i replaceChildren_addBodyIfNotExists)
qed

lemma set_bodyText_step:
  assumes ss: "getCompilerStatements this = Inr ss"
  shows "set_bodyText host S this
         = (Inr (), replaceChildren (ss @ bodyTextNodes host S this ss) this)
       \<or> (set_bodyText host S this = (Inr (), this) \<and> bodyTextNodes host S this ss = [])"
proof (cases "isBodiedNode this \<or> isBodyableNode this")
  case False
  then show ?thesis
    by (simp add: set_bodyText_def bodyTextNodes_def split: OptionalProperty.splits)
next
  case b: True
  show ?thesis
  proof (cases "bodyText S")
    case NotSet
    with b show ?thesis by (simp add: set_bodyText_def bodyTextNodes_def)
  next
    case SetToNull
    with b show ?thesis by (simp add: set_bodyText_def bodyTextNodes_def)
  next
    case (SetTo t)
    show ?thesis
      using b
      by (simp add: set_bodyText_def bodyTextNodes_def SetTo ss addStatements_bodied[OF ss b]
          andThen_def printTextFromStringOrWriter_def conditionalNewLine_def
          split: TextOrWriterFunction.splits)
  qed
qed

lemma set_bodyText_statements:
  assumes ss: "getCompilerStatements this = Inr ss"
    and ok: "set_bodyText host S this = (Inr (), this')"
  shows "getCompilerStatements this' = Inr (ss @ bodyTextNodes host S this ss)"
  using set_bodyText_step[OF ss, of host S] ok
  by (auto simp: getCompilerStatements_replaceChildren[OF ss] ss)

lemma andThen_ok:
  assumes "andThen r f = (Inr b, this')"
  obtains a t where "r = (Inr a, t)" "f a t = (Inr b, this')"
  using assms by (auto simp: andThen_def split: prod.splits sum.splits)

lemma keep_other_kind:
  assumes "list_all (\<lambda>n. getKind n = k) ds" "\<And>n. getKind n = k \<Longrightarrow> Q n"
  shows "filter Q ds = ds"
  using assms by (simp add: list_all_iff)

lemma bodyTextNodes_shape:
  assumes "isBodiedNode a = isBodiedNode b" "isBodyableNode a = isBodyableNode b"
  shows "bodyTextNodes host S a ss = bodyTextNodes host S b ss"
  using assms by (cases "bodyText S") (simp_all add: bodyTextNodes_def)

lemma overload_cong:
  assumes "\<And>f. getKind f = FunctionDeclaration \<Longrightarrow> (f \<in> set xs) = (f \<in> set ys)"
  shows "list_ex (\<lambda>f. getKind f = FunctionDeclaration \<and> isOverloadOf n f) xs
         = list_ex (\<lambda>f. getKind f = FunctionDeclaration \<and> isOverloadOf n f) ys"
  using assms by (auto simp: list_ex_iff)

lemma set_structure_statements:
  assumes ok: "set_structure host S this = (Inr (), this')"
    and ss: "getCompilerStatements this = Inr ss"
    and rd: "readsDeclarations host (inAmbientContext this) S"
  shows "getCompilerStatements this' =
     Inr (filter (\<lambda>n. \<not> replacedBy S (if clearsStatements S this then [] else ss) n)
            (if clearsStatements S this then [] else ss)
          @ declarationsOf host (inAmbientContext this) S
          @ bodyTextNodes host S this
              (filter (\<lambda>n. \<not> replacedBy S (if clearsStatements S this then [] else ss) n)
                 (if clearsStatements S this then [] else ss)
               @ declarationsOf host (inAmbientContext this) S))"
proof -
  let ?amb = "inAmbientContext this"
  let ?s1 = "if clearsStatements S this then [] else ss"
  let ?Dc = "declarationsOfList host (forClassDeclaration ?amb) (classes S)"
  let ?De = "declarationsOfList host forEnumDeclaration (enums S)"
  let ?Df = "declarationsOfList host (forFunctionDeclaration ?amb) (functions' S)"
  let ?Di = "declarationsOfList host forInterfaceDeclaration (interfaces S)"
  let ?Dn = "declarationsOfList host (forNamespaceDeclaration ?amb) (namespaces S)"
  let ?Dt = "declarationsOfList host forTypeAliasDeclaration (typeAliases S)"
  let ?A1 = "\<lambda>n. \<not> (classes S \<noteq> None \<and> getKind n = ClassDeclaration)"
  let ?A2 = "\<lambda>n. \<not> (enums S \<noteq> None \<and> getKind n = EnumDeclaration)"
  let ?A3 = "\<lambda>cur n. \<not> (functions' S \<noteq> None \<and> getKind n = FunctionDeclaration
                        \<and> (isAmbient n \<or> isImplementation n
                            \<or> list_ex (\<lambda>f. getKind f = FunctionDeclaration \<and> isOverloadOf n f) cur))"
  let ?A4 = "\<lambda>n. \<not> (interfaces S \<noteq> None \<and> getKind n = InterfaceDeclaration)"
  let ?A5 = "\<lambda>n. \<not> (namespaces S \<noteq> None \<and> getKind n = ModuleDeclaration)"
  let ?A6 = "\<lambda>n. \<not> (typeAliases S \<noteq> None \<and> getKind n = TypeAliasDeclaration)"
  from rd have
    r1: "readsDeclarationsOf host (forClassDeclaration ?amb) (classes S)"
    and r2: "readsDeclarationsOf host forEnumDeclaration (enums S)"
    and r3: "readsDeclarationsOf host (forFunctionDeclaration ?amb) (functions' S)"
    and r4: "readsDeclarationsOf host forInterfaceDeclaration (interfaces S)"
    and r5: "readsDeclarationsOf host (forNamespaceDeclaration ?amb) (namespaces S)"
    and r6: "readsDeclarationsOf host forTypeAliasDeclaration (typeAliases S)"
    by (simp_all add: readsDeclarations_def)
  from set_removeBodyText_step[OF ss, of S] obtain this1 where
    p1: "set_removeBodyText S this = (Inr (), this1)"
    and s1: "getCompilerStatements this1 = Inr ?s1"
    and b1: "isBodiedNode this1 = isBodiedNode this" "isBodyableNode this1 = isBodyableNode this"
    and a1: "inAmbientContext this1 = ?amb"
    by blast
  from ok have c: "andThen (set_classes host S (callBaseSet S this1)) (\<lambda>_ this2.
     andThen (set_enums host S this2) (\<lambda>_ this3.
     andThen (set_functions host S this3) (\<lambda>_ this4.
     andThen (set_interfaces host S this4) (\<lambda>_ this5.
     andThen (set_namespaces host S this5) (\<lambda>_ this6.
     andThen (set_typeAliases host S this6) (\<lambda>_ this7.
     set_bodyText host S this7)))))) = (Inr (), this')"
    by (simp add: set_structure_def p1 andThen_def)
  from c obtain this2 this3 this4 this5 this6 this7 where
    p2: "set_classes host S this1 = (Inr (), this2)"
    and p3: "set_enums host S this2 = (Inr (), this3)"
    and p4: "set_functions host S this3 = (Inr (), this4)"
    and p5: "set_interfaces host S this4 = (Inr (), this5)"
    and p6: "set_namespaces host S this5 = (Inr (), this6)"
    and p7: "set_typeAliases host S this6 = (Inr (), this7)"
    and c7: "set_bodyText host S this7 = (Inr (), this')"
    by (auto elim!: andThen_ok simp: callBaseSet_def)
  from set_classes_step[OF p2 s1] r1 have
    s2: "getCompilerStatements this2 = Inr (filter ?A1 ?s1 @ ?Dc)"
    and k2: "list_all (\<lambda>n. getKind n = ClassDeclaration) ?Dc"
    and b2: "isBodiedNode this2 = isBodiedNode this" "isBodyableNode this2 = isBodyableNode this"
    and a2: "inAmbientContext this2 = ?amb"
    by (simp_all add: a1 b1)
  from set_enums_step[OF p3 s2] r2 have
    s3': "getCompilerStatements this3 = Inr (filter ?A2 (filter ?A1 ?s1 @ ?Dc) @ ?De)"
    and k3: "list_all (\<lambda>n. getKind n = EnumDeclaration) ?De"
    and b3: "isBodiedNode this3 = isBodiedNode this" "isBodyableNode this3 = isBodyableNode this"
    and a3: "inAmbientContext this3 = ?amb"
    by (simp_all add: a2 b2)
  have "filter ?A2 ?Dc = ?Dc" by (rule keep_other_kind[OF k2]) simp
  with s3' have s3: "getCompilerStatements this3 = Inr (filter ?A2 (filter ?A1 ?s1) @ ?Dc @ ?De)"
    by (simp del: filter_filter)
  let ?cur = "filter ?A2 (filter ?A1 ?s1) @ ?Dc @ ?De"
  from set_functions_step[OF p4 s3] r3 have
    s4': "getCompilerStatements this4 = Inr (filter (?A3 ?cur) ?cur @ ?Df)"
    and k4: "list_all (\<lambda>n. getKind n = FunctionDeclaration) ?Df"
    and b4: "isBodiedNode this4 = isBodiedNode this" "isBodyableNode this4 = isBodyableNode this"
    and a4: "inAmbientContext this4 = ?amb"
    by (simp_all add: a3 b3)
  have fun_members: "\<And>f. getKind f = FunctionDeclaration \<Longrightarrow> (f \<in> set ?cur) = (f \<in> set ?s1)"
    using k2 k3 by (auto simp: list_all_iff)
  have A3_cur: "?A3 ?cur = ?A3 ?s1"
    by (intro ext) (simp only: overload_cong[OF fun_members])
  have "filter (?A3 ?s1) ?Dc = ?Dc" by (rule keep_other_kind[OF k2]) simp
  moreover have "filter (?A3 ?s1) ?De = ?De" by (rule keep_other_kind[OF k3]) simp
  ultimately have s4: "getCompilerStatements this4
          = Inr (filter (?A3 ?s1) (filter ?A2 (filter ?A1 ?s1)) @ ?Dc @ ?De @ ?Df)"
    using s4' unfolding A3_cur by (simp del: filter_filter)
  from set_interfaces_step[OF p5 s4] r4 have
    s5': "getCompilerStatements this5
          = Inr (filter ?A4 (filter (?A3 ?s1) (filter ?A2 (filter ?A1 ?s1)) @ ?Dc @ ?De @ ?Df) @ ?Di)"
    and k5: "list_all (\<lambda>n. getKind n = InterfaceDeclaration) ?Di"
    and b5: "isBodiedNode this5 = isBodiedNode this" "isBodyableNode this5 = isBodyableNode this"
    and a5: "inAmbientContext this5 = ?amb"
    by (simp_all add: a4 b4)
  have "filter ?A4 ?Dc = ?Dc" by (rule keep_other_kind[OF k2]) simp
  moreover have "filter ?A4 ?De = ?De" by (rule keep_other_kind[OF k3]) simp
  moreover have "filter ?A4 ?Df = ?Df" by (rule keep_other_kind[OF k4]) simp
  ultimately have s5: "getCompilerStatements this5
          = Inr (filter ?A4 (filter (?A3 ?s1) (filter ?A2 (filter ?A1 ?s1))) @ ?Dc @ ?De @ ?Df @ ?Di)"
    using s5' by (simp del: filter_filter)
  from set_namespaces_step[OF p6 s5] r5 have
    s6': "getCompilerStatements this6
          = Inr (filter ?A5 (filter ?A4 (filter (?A3 ?s1) (filter ?A2 (filter ?A1 ?s1)))
                             @ ?Dc @ ?De @ ?Df @ ?Di) @ ?Dn)"
    and k6: "list_all (\<lambda>n. getKind n = ModuleDeclaration) ?Dn"
    and b6: "isBodiedNode this6 = isBodiedNode this" "isBodyableNode this6 = isBodyableNode this"
    and a6: "inAmbientContext this6 = ?amb"
    by (simp_all add: a5 b5)
  have "filter ?A5 ?Dc = ?Dc" by (rule keep_other_kind[OF k2]) simp
  moreover have "filter ?A5 ?De = ?De" by (rule keep_other_kind[OF k3]) simp
  moreover have "filter ?A5 ?Df = ?Df" by (rule keep_other_kind[OF k4]) simp
  moreover have "filter ?A5 ?Di = ?Di" by (rule keep_other_kind[OF k5]) simp
  ultimately have s6: "getCompilerStatements this6
          = Inr (filter ?A5 (filter ?A4 (filter (?A3 ?s1) (filter ?A2 (filter ?A1 ?s1))))
                 @ ?Dc @ ?De @ ?Df @ ?Di @ ?Dn)"
    using s6' by (simp del: filter_filter)
  from set_typeAliases_step[OF p7 s6] r6 have
    s7': "getCompilerStatements this7
          = Inr (filter ?A6 (filter ?A5 (filter ?A4 (filter (?A3 ?s1) (filter ?A2 (filter ?A1 ?s1))))
                             @ ?Dc @ ?De @ ?Df @ ?Di @ ?Dn) @ ?Dt)"
    and b7: "isBodiedNode this7 = isBodiedNode this" "isBodyableNode this7 = isBodyableNode this"
    by (simp_all add: a6 b6)
  have "filter ?A6 ?Dc = ?Dc" by (rule keep_other_kind[OF k2]) simp
  moreover have "filter ?A6 ?De = ?De" by (rule keep_other_kind[OF k3]) simp
  moreover have "filter ?A6 ?Df = ?Df" by (rule keep_other_kind[OF k4]) simp
  moreover have "filter ?A6 ?Di = ?Di" by (rule keep_other_kind[OF k5]) simp
  moreover have "filter ?A6 ?Dn = ?Dn" by (rule keep_other_kind[OF k6]) simp
  ultimately have s7'': "getCompilerStatements this7
          = Inr (filter ?A6 (filter ?A5 (filter ?A4 (filter (?A3 ?s1) (filter ?A2 (filter ?A1 ?s1)))))
                 @ ?Dc @ ?De @ ?Df @ ?Di @ ?Dn @ ?Dt)"
    using s7' by (simp del: filter_filter)
  have kept: "filter ?A6 (filter ?A5 (filter ?A4 (filter (?A3 ?s1) (filter ?A2 (filter ?A1 ?s1)))))
              = filter (\<lambda>n. \<not> replacedBy S ?s1 n) ?s1"
    unfolding filter_filter by (rule filter_cong[OF refl]) (auto simp: replacedBy_def)
  have s7: "getCompilerStatements this7
          = Inr (filter (\<lambda>n. \<not> replacedBy S ?s1 n) ?s1 @ declarationsOf host ?amb S)"
    using s7'' unfolding kept by (simp add: declarationsOf_def)
  from set_bodyText_statements[OF s7 c7] bodyTextNodes_shape[OF b7, of host S]
  show ?thesis by simp
qed

lemma exampleHost_parseText_append:
  "parseText exampleHost (a @ b) = parseText exampleHost a @ parseText exampleHost b"
  by (simp add: exampleHost_def)

lemma exampleHost_readsDeclarationsOf: "readsDeclarationsOf exampleHost printer structs"
  by (cases structs)
     (simp_all add: readsDeclarationsOf_def exampleHost_parseText_append list_all_iff,
      auto simp: exampleHost_def parseStructure_def)

lemma exampleHost_readsDeclarations: "readsDeclarations exampleHost ambient S"
  by (simp add: readsDeclarations_def exampleHost_readsDeclarationsOf)

subsection \<open>What the bulk set leaves\<close>

text \<open>
  Claim C2, as amended. Let the host read the text \<^verbatim>\<open>set\<close> writes for each list of
  the structure as the declarations of that list. If \<^verbatim>\<open>set\<close> succeeds on a node whose
  statements resolve to \<open>ss\<close>, the statements of the node after the call are, in this
  order:
  \<^item> the statements of \<open>ss\<close> that no block of a kind in the structure removes, in their
    order. A block removes the declarations the getter of its kind returns; for
    functions these are the ambient ones and the ones with a body, and an overload goes
    with its implementation: a function declaration without a body is removed when a
    function declaration of its name has a body, and left when none has. None of \<open>ss\<close>
    is left when the structure has a body text and the node is bodied or bodyable, or has
    its body text set to \<^verbatim>\<open>null\<close> and the node is bodyable: the first block of \<^verbatim>\<open>set\<close>
    has removed every statement by then;
  \<^item> for each kind whose list is in the structure, the declarations of exactly that list,
    kind after kind (nothing for an empty list);
  \<^item> last, the nodes of the body text, when the structure has one and the node is bodied
    or bodyable: the body text comes after every generated declaration.
\<close>

theorem set_replaces_present_kinds:
  "set_structure host S this = (Inr (), this') \<and> getCompilerStatements this = Inr ss
   \<and> readsDeclarations host (inAmbientContext this) S
   \<longrightarrow>
   getCompilerStatements this' =
     Inr (filter (\<lambda>n. \<not> replacedBy S (if clearsStatements S this then [] else ss) n)
            (if clearsStatements S this then [] else ss)
          @ declarationsOf host (inAmbientContext this) S
          @ bodyTextNodes host S this
              (filter (\<lambda>n. \<not> replacedBy S (if clearsStatements S this then [] else ss) n)
                 (if clearsStatements S this then [] else ss)
               @ declarationsOf host (inAmbientContext this) S))"
  using set_structure_statements by blast

text \<open>
  A source file that holds the class \<open>A\<close>, the function \<open>f\<close> with an overload, the
  signature \<open>h\<close> without an implementation, the interface \<open>I\<close> and the statement
  \<open>x;\<close>; the structure has the class \<open>B\<close>, an empty list of enums and the ambient
  function \<open>g\<close>. \<open>A\<close> and both declarations of \<open>f\<close> are removed, \<open>h\<close>, \<open>I\<close> and \<open>x;\<close>
  are left, \<open>B\<close> and \<open>g\<close> come after them.
\<close>

lemma set_example:
  "set_structure exampleHost
     \<lparr>classes = Some [\<lparr>structureName = ''B'', hasDeclareKeyword = None\<rparr>], enums = Some [],
      functions' = Some [\<lparr>structureName = ''g'', hasDeclareKeyword = Some True\<rparr>],
      interfaces = None, namespaces = None, typeAliases = None, bodyText = NotSet\<rparr>
     \<lparr>compilerNode = SourceFile
        [Node ClassDeclaration (Some ''A'') False (Some []) [] ''class A {}'',
         Node FunctionDeclaration (Some ''f'') False None [] ''function f(a: string): void;'',
         Node FunctionDeclaration (Some ''f'') False (Some []) [] ''function f(a: any) {}'',
         Node FunctionDeclaration (Some ''h'') False None [] ''function h(): void;'',
         Node InterfaceDeclaration (Some ''I'') False (Some []) [] ''interface I {}'',
         Node ExpressionStatement None False None [] ''x;''],
      inAmbientContext = False\<rparr>
   = (Inr (),
      \<lparr>compilerNode = SourceFile
        [Node FunctionDeclaration (Some ''h'') False None [] ''function h(): void;'',
         Node InterfaceDeclaration (Some ''I'') False (Some []) [] ''interface I {}'',
         Node ExpressionStatement None False None [] ''x;'',
         Node ClassDeclaration (Some ''B'') False (Some []) [] ''B'',
         Node FunctionDeclaration (Some ''g'') True None [] ''g''],
      inAmbientContext = False\<rparr>)"
  by code_simp

theorem set_replaces_present_kinds_witness:
  "set_structure exampleHost
     \<lparr>classes = Some [\<lparr>structureName = ''B'', hasDeclareKeyword = None\<rparr>], enums = Some [],
      functions' = Some [\<lparr>structureName = ''g'', hasDeclareKeyword = Some True\<rparr>],
      interfaces = None, namespaces = None, typeAliases = None, bodyText = NotSet\<rparr>
     \<lparr>compilerNode = SourceFile
        [Node ClassDeclaration (Some ''A'') False (Some []) [] ''class A {}'',
         Node FunctionDeclaration (Some ''f'') False None [] ''function f(a: string): void;'',
         Node FunctionDeclaration (Some ''f'') False (Some []) [] ''function f(a: any) {}'',
         Node FunctionDeclaration (Some ''h'') False None [] ''function h(): void;'',
         Node InterfaceDeclaration (Some ''I'') False (Some []) [] ''interface I {}'',
         Node ExpressionStatement None False None [] ''x;''],
      inAmbientContext = False\<rparr>
   = (Inr (),
      \<lparr>compilerNode = SourceFile
        [Node FunctionDeclaration (Some ''h'') False None [] ''function h(): void;'',
         Node InterfaceDeclaration (Some ''I'') False (Some []) [] ''interface I {}'',
         Node ExpressionStatement None False None [] ''x;'',
         Node ClassDeclaration (Some ''B'') False (Some []) [] ''B'',
         Node FunctionDeclaration (Some ''g'') True None [] ''g''],
      inAmbientContext = False\<rparr>)
   \<and> getCompilerStatements
      \<lparr>compilerNode = SourceFile
        [Node FunctionDeclaration (Some ''h'') False None [] ''function h(): void;'',
         Node InterfaceDeclaration (Some ''I'') False (Some []) [] ''interface I {}'',
         Node ExpressionStatement None False None [] ''x;'',
         Node ClassDeclaration (Some ''B'') False (Some []) [] ''B'',
         Node FunctionDeclaration (Some ''g'') True None [] ''g''],
      inAmbientContext = False\<rparr>
     = Inr [Node FunctionDeclaration (Some ''h'') False None [] ''function h(): void;'',
         Node InterfaceDeclaration (Some ''I'') False (Some []) [] ''interface I {}'',
         Node ExpressionStatement None False None [] ''x;'',
         Node ClassDeclaration (Some ''B'') False (Some []) [] ''B'',
         Node FunctionDeclaration (Some ''g'') True None [] ''g'']"
  using set_replaces_present_kinds
    [where host = exampleHost
       and S = "\<lparr>classes = Some [\<lparr>structureName = ''B'', hasDeclareKeyword = None\<rparr>], enums = Some [],
      functions' = Some [\<lparr>structureName = ''g'', hasDeclareKeyword = Some True\<rparr>],
      interfaces = None, namespaces = None, typeAliases = None, bodyText = NotSet\<rparr>"
       and this = "\<lparr>compilerNode = SourceFile
        [Node ClassDeclaration (Some ''A'') False (Some []) [] ''class A {}'',
         Node FunctionDeclaration (Some ''f'') False None [] ''function f(a: string): void;'',
         Node FunctionDeclaration (Some ''f'') False (Some []) [] ''function f(a: any) {}'',
         Node FunctionDeclaration (Some ''h'') False None [] ''function h(): void;'',
         Node InterfaceDeclaration (Some ''I'') False (Some []) [] ''interface I {}'',
         Node ExpressionStatement None False None [] ''x;''],
      inAmbientContext = False\<rparr>"
       and this' = "\<lparr>compilerNode = SourceFile
        [Node FunctionDeclaration (Some ''h'') False None [] ''function h(): void;'',
         Node InterfaceDeclaration (Some ''I'') False (Some []) [] ''interface I {}'',
         Node ExpressionStatement None False None [] ''x;'',
         Node ClassDeclaration (Some ''B'') False (Some []) [] ''B'',
         Node FunctionDeclaration (Some ''g'') True None [] ''g''],
      inAmbientContext = False\<rparr>"
       and ss = "[Node ClassDeclaration (Some ''A'') False (Some []) [] ''class A {}'',
         Node FunctionDeclaration (Some ''f'') False None [] ''function f(a: string): void;'',
         Node FunctionDeclaration (Some ''f'') False (Some []) [] ''function f(a: any) {}'',
         Node FunctionDeclaration (Some ''h'') False None [] ''function h(): void;'',
         Node InterfaceDeclaration (Some ''I'') False (Some []) [] ''interface I {}'',
         Node ExpressionStatement None False None [] ''x;'']"]
    set_example exampleHost_readsDeclarations
  by (simp add: getCompilerStatements_def)

text \<open>
  Claim C2 as stated fails. A \<^verbatim>\<open>set\<close> with only a body text on a bodied node that holds
  a class removes the class, a declaration of a kind whose list is not in the structure.
  A \<^verbatim>\<open>set\<close> with a list of functions on a source file that holds the signature
  \<^verbatim>\<open>function f(): void;\<close> and no implementation of \<open>f\<close> leaves the signature, a
  declaration of a kind whose list is in the structure.
\<close>

theorem set_counterexample:
  "set_structure exampleHost
     \<lparr>classes = None, enums = None, functions' = None, interfaces = None, namespaces = None,
      typeAliases = None, bodyText = SetTo (Text ''x;'')\<rparr>
     \<lparr>compilerNode = BodiedNode [Node ClassDeclaration (Some ''A'') False (Some []) [] ''class A {}''],
      inAmbientContext = False\<rparr>
   = (Inr (),
      \<lparr>compilerNode = BodiedNode [Node ExpressionStatement None False None [] ''x;''],
       inAmbientContext = False\<rparr>)
   \<and> set_structure exampleHost
     \<lparr>classes = None, enums = None,
      functions' = Some [\<lparr>structureName = ''g'', hasDeclareKeyword = Some True\<rparr>],
      interfaces = None, namespaces = None, typeAliases = None, bodyText = NotSet\<rparr>
     \<lparr>compilerNode = SourceFile
        [Node FunctionDeclaration (Some ''f'') False None [] ''function f(): void;''],
      inAmbientContext = False\<rparr>
   = (Inr (),
      \<lparr>compilerNode = SourceFile
        [Node FunctionDeclaration (Some ''f'') False None [] ''function f(): void;'',
         Node FunctionDeclaration (Some ''g'') True None [] ''g''],
       inAmbientContext = False\<rparr>)"
  by code_simp

text \<open>
  Claim C10. On a bodied or bodyable node with at least one statement, a \<^verbatim>\<open>set\<close>
  whose structure has a body text starts with \<^verbatim>\<open>removeStatements([0, count - 1])\<close>,
  which succeeds and leaves the node without a statement; the whole \<^verbatim>\<open>set\<close> then does
  what it does on the node with no statement: its outcome and the node it leaves do not
  depend on the statements the node had.
\<close>

theorem set_bodyText_removes_statements:
  "(isBodiedNode this \<or> isBodyableNode this) \<and> getCompilerStatements this = Inr ss
   \<and> ss \<noteq> [] \<and> bodyText S = SetTo t
   \<longrightarrow>
     set_removeBodyText S this = removeStatements (0, int (length ss) - 1) this
   \<and> removeStatements (0, int (length ss) - 1) this = (Inr (), replaceChildren [] this)
   \<and> getCompilerStatements (replaceChildren [] this) = Inr []
   \<and> set_structure host S this = set_structure host S (replaceChildren [] this)"
proof
  assume a: "(isBodiedNode this \<or> isBodyableNode this) \<and> getCompilerStatements this = Inr ss
   \<and> ss \<noteq> [] \<and> bodyText S = SetTo t"
  then have b: "isBodiedNode this \<or> isBodyableNode this"
    and ss: "getCompilerStatements this = Inr ss" and ne: "ss \<noteq> []"
    and t: "bodyText S = SetTo t"
    by simp_all
  have r: "removeStatements (0, int (length ss) - 1) this = (Inr (), replaceChildren [] this)"
    by (rule removeStatements_all[OF ss ne b])
  have p: "set_removeBodyText S this = removeStatements (0, int (length ss) - 1) this"
    using b ne by (simp add: set_removeBodyText_def t ss Let_def)
  have e: "getCompilerStatements (replaceChildren [] this) = Inr []"
    by (rule getCompilerStatements_replaceChildren[OF ss])
  have q: "set_removeBodyText S (replaceChildren [] this) = (Inr (), replaceChildren [] this)"
    using b by (simp add: set_removeBodyText_def t e Let_def)
  have "set_structure host S this = set_structure host S (replaceChildren [] this)"
    by (simp add: set_structure_def p r q andThen_def)
  with p r e show "set_removeBodyText S this = removeStatements (0, int (length ss) - 1) this
   \<and> removeStatements (0, int (length ss) - 1) this = (Inr (), replaceChildren [] this)
   \<and> getCompilerStatements (replaceChildren [] this) = Inr []
   \<and> set_structure host S this = set_structure host S (replaceChildren [] this)"
    by simp
qed

theorem set_bodyText_removes_statements_witness:
  "removeStatements (0, 0) \<lparr>compilerNode = BodiedNode [Node ClassDeclaration (Some ''A'') False (Some []) [] ''class A {}''], inAmbientContext = False\<rparr>
     = (Inr (), \<lparr>compilerNode = BodiedNode [], inAmbientContext = False\<rparr>)
   \<and> set_structure exampleHost
        \<lparr>classes = None, enums = None, functions' = None, interfaces = None, namespaces = None,
      typeAliases = None, bodyText = SetTo (Text ''x;'')\<rparr>
        \<lparr>compilerNode = BodiedNode [Node ClassDeclaration (Some ''A'') False (Some []) [] ''class A {}''], inAmbientContext = False\<rparr>
     = set_structure exampleHost
        \<lparr>classes = None, enums = None, functions' = None, interfaces = None, namespaces = None,
      typeAliases = None, bodyText = SetTo (Text ''x;'')\<rparr>
        \<lparr>compilerNode = BodiedNode [], inAmbientContext = False\<rparr>"
  using set_bodyText_removes_statements
    [where this = "\<lparr>compilerNode = BodiedNode [Node ClassDeclaration (Some ''A'') False (Some []) [] ''class A {}''], inAmbientContext = False\<rparr>"
       and ss = "[Node ClassDeclaration (Some ''A'') False (Some []) [] ''class A {}'']"
       and S = "\<lparr>classes = None, enums = None, functions' = None, interfaces = None, namespaces = None,
      typeAliases = None, bodyText = SetTo (Text ''x;'')\<rparr>"
       and t = "Text ''x;''" and host = exampleHost]
  by (simp add: isBodiedNode_def getCompilerStatements_def replaceChildren_def)


end
